(* ===== verification/Prelude.thy ===== *)
theory Prelude
  imports Main "HOL-Library.Word"
begin

text \<open>
  Shared vocabulary of the development: the byte and string types of the model,
  the exceptions the program raises (its own exception classes of
  \<open>src/crippy_app.py\<close> and the library exceptions that reach its callers),
  the named theorem collections the component theories fill, and generic lemmas
  on lists and options that several components use.
\<close>

section \<open>Types of the model\<close>

text \<open>
  Python \<open>bytes\<close> are lists of 8-bit words; Python \<open>str\<close> values are HOL strings,
  i.e.\ lists of 8-bit characters, so the model covers the code points
  U+0000 to U+00FF (Latin-1) of Python's strings.
\<close>

type_synonym byte = "8 word"
type_synonym bytes = "byte list"

section \<open>Exceptions\<close>

text \<open>
  The first four constructors are the exception classes declared in
  \<open>src/crippy_app.py\<close> (with their message); the others are the exceptions of the
  Python runtime and libraries that the code lets propagate: \<open>UnicodeEncodeError\<close>
  and \<open>UnicodeDecodeError\<close> of \<open>str.encode\<close>/\<open>bytes.decode\<close>, \<open>zlib.error\<close>,
  \<open>cryptography.fernet.InvalidToken\<close>, \<open>OSError\<close> of \<open>open\<close>, \<open>ValueError\<close> of
  the Fernet constructor and of \<open>str.format\<close>, \<open>IndexError\<close> of \<open>str.format\<close>,
  \<open>KeyError\<close> and \<open>TypeError\<close> of dictionary access in the settings store, and
  \<open>LookupError\<close> of opening a file with an encoding the platform does not have.
\<close>

datatype py_error =
    InvalidBlockException string
  | InvalidDataException string
  | MissingFilenameException string
  | InvalidContentException string
  | UnicodeEncodeError
  | UnicodeDecodeError
  | ZlibError
  | InvalidToken
  | OSError string
  | ValueError string
  | IndexError string
  | KeyError string
  | TypeError string
  | LookupError string

type_synonym 'a result = "py_error + 'a"

section \<open>Theorem collections\<close>

named_theorems pystr_simps "evaluation rules of the Python string built-ins on concrete text"
named_theorems regex_simps "evaluation rules of the regular-expression matcher"
named_theorems block_simps "unfolding rules of the block format"

section \<open>Generic lemmas\<close>

lemma take_length_append [simp]: "take (length xs) (xs @ ys) = xs"
  by simp

lemma take_prefix_eq: "take (length p) s = p \<longleftrightarrow> (\<exists>r. s = p @ r)"
  by (metis append_eq_conv_conj append_take_drop_id)

lemma filter_append_single:
  "\<not> P c \<Longrightarrow> filter P (xs @ c # ys) = filter P xs @ filter P ys"
  by simp

lemma dropWhile_append_nonmatch:
  "\<forall>c \<in> set xs. P c \<Longrightarrow> dropWhile P (xs @ ys) = dropWhile P ys"
  by (induction xs) auto

lemma dropWhile_first_nonmatch:
  "\<not> P c \<Longrightarrow> dropWhile P (c # ys) = c # ys"
  by simp

lemma takeWhile_all_then_stop:
  "\<forall>c \<in> set xs. P c \<Longrightarrow> \<not> P c \<Longrightarrow> takeWhile P (xs @ c # ys) = xs"
  by (induction xs) auto

lemma dropWhile_all_then_stop:
  "\<forall>c \<in> set xs. P c \<Longrightarrow> \<not> P c \<Longrightarrow> dropWhile P (xs @ c # ys) = c # ys"
  by (induction xs) auto

lemma dropWhile_when_takeWhile_Nil: "takeWhile P xs = [] \<Longrightarrow> dropWhile P xs = xs"
  by (cases xs) (auto split: if_splits)

lemma length_takeWhile_stop:
  "\<forall>c \<in> set xs. P c \<Longrightarrow> \<not> P c \<Longrightarrow> length (takeWhile P (xs @ c # ys)) = length xs"
  by (simp add: takeWhile_all_then_stop)

lemma map_sum_Some_Inr [simp]: "map_sum id Some x = Inr (Some y) \<longleftrightarrow> x = Inr y"
  by (cases x) auto

lemma map_sum_Some_Inl [simp]: "map_sum id Some x = Inl e \<longleftrightarrow> x = Inl e"
  by (cases x) auto

lemma sum_list_map_length_concat:
  "sum_list (map length xss) = length (concat xss)"
  by (simp add: length_concat)

lemma dropWhile_none: "\<forall>c \<in> set s. \<not> P c \<Longrightarrow> dropWhile P s = s"
  by (cases s) auto

lemma dropWhile_nonempty: "\<exists>c \<in> set s. \<not> P c \<Longrightarrow> dropWhile P s \<noteq> []"
  by (simp add: dropWhile_eq_Nil_conv)

end
