(* ===== verification/PyStr.thy ===== *)
theory PyStr
  imports Prelude
begin

text \<open>
  The Python built-ins on \<open>str\<close> and \<open>bytes\<close> that \<open>src/crippy_app.py\<close> calls,
  written out for the Latin-1 range of code points that HOL characters cover:
  \<open>str.isspace\<close> (also the class \<open>\s\<close> of the \<open>re\<close> module), \<open>str.lower\<close>,
  \<open>str.strip\<close>, \<open>str.find\<close> and the operator \<open>in\<close>, slicing,
  \<open>str.splitlines(keepends=True)\<close>, \<open>str.replace\<close> of one character by nothing,
  and the ASCII codec.  These are library semantics, not code of the repository;
  the lemmas below are what the block codec proofs use of them.
\<close>

section \<open>Character classes\<close>

definition py_isspace :: "char \<Rightarrow> bool" where
  "py_isspace c \<longleftrightarrow>
     (let n = (of_char c :: nat) in (9 \<le> n \<and> n \<le> 13) \<or> (28 \<le> n \<and> n \<le> 32) \<or> n = 133 \<or> n = 160)"

text \<open>The line boundaries of \<open>str.splitlines\<close> in the Latin-1 range:
  \<open>\n \r \v \f \x1c \x1d \x1e \x85\<close>.\<close>

definition is_line_boundary :: "char \<Rightarrow> bool" where
  "is_line_boundary c \<longleftrightarrow>
     (let n = (of_char c :: nat) in (10 \<le> n \<and> n \<le> 13) \<or> (28 \<le> n \<and> n \<le> 30) \<or> n = 133)"

abbreviation LF :: char where "LF \<equiv> CHR 0x0A"
abbreviation CR :: char where "CR \<equiv> CHR 0x0D"

definition is_upper_code :: "nat \<Rightarrow> bool" where
  "is_upper_code n \<longleftrightarrow> (65 \<le> n \<and> n \<le> 90) \<or> (192 \<le> n \<and> n \<le> 222 \<and> n \<noteq> 215)"

text \<open>\<open>str.lower\<close> on Latin-1: A--Z and U+00C0--U+00DE (but U+00D7) move up by 32.\<close>

definition py_lower_char :: "char \<Rightarrow> char" where
  "py_lower_char c = (if is_upper_code (of_char c) then char_of (of_char c + (32::nat)) else c)"

definition py_lower :: "string \<Rightarrow> string" where
  "py_lower s = map py_lower_char s"

definition py_strip :: "string \<Rightarrow> string" where
  "py_strip s = rev (dropWhile py_isspace (rev (dropWhile py_isspace s)))"

declare py_isspace_def [pystr_simps] is_line_boundary_def [pystr_simps]
  is_upper_code_def [pystr_simps] py_lower_char_def [pystr_simps] char_of_eq_iff [pystr_simps]

section \<open>Searching\<close>

text \<open>\<open>find_idx sub s\<close> is the least index at which \<open>sub\<close> occurs in \<open>s\<close>;
  \<open>s.find(sub)\<close> returns it, or \<open>-1\<close>, and \<open>sub in s\<close> tests for it.\<close>

fun find_idx :: "string \<Rightarrow> string \<Rightarrow> nat option" where
  "find_idx sub [] = (if sub = [] then Some 0 else None)"
| "find_idx sub (c # s) =
     (if take (length sub) (c # s) = sub then Some 0 else map_option Suc (find_idx sub s))"

definition py_find :: "string \<Rightarrow> string \<Rightarrow> int" where
  "py_find s sub = (case find_idx sub s of None \<Rightarrow> -1 | Some i \<Rightarrow> int i)"

definition py_in :: "string \<Rightarrow> string \<Rightarrow> bool" where
  "py_in sub s \<longleftrightarrow> find_idx sub s \<noteq> None"

text \<open>Slicing \<open>s[i:j]\<close> with non-negative bounds (Python clamps, and an empty
  slice results when \<open>i \<ge> j\<close>).\<close>

definition py_slice :: "'a list \<Rightarrow> nat \<Rightarrow> nat \<Rightarrow> 'a list" where
  "py_slice s i j = take (j - i) (drop i s)"

section \<open>Lines\<close>

text \<open>\<open>s.splitlines(keepends=True)\<close>: \<open>acc\<close> is the line read so far;
  \<open>\r\n\<close> is one boundary; no empty line is produced at the end.\<close>

fun splitlines_acc :: "string \<Rightarrow> string \<Rightarrow> string list" where
  "splitlines_acc acc [] = (if acc = [] then [] else [acc])"
| "splitlines_acc acc (c # s) =
     (if c = CR then
        (case s of
          d # s' \<Rightarrow> (if d = LF then (acc @ [c, d]) # splitlines_acc [] s'
                     else (acc @ [c]) # splitlines_acc [] s)
        | [] \<Rightarrow> [acc @ [c]])
      else if is_line_boundary c then (acc @ [c]) # splitlines_acc [] s
      else splitlines_acc (acc @ [c]) s)"

definition py_splitlines :: "string \<Rightarrow> string list" where
  "py_splitlines s = splitlines_acc [] s"

text \<open>Lines terminated by a line feed, the shape of the text the program writes.\<close>

definition unlines :: "string list \<Rightarrow> string" where
  "unlines ls = concat (map (\<lambda>l. l @ [LF]) ls)"

text \<open>\<open>sep.join(xs)\<close>.\<close>

fun py_join :: "string \<Rightarrow> string list \<Rightarrow> string" where
  "py_join sep [] = []"
| "py_join sep [x] = x"
| "py_join sep (x # y # xs) = x @ sep @ py_join sep (y # xs)"

definition no_boundary :: "string \<Rightarrow> bool" where
  "no_boundary s \<longleftrightarrow> (\<forall>c \<in> set s. \<not> is_line_boundary c)"

section \<open>ASCII codec\<close>

definition ascii_encode :: "string \<Rightarrow> bytes option" where
  "ascii_encode s =
     (if list_all (\<lambda>c. (of_char c :: nat) < 128) s
      then Some (map (\<lambda>c. word_of_nat (of_char c)) s) else None)"

definition ascii_decode :: "bytes \<Rightarrow> string option" where
  "ascii_decode bs =
     (if list_all (\<lambda>b. unat b < 128) bs then Some (map (\<lambda>b. char_of (unat b)) bs) else None)"

section \<open>POSIX paths (\<open>pathlib.PurePosixPath\<close>)\<close>

text \<open>\<open>str.split(sep)\<close> for a one-character separator.\<close>

fun split_on :: "char \<Rightarrow> string \<Rightarrow> string list" where
  "split_on c [] = [[]]"
| "split_on c (x # xs) =
     (if x = c then [] # split_on c xs
      else (case split_on c xs of w # ws \<Rightarrow> (x # w) # ws | [] \<Rightarrow> [[x]]))"

text \<open>A path is its root (\<open>""\<close>, \<open>"/"\<close>, or \<open>"//"\<close>, which POSIX
  keeps apart) and its components; empty components and \<open>"."\<close> vanish.\<close>

definition path_root :: "string \<Rightarrow> string" where
  "path_root s =
     (if take 2 s = ''//'' \<and> take 3 s \<noteq> ''///'' then ''//''
      else if take 1 s = ''/'' then ''/'' else [])"

definition path_comps :: "string \<Rightarrow> string list" where
  "path_comps s = filter (\<lambda>w. w \<noteq> [] \<and> w \<noteq> ''.'') (split_on (CHR ''/'') s)"

text \<open>\<open>len(Path(s).parts)\<close>, \<open>Path(s).name\<close>, \<open>str(Path(s))\<close> and \<open>Path(d) / t\<close>.\<close>

definition path_nparts :: "string \<Rightarrow> nat" where
  "path_nparts s = (if path_root s = [] then 0 else 1) + length (path_comps s)"

definition path_name :: "string \<Rightarrow> string" where
  "path_name s = (if path_comps s = [] then [] else last (path_comps s))"

definition mk_path :: "string \<Rightarrow> string list \<Rightarrow> string" where
  "mk_path r cs = (if r = [] \<and> cs = [] then ''.'' else r @ py_join ''/'' cs)"

definition path_str :: "string \<Rightarrow> string" where
  "path_str s = mk_path (path_root s) (path_comps s)"

definition path_join :: "string \<Rightarrow> string \<Rightarrow> string" where
  "path_join d t =
     (if path_root t \<noteq> [] then path_str t
      else mk_path (path_root d) (path_comps d @ path_comps t))"

text \<open>\<open>str(Path(s).parent)\<close>: the path without its last component; a path
  without components is its own parent.\<close>

definition path_parent :: "string \<Rightarrow> string" where
  "path_parent s = (if path_comps s = [] then path_str s else mk_path (path_root s) (butlast (path_comps s)))"

lemma split_on_no_sep: "w \<in> set (split_on c s) \<Longrightarrow> c \<notin> set w"
  by (induction c s arbitrary: w rule: split_on.induct) (auto split: if_splits list.splits)

lemma path_name_no_slash: "CHR ''/'' \<notin> set (path_name s)"
proof (cases "path_comps s = []")
  case True
  then show ?thesis by (simp add: path_name_def)
next
  case False
  then have "last (path_comps s) \<in> set (split_on (CHR ''/'') s)"
    using last_in_set [OF False] by (simp add: path_comps_def)
  with False show ?thesis by (simp add: path_name_def split_on_no_sep)
qed

section \<open>Lemmas: lower case\<close>

lemma py_lower_char_eq_iff:
  "py_lower_char c = d \<longleftrightarrow>
     (if is_upper_code (of_char c) then of_char c + 32 = (of_char d :: nat) else c = d)"
proof (cases "is_upper_code (of_char c)")
  case True
  then have lt: "of_char c + 32 < (256::nat)" by (auto simp: is_upper_code_def)
  with True have "py_lower_char c = d \<longleftrightarrow> (of_char c + 32) mod 256 = (of_char d :: nat)"
    by (auto simp: py_lower_char_def char_of_eq_iff take_bit_eq_mod)
  with True lt show ?thesis by simp
next
  case False
  then show ?thesis by (simp add: py_lower_char_def)
qed

lemma char_eq_of_char: "c = d \<longleftrightarrow> (of_char c :: nat) = of_char d"
  by simp

text \<open>Lower-casing never produces an upper-case letter of the range.\<close>

lemma py_lower_char_not_upper: "\<not> is_upper_code (of_char (py_lower_char c))"
proof (cases "is_upper_code (of_char c)")
  case True
  then have "of_char c + 32 < (256::nat)" by (auto simp: is_upper_code_def)
  then have "of_char (py_lower_char c) = (of_char c + 32 :: nat)"
    using True by (simp add: py_lower_char_def)
  with True show ?thesis by (auto simp: is_upper_code_def)
next
  case False
  then show ?thesis by (simp add: py_lower_char_def)
qed

lemma py_lower_char_idem [simp]: "py_lower_char (py_lower_char c) = py_lower_char c"
  using py_lower_char_not_upper [of c] by (simp add: py_lower_char_def [of "py_lower_char c"])

lemma py_lower_idem [simp]: "py_lower (py_lower s) = py_lower s"
  by (simp add: py_lower_def)

lemma py_lower_append [simp]: "py_lower (xs @ ys) = py_lower xs @ py_lower ys"
  by (simp add: py_lower_def)

lemma length_py_lower [simp]: "length (py_lower s) = length s"
  by (simp add: py_lower_def)

text \<open>A character that is not an upper-case letter is its own lower case.\<close>

lemma py_lower_char_fixed: "\<not> is_upper_code (of_char c) \<Longrightarrow> py_lower_char c = c"
  by (simp add: py_lower_char_def)

section \<open>Lemmas: searching\<close>

lemma find_idx_None_iff:
  "find_idx sub s = None \<longleftrightarrow> (\<forall>j \<le> length s. take (length sub) (drop j s) \<noteq> sub)"
proof (induction s)
  case Nil
  then show ?case by auto
next
  case (Cons c s)
  show ?case
  proof
    assume none: "find_idx sub (c # s) = None"
    show "\<forall>j \<le> length (c # s). take (length sub) (drop j (c # s)) \<noteq> sub"
    proof (intro allI impI)
      fix j assume "j \<le> length (c # s)"
      then show "take (length sub) (drop j (c # s)) \<noteq> sub"
        using none Cons.IH by (cases j) (auto split: if_splits)
    qed
  next
    assume all: "\<forall>j \<le> length (c # s). take (length sub) (drop j (c # s)) \<noteq> sub"
    then have "\<forall>j \<le> length s. take (length sub) (drop j s) \<noteq> sub"
      by (metis Suc_le_mono drop_Suc_Cons length_Cons)
    with all Cons.IH show "find_idx sub (c # s) = None"
      by (metis drop0 find_idx.simps(2) option.map_disc_iff zero_le)
  qed
qed

lemma find_idx_Some_prefix [simp]: "find_idx sub (sub @ r) = Some 0"
proof (cases "sub @ r")
  case Nil
  then show ?thesis by simp
next
  case (Cons x t)
  then have "take (length sub) (x # t) = sub" by (metis take_length_append)
  with Cons show ?thesis by simp
qed

text \<open>A text lacking a character of \<open>sub\<close> does not contain \<open>sub\<close>.\<close>

lemma find_idx_missing_char:
  assumes "c \<in> set sub" and "c \<notin> set s"
  shows "find_idx sub s = None"
  unfolding find_idx_None_iff
proof (intro allI impI)
  fix j assume "j \<le> length s"
  have "set (take (length sub) (drop j s)) \<subseteq> set s"
    by (meson set_drop_subset set_take_subset subset_trans)
  with assms show "take (length sub) (drop j s) \<noteq> sub" by (metis subsetD)
qed

text \<open>An occurrence that would cover a separator not in \<open>sub\<close> lies before it.\<close>

lemma take_across_separator:
  assumes "take n (a @ c # b) = sub" and "c \<notin> set sub" and "length sub = n"
  shows "n \<le> length a \<and> take n a = sub"
proof (cases "n \<le> length a")
  case True
  with assms(1) show ?thesis by simp
next
  case False
  then have "length a < length (take n (a @ c # b))" by simp
  then have "take n (a @ c # b) ! length a \<in> set (take n (a @ c # b))" by (rule nth_mem)
  moreover have "take n (a @ c # b) ! length a = c" using False by (simp add: nth_append)
  ultimately have "c \<in> set sub" using assms(1) by metis
  with assms(2) show ?thesis by simp
qed

text \<open>Searching past a segment without an occurrence and a separator not in
  \<open>sub\<close>: the key step for locating the end marker of a block.\<close>

lemma find_idx_skip_segment:
  assumes "find_idx sub a = None" and "c \<notin> set sub"
  shows "find_idx sub (a @ c # b) = map_option (\<lambda>i. Suc (length a + i)) (find_idx sub b)"
  using assms(1)
proof (induction a)
  case Nil
  have "sub \<noteq> []" using Nil by (auto split: if_splits)
  then have "take (length sub) (c # b) \<noteq> sub"
    using assms(2) by (cases sub) auto
  then show ?case by (simp add: option.map_comp comp_def)
next
  case (Cons x a)
  have no_a: "find_idx sub a = None"
    using Cons.prems by (auto split: if_splits)
  have "take (length sub) ((x # a) @ c # b) \<noteq> sub"
  proof
    assume "take (length sub) ((x # a) @ c # b) = sub"
    then have "take (length sub) (x # a) = sub"
      using take_across_separator [of "length sub" "x # a" c b sub] assms(2) by simp
    with Cons.prems show False by (auto split: if_splits)
  qed
  with Cons.IH [OF no_a] show ?case by (simp add: option.map_comp comp_def)
qed

lemma find_idx_append_None:
  assumes "find_idx sub a = None" and "c \<notin> set sub" and "find_idx sub b = None"
  shows "find_idx sub (a @ c # b) = None"
  using find_idx_skip_segment [OF assms(1,2)] assms(3) by simp

section \<open>Lemmas: lines\<close>

lemma concat_splitlines_acc: "concat (splitlines_acc acc s) = acc @ s"
  by (induction acc s rule: splitlines_acc.induct) (auto split: list.splits)

lemma splitlines_acc_line:
  assumes "no_boundary x"
  shows "splitlines_acc acc (x @ LF # r) = (acc @ x @ [LF]) # splitlines_acc [] r"
  using assms
proof (induction x arbitrary: acc)
  case Nil
  then show ?case by (simp add: is_line_boundary_def)
next
  case (Cons c x)
  then have "\<not> is_line_boundary c" and "no_boundary x"
    by (auto simp: no_boundary_def)
  moreover have "c \<noteq> CR"
    using \<open>\<not> is_line_boundary c\<close> by (auto simp: is_line_boundary_def)
  ultimately show ?case using Cons.IH by simp
qed

lemma splitlines_unlines:
  assumes "\<forall>l \<in> set ls. no_boundary l"
  shows "py_splitlines (unlines ls @ r) = map (\<lambda>l. l @ [LF]) ls @ py_splitlines r"
  using assms
  by (induction ls) (simp_all add: py_splitlines_def unlines_def splitlines_acc_line)

lemma py_splitlines_Nil [simp]: "py_splitlines [] = []"
  by (simp add: py_splitlines_def)

lemma unlines_append [simp]: "unlines (xs @ ys) = unlines xs @ unlines ys"
  by (simp add: unlines_def)

lemma unlines_Cons [simp]: "unlines (x # xs) = x @ LF # unlines xs"
  by (simp add: unlines_def)

lemma unlines_Nil [simp]: "unlines [] = []"
  by (simp add: unlines_def)

lemma length_unlines: "length (unlines ls) = sum_list (map (\<lambda>l. Suc (length l)) ls)"
  by (induction ls) auto

text \<open>\<open>"\n".join(xs) + "\n"\<close> are the lines \<open>xs\<close>, or one empty line for no \<open>xs\<close>.\<close>

lemma py_join_LF_unlines:
  "py_join [LF] xs @ [LF] = unlines (if xs = [] then [[]] else xs)"
  by (induction "[LF]" xs rule: py_join.induct) simp_all

section \<open>Lemmas: character classes and stripping\<close>

lemma py_lower_char_cases:
  "py_lower_char c = c \<or> (is_upper_code (of_char c) \<and> of_char (py_lower_char c) = (of_char c + 32 :: nat))"
  by (auto simp: py_lower_char_def is_upper_code_def)

lemma py_lower_char_space [simp]: "py_isspace (py_lower_char c) \<longleftrightarrow> py_isspace c"
  using py_lower_char_cases [of c] by (auto simp: py_isspace_def is_upper_code_def Let_def)

lemma py_lower_char_boundary [simp]: "is_line_boundary (py_lower_char c) \<longleftrightarrow> is_line_boundary c"
  using py_lower_char_cases [of c] by (auto simp: is_line_boundary_def is_upper_code_def Let_def)

lemma py_lower_char_semicolon [simp]: "py_lower_char c = CHR '';'' \<longleftrightarrow> c = CHR '';''"
  by (auto simp: py_lower_char_eq_iff is_upper_code_def)

lemma py_strip_fixed_hd:
  assumes "py_strip s = s" and "s \<noteq> []"
  shows "\<not> py_isspace (hd s)"
proof
  assume sp: "py_isspace (hd s)"
  obtain a t where s: "s = a # t" using assms(2) by (cases s) auto
  have "length (py_strip s) \<le> length (dropWhile py_isspace s)"
    using length_dropWhile_le [of py_isspace "rev (dropWhile py_isspace s)"] by (simp add: py_strip_def)
  also have "\<dots> = length (dropWhile py_isspace t)" using s sp by simp
  also have "\<dots> \<le> length t" by (rule length_dropWhile_le)
  finally show False using assms(1) s by simp
qed

lemma py_strip_no_space: "\<forall>c \<in> set s. \<not> py_isspace c \<Longrightarrow> py_strip s = s"
  by (simp add: py_strip_def dropWhile_none)

lemma py_strip_nonempty:
  assumes "\<exists>c \<in> set s. \<not> py_isspace c"
  shows "py_strip s \<noteq> []"
proof -
  have ne: "dropWhile py_isspace s \<noteq> []" using assms by (rule dropWhile_nonempty)
  then have "\<not> py_isspace (hd (dropWhile py_isspace s))" by (rule hd_dropWhile)
  moreover have "hd (dropWhile py_isspace s) \<in> set (rev (dropWhile py_isspace s))" using ne by simp
  ultimately have "\<exists>c \<in> set (rev (dropWhile py_isspace s)). \<not> py_isspace c" by blast
  then show ?thesis by (simp add: py_strip_def dropWhile_eq_Nil_conv)
qed

lemma find_idx_single: "find_idx [c] s = None \<longleftrightarrow> c \<notin> set s"
  by (induction s) auto

lemma no_boundary_LF: "no_boundary s \<Longrightarrow> LF \<notin> set s"
  by (auto simp: no_boundary_def is_line_boundary_def)

lemma find_idx_unlines:
  assumes "\<forall>l \<in> set ls. find_idx sub l = None" and "LF \<notin> set sub"
  shows "find_idx sub (unlines ls @ r) = map_option (\<lambda>i. length (unlines ls) + i) (find_idx sub r)"
  using assms(1)
proof (induction ls)
  case Nil
  then show ?case by (simp add: option.map_ident)
next
  case (Cons l ls)
  then have "find_idx sub (l @ LF # (unlines ls @ r)) =
               map_option (\<lambda>i. Suc (length l + i)) (find_idx sub (unlines ls @ r))"
    using assms(2) by (intro find_idx_skip_segment) auto
  with Cons show ?case by (simp add: option.map_comp comp_def add.assoc)
qed

lemma removeAll_LF_unlines:
  "\<forall>l \<in> set ls. LF \<notin> set l \<Longrightarrow> removeAll LF (unlines ls) = concat ls"
  by (induction ls) auto

lemma no_boundary_append [simp]: "no_boundary (xs @ ys) \<longleftrightarrow> no_boundary xs \<and> no_boundary ys"
  by (auto simp: no_boundary_def)

lemma no_boundary_Nil [simp]: "no_boundary []"
  by (simp add: no_boundary_def)

section \<open>Lemmas: paths\<close>

text \<open>\<open>str(Path(s))\<close> is a normal form: parsing it again gives the same root
  and components, so \<open>Path(str(Path(s)))\<close> has the same name and parent.\<close>

lemma split_on_no_sep_eq: "c \<notin> set g \<Longrightarrow> split_on c g = [g]"
  by (induction g) auto

lemma split_on_sep: "c \<notin> set g \<Longrightarrow> split_on c (g @ c # r) = g # split_on c r"
  by (induction g) auto

lemma split_on_py_join:
  "cs \<noteq> [] \<Longrightarrow> \<forall>w \<in> set cs. CHR ''/'' \<notin> set w \<Longrightarrow> split_on (CHR ''/'') (py_join ''/'' cs) = cs"
  by (induction "''/''" cs rule: py_join.induct) (simp_all add: split_on_no_sep_eq split_on_sep)

lemma path_comps_ok: "w \<in> set (path_comps s) \<Longrightarrow> w \<noteq> [] \<and> w \<noteq> ''.'' \<and> CHR ''/'' \<notin> set w"
  using split_on_no_sep [of w "CHR ''/''" s] by (auto simp: path_comps_def)

lemma py_join_hd:
  "cs \<noteq> [] \<Longrightarrow> \<forall>w \<in> set cs. w \<noteq> [] \<and> w \<noteq> ''.'' \<and> CHR ''/'' \<notin> set w \<Longrightarrow> \<exists>c r. py_join ''/'' cs = c # r \<and> c \<noteq> CHR ''/''"
  by (cases cs; cases "tl cs") (auto simp: neq_Nil_conv)

lemma mk_path_parts:
  assumes "r \<in> {[], ''/'', ''//''}" and "\<forall>w \<in> set cs. w \<noteq> [] \<and> w \<noteq> ''.'' \<and> CHR ''/'' \<notin> set w"
  shows "path_root (mk_path r cs) = r \<and> path_comps (mk_path r cs) = cs"
proof (cases "cs = []")
  case True
  then show ?thesis using assms(1)
    by (auto simp: mk_path_def path_root_def path_comps_def)
next
  case False
  obtain c t where j: "py_join ''/'' cs = c # t" and c: "c \<noteq> CHR ''/''"
    using py_join_hd [OF False assms(2)] by blast
  have sp: "split_on (CHR ''/'') (py_join ''/'' cs) = cs"
    using split_on_py_join [OF False] assms(2) by auto
  have f: "filter (\<lambda>w. w \<noteq> [] \<and> w \<noteq> ''.'') cs = cs"
    using assms(2) by (auto simp: filter_id_conv)
  show ?thesis using assms(1) False sp f c j
    by (auto simp: mk_path_def path_root_def path_comps_def)
qed

lemma path_root_cases: "path_root s \<in> {[], ''/'', ''//''}"
  by (simp add: path_root_def)

lemma path_str_parts: "path_root (path_str s) = path_root s \<and> path_comps (path_str s) = path_comps s"
  using mk_path_parts [OF path_root_cases] path_comps_ok by (simp add: path_str_def)

lemma path_str_idem: "path_str (path_str s) = path_str s \<and> path_name (path_str s) = path_name s
  \<and> path_parent (path_str s) = path_parent s"
proof -
  have r: "path_root (path_str s) = path_root s" and c: "path_comps (path_str s) = path_comps s"
    using path_str_parts [of s] by simp_all
  have i: "path_str (path_str s) = path_str s"
    by (simp only: path_str_def [of "path_str s"] r c) (simp add: path_str_def)
  show ?thesis using i by (simp add: path_name_def path_parent_def r c)
qed

lemma path_str_nonempty: "path_str s \<noteq> []"
proof (cases "path_comps s = []")
  case False
  then obtain c r where "py_join ''/'' (path_comps s) = c # r"
    using py_join_hd [OF False] path_comps_ok by blast
  then show ?thesis by (simp add: path_str_def mk_path_def)
qed (simp add: path_str_def mk_path_def)

end
