(* ===== verification/DataObject.thy ===== *)
theory DataObject
  imports PyStr
begin

text \<open>
  The payload of \<open>src/crippy_app.py\<close>: the dataclass \<open>DataObject\<close> (lines 36--203)
  with its compression step \<open>_store_data\<close>, the two factories \<open>from_str\<close> and
  \<open>from_file\<close>, and the two renderers \<open>as_str\<close> and \<open>to_file\<close>.  The library
  functions these call (\<open>zlib.compress\<close>, \<open>zlib.decompress\<close>, \<open>str.encode\<close>,
  \<open>bytes.decode\<close>) are the fields of a record \<open>pylib\<close>, so that every theorem
  holds for any implementation with the stated property; files are a record of
  the file system, passed in and returned.
\<close>

section \<open>State and library interface\<close>

record data_object =
  content_type :: "string option"
  charset :: "string option"
  is_zipped :: bool
  filename :: "string option"
  binary_data :: "bytes option"

definition DEFAULT_CHARSET :: string where
  "DEFAULT_CHARSET = ''utf-8''"

text \<open>\<open>cls()\<close>: every field at its dataclass default.\<close>

definition new_data_object :: data_object where
  "new_data_object =
     \<lparr>content_type = None, charset = None, is_zipped = False, filename = None, binary_data = None\<rparr>"

record pylib =
  zlib_compress :: "bytes \<Rightarrow> bytes"
  zlib_decompress :: "bytes \<Rightarrow> bytes result"
  str_encode :: "string \<Rightarrow> string \<Rightarrow> bytes result"   \<comment> \<open>charset, text\<close>
  bytes_decode :: "string \<Rightarrow> bytes \<Rightarrow> string result"  \<comment> \<open>charset, data\<close>

text \<open>The file system: file contents by normalised path, and the directories
  (opening a directory as a file raises \<open>IsADirectoryError\<close>).\<close>

record fsys =
  fs_files :: "string \<Rightarrow> bytes option"
  fs_dirs :: "string set"

section \<open>Operations\<close>

text \<open>\<open>_store_data(data, zip_data)\<close>: \<open>zip_data\<close> is \<open>None\<close> (auto), or a forced choice.\<close>

definition store_data :: "pylib \<Rightarrow> data_object \<Rightarrow> bytes option \<Rightarrow> bool option \<Rightarrow> data_object" where
  "store_data L d data zip_data =
     (case data of
       None \<Rightarrow> d
     | Some b \<Rightarrow>
         (let zipped_data = zlib_compress L b;
              zip = (case zip_data of None \<Rightarrow> length zipped_data < length b | Some z \<Rightarrow> z)
          in if zip then d\<lparr>binary_data := Some zipped_data, is_zipped := True\<rparr>
             else d\<lparr>binary_data := Some b, is_zipped := False\<rparr>))"

definition from_str ::
  "pylib \<Rightarrow> string option \<Rightarrow> string option \<Rightarrow> bool option \<Rightarrow> data_object result" where
  "from_str L text cs zip_data =
     (let d = new_data_object\<lparr>content_type := Some ''text/plain''\<rparr>;
          cs' = (case cs of None \<Rightarrow> DEFAULT_CHARSET | Some c \<Rightarrow> c);
          d = d\<lparr>charset := Some cs', filename := None\<rparr>
      in case text of
           None \<Rightarrow> Inr d
         | Some t \<Rightarrow>
             (case str_encode L cs' t of
               Inl e \<Rightarrow> Inl e
             | Inr b \<Rightarrow> Inr (store_data L d (Some b) zip_data)))"

definition as_str :: "pylib \<Rightarrow> data_object \<Rightarrow> string option \<Rightarrow> string option result" where
  "as_str L d cs =
     (case binary_data d of
       None \<Rightarrow> Inr None
     | Some b \<Rightarrow>
         (let cs1 = (case cs of None \<Rightarrow> charset d | Some c \<Rightarrow> Some c);
              cs2 = (case cs1 of None \<Rightarrow> DEFAULT_CHARSET | Some c \<Rightarrow> c)
          in if is_zipped d then
               (case zlib_decompress L b of
                 Inl e \<Rightarrow> Inl e
               | Inr raw \<Rightarrow> map_sum id Some (bytes_decode L cs2 raw))
             else map_sum id Some (bytes_decode L cs2 b)))"

definition from_file ::
  "pylib \<Rightarrow> fsys \<Rightarrow> string \<Rightarrow> bool option \<Rightarrow> data_object result" where
  "from_file L fs fname zip_data =
     (let d = new_data_object\<lparr>content_type := Some ''application/octet-stream''\<rparr>;
          d = d\<lparr>filename := Some (path_name fname), charset := None\<rparr>
      in case fs_files fs (path_str fname) of
           None \<Rightarrow> Inl (OSError ''cannot open file for reading'')
         | Some b \<Rightarrow> Inr (store_data L d (Some b) zip_data))"

text \<open>\<open>to_file(filename, directory)\<close>.  \<open>open(target, "wb")\<close> creates or truncates
  the file before the body of the \<open>with\<close> block runs, so a failing
  \<open>zlib.decompress\<close> leaves an empty file behind.\<close>

definition write_target :: "string \<Rightarrow> string option \<Rightarrow> string" where
  "write_target f directory =
     (case directory of
       Some dir \<Rightarrow> if path_nparts f = 1 then path_join dir f else path_str f
     | None \<Rightarrow> path_str f)"

definition to_file ::
  "pylib \<Rightarrow> fsys \<Rightarrow> data_object \<Rightarrow> string option \<Rightarrow> string option
     \<Rightarrow> (string \<times> nat) option result \<times> fsys" where
  "to_file L fs d fname directory =
     (case binary_data d of
       None \<Rightarrow> (Inr None, fs)
     | Some b \<Rightarrow>
         (case (case fname of
                  None \<Rightarrow> (case filename d of
                             None \<Rightarrow> Inl (MissingFilenameException ''to_file(): no filename received'')
                           | Some f \<Rightarrow> Inr f)
                | Some f \<Rightarrow> Inr f) of
           Inl e \<Rightarrow> (Inl e, fs)
         | Inr f \<Rightarrow>
             (let target = write_target f directory
              in if target \<in> fs_dirs fs then (Inl (OSError ''is a directory''), fs)
                 else
                   (let fs = fs\<lparr>fs_files := (fs_files fs)(target \<mapsto> [])\<rparr>
                    in if is_zipped d then
                         (case zlib_decompress L b of
                           Inl e \<Rightarrow> (Inl e, fs)
                         | Inr raw \<Rightarrow> (Inr (Some (target, length raw)),
                                       fs\<lparr>fs_files := (fs_files fs)(target \<mapsto> raw)\<rparr>))
                       else (Inr (Some (target, length b)),
                             fs\<lparr>fs_files := (fs_files fs)(target \<mapsto> b)\<rparr>)))))"

section \<open>Invariants\<close>

text \<open>The payload invariant of the specification: a text payload has no file
  name, a binary payload no charset (and its file name has no directory).\<close>

definition wf_text :: "data_object \<Rightarrow> bool" where
  "wf_text d \<longleftrightarrow> content_type d = Some ''text/plain'' \<and> filename d = None \<and> charset d \<noteq> None"

definition wf_binary :: "data_object \<Rightarrow> bool" where
  "wf_binary d \<longleftrightarrow> content_type d = Some ''application/octet-stream'' \<and> charset d = None
     \<and> (\<forall>f. filename d = Some f \<longrightarrow> CHR ''/'' \<notin> set f)"

text \<open>The bytes a payload stands for: its data, decompressed when flagged so.\<close>

definition restored_bytes :: "pylib \<Rightarrow> data_object \<Rightarrow> bytes option result" where
  "restored_bytes L d =
     (case binary_data d of
       None \<Rightarrow> Inr None
     | Some x \<Rightarrow> if is_zipped d then map_sum id Some (zlib_decompress L x) else Inr (Some x))"

section \<open>A concrete library for examples\<close>

text \<open>A small instance of \<open>pylib\<close> used by the witnesses: a run-length
  compressor for constant data (tag 0) that stores anything else behind tag 1,
  and the ASCII codec for every charset.\<close>

definition demo_lib :: pylib where
  "demo_lib =
     \<lparr>zlib_compress = (\<lambda>b. if b \<noteq> [] \<and> length b < 256 \<and> list_all (\<lambda>x. x = hd b) b
                          then [0, hd b, word_of_nat (length b)] else 1 # b),
      zlib_decompress = (\<lambda>z. case z of
                            [t, x, n] \<Rightarrow> if t = 0 then Inr (replicate (unat n) x)
                                         else if t = 1 then Inr [x, n] else Inl ZlibError
                          | t # b \<Rightarrow> if t = 1 then Inr b else Inl ZlibError
                          | [] \<Rightarrow> Inl ZlibError),
      str_encode = (\<lambda>cs t. case ascii_encode t of None \<Rightarrow> Inl UnicodeEncodeError | Some b \<Rightarrow> Inr b),
      bytes_decode = (\<lambda>cs b. case ascii_decode b of None \<Rightarrow> Inl UnicodeDecodeError | Some t \<Rightarrow> Inr t)\<rparr>"

definition demo_fs :: fsys where
  "demo_fs = \<lparr>fs_files = [''notes.txt'' \<mapsto> [104, 105]], fs_dirs = {''.'', ''/tmp''}\<rparr>"

section \<open>Lemmas\<close>

lemma store_data_None [simp]: "store_data L d None z = d"
  by (simp add: store_data_def)

text \<open>The fields \<open>_store_data\<close> does not write.\<close>

lemma store_data_frame [simp]:
  "content_type (store_data L d b z) = content_type d"
  "charset (store_data L d b z) = charset d"
  "filename (store_data L d b z) = filename d"
  by (simp_all add: store_data_def Let_def split: option.splits)

lemma from_str_Some:
  "from_str L (Some t) cs z =
     map_sum id (\<lambda>b. store_data L (new_data_object\<lparr>content_type := Some ''text/plain'',
          charset := Some (case cs of None \<Rightarrow> DEFAULT_CHARSET | Some c \<Rightarrow> c), filename := None\<rparr>) (Some b) z)
       (str_encode L (case cs of None \<Rightarrow> DEFAULT_CHARSET | Some c \<Rightarrow> c) t)"
  by (simp add: from_str_def Let_def new_data_object_def split: sum.splits)

section \<open>Compression\<close>

text \<open>C1: Whatever the compression mode, the stored data gives back the original
  bytes: decompressed when the payload is flagged compressed, as it is otherwise
  (given that \<open>zlib.decompress\<close> inverts \<open>zlib.compress\<close> on these bytes).\<close>

theorem store_data_restores:
  assumes "zlib_decompress L (zlib_compress L b) = Inr b"
  shows "restored_bytes L (store_data L d (Some b) zip_data) = Inr (Some b)"
  using assms by (simp add: store_data_def Let_def restored_bytes_def)

theorem store_data_restores_witness:
  "restored_bytes demo_lib (store_data demo_lib new_data_object (Some [7, 7, 7, 7]) None)
     = Inr (Some [7, 7, 7, 7])"
  by (rule store_data_restores) code_simp

text \<open>C2: In auto mode (\<open>zip_data = None\<close>) the stored data is never longer than
  the smaller of the raw and the compressed data, and it is flagged compressed
  exactly when compression made it strictly shorter.\<close>

theorem store_data_auto_size:
  "binary_data (store_data L d (Some b) None) = Some x \<Longrightarrow>
     length x = min (length b) (length (zlib_compress L b))
     \<and> is_zipped (store_data L d (Some b) None) = (length (zlib_compress L b) < length b)"
  by (auto simp: store_data_def Let_def split: if_splits)

theorem store_data_auto_size_witness:
  "binary_data (store_data demo_lib new_data_object (Some [7, 7, 7, 7]) None) = Some [0, 7, 4]
   \<and> length [0, 7, (4::byte)] = min (length [7, 7, 7, (7::byte)]) (length (zlib_compress demo_lib [7, 7, 7, 7]))
   \<and> is_zipped (store_data demo_lib new_data_object (Some [7, 7, 7, 7]) None)
       = (length (zlib_compress demo_lib [7, 7, 7, 7]) < length [7, 7, 7, (7::byte)])"
proof -
  have b: "binary_data (store_data demo_lib new_data_object (Some [7, 7, 7, 7]) None) = Some [0, 7, 4]"
    by (simp add: store_data_def Let_def demo_lib_def)
  show ?thesis using b store_data_auto_size [OF b] by simp
qed

text \<open>C3: The forced modes: \<open>zip_data=False\<close> stores the raw bytes unflagged,
  \<open>zip_data=True\<close> the compressed bytes flagged, even when they are longer.\<close>

theorem store_data_forced:
  "store_data L d (Some b) (Some False) = d\<lparr>binary_data := Some b, is_zipped := False\<rparr>
   \<and> store_data L d (Some b) (Some True) = d\<lparr>binary_data := Some (zlib_compress L b), is_zipped := True\<rparr>"
  by (simp add: store_data_def Let_def)

section \<open>Factories\<close>

text \<open>C4: \<open>from_str\<close> builds a text payload: content type \<open>text/plain\<close>, no
  file name, and the given charset or \<open>utf-8\<close>.\<close>

theorem from_str_wf:
  assumes "from_str L text cs z = Inr d"
  shows "wf_text d \<and> charset d = Some (case cs of None \<Rightarrow> DEFAULT_CHARSET | Some c \<Rightarrow> c)"
  using assms by (auto simp: from_str_def Let_def wf_text_def new_data_object_def split: option.splits sum.splits)

theorem from_str_wf_witness:
  "wf_text (projr (from_str demo_lib (Some ''hello world'') None None))
   \<and> charset (projr (from_str demo_lib (Some ''hello world'') None None)) = Some DEFAULT_CHARSET"
proof -
  have r: "from_str demo_lib (Some ''hello world'') None None
             = Inr (projr (from_str demo_lib (Some ''hello world'') None None))"
    by (simp add: from_str_def demo_lib_def ascii_encode_def)
  show ?thesis using from_str_wf [OF r] by simp
qed

text \<open>C5: \<open>from_file\<close> builds a binary payload: content type
  \<open>application/octet-stream\<close>, no charset, and as file name the base name of the
  path, which contains no directory separator.\<close>

theorem from_file_wf:
  assumes "from_file L fs p z = Inr d"
  shows "wf_binary d \<and> filename d = Some (path_name p)"
  using assms path_name_no_slash [of p]
  by (auto simp: from_file_def Let_def wf_binary_def new_data_object_def split: option.splits)

theorem from_file_wf_witness:
  "wf_binary (projr (from_file demo_lib demo_fs ''./notes.txt'' None))
   \<and> filename (projr (from_file demo_lib demo_fs ''./notes.txt'' None)) = Some (path_name ''./notes.txt'')"
proof -
  have r: "from_file demo_lib demo_fs ''./notes.txt'' None
             = Inr (projr (from_file demo_lib demo_fs ''./notes.txt'' None))"
    by (simp add: from_file_def demo_fs_def path_str_def path_root_def path_comps_def mk_path_def)
  show ?thesis using from_file_wf [OF r] by simp
qed

section \<open>Text round trip\<close>

text \<open>C6: \<open>as_str()\<close> gives back the text a payload was made from by
  \<open>from_str\<close>, in every compression mode, when the charset's decoder inverts its
  encoder on that text and \<open>zlib.decompress\<close> inverts \<open>zlib.compress\<close> on its
  bytes.\<close>

theorem as_str_from_str:
  assumes "from_str L (Some t) cs z = Inr d"
    and "str_encode L (case cs of None \<Rightarrow> DEFAULT_CHARSET | Some c \<Rightarrow> c) t = Inr b"
    and "bytes_decode L (case cs of None \<Rightarrow> DEFAULT_CHARSET | Some c \<Rightarrow> c) b = Inr t"
    and "zlib_decompress L (zlib_compress L b) = Inr b"
  shows "as_str L d None = Inr (Some t)"
  using assms by (auto simp: from_str_def as_str_def Let_def store_data_def new_data_object_def)

theorem as_str_from_str_witness:
  "as_str demo_lib (projr (from_str demo_lib (Some ''aaaa'') None None)) None = Inr (Some ''aaaa'')"
proof -
  have r: "from_str demo_lib (Some ''aaaa'') None None
             = Inr (projr (from_str demo_lib (Some ''aaaa'') None None))"
    by (simp add: from_str_def demo_lib_def ascii_encode_def)
  have e: "str_encode demo_lib (case None of None \<Rightarrow> DEFAULT_CHARSET | Some c \<Rightarrow> c) ''aaaa'' = Inr [97, 97, 97, 97]"
    by (simp add: demo_lib_def ascii_encode_def)
  have dcd: "bytes_decode demo_lib (case None of None \<Rightarrow> DEFAULT_CHARSET | Some c \<Rightarrow> c) [97, 97, 97, 97] = Inr ''aaaa''"
    by (simp add: demo_lib_def ascii_decode_def char_of_eq_iff)
  have zz: "zlib_decompress demo_lib (zlib_compress demo_lib [97, 97, 97, 97]) = Inr [97, 97, 97, 97]"
    by code_simp
  show ?thesis by (rule as_str_from_str [OF r e dcd zz])
qed

section \<open>Writing files\<close>

text \<open>C7: Without a file name argument and without a file name in the payload,
  \<open>to_file\<close> raises \<open>MissingFilenameException\<close> and writes nothing.\<close>

theorem to_file_missing_filename:
  assumes "binary_data d = Some b" and "filename d = None"
  shows "to_file L fs d None directory
           = (Inl (MissingFilenameException ''to_file(): no filename received''), fs)"
  using assms by (simp add: to_file_def)

theorem to_file_missing_filename_witness:
  "to_file demo_lib demo_fs (new_data_object\<lparr>binary_data := Some [1]\<rparr>) None None
     = (Inl (MissingFilenameException ''to_file(): no filename received''), demo_fs)"
  by (rule to_file_missing_filename) (simp_all add: new_data_object_def)

text \<open>C8: \<open>to_file\<close> writes the restored bytes to the target chosen from the
  argument, or else from the payload's file name (the argument wins), and
  returns that path and the number of bytes written.\<close>

theorem to_file_writes:
  assumes "binary_data d = Some b" and "restored_bytes L d = Inr (Some raw)"
    and "(case fname of None \<Rightarrow> filename d | Some f \<Rightarrow> Some f) = Some f"
    and "write_target f directory \<notin> fs_dirs fs"
  shows "to_file L fs d fname directory
           = (Inr (Some (write_target f directory, length raw)),
              fs\<lparr>fs_files := (fs_files fs)(write_target f directory \<mapsto> raw)\<rparr>)"
  using assms by (auto simp: to_file_def restored_bytes_def Let_def split: option.splits if_splits)

theorem to_file_writes_witness:
  "to_file demo_lib demo_fs (new_data_object\<lparr>binary_data := Some [104, 105], filename := Some ''a.txt''\<rparr>)
      (Some ''b.txt'') (Some ''/tmp'')
   = (Inr (Some (write_target ''b.txt'' (Some ''/tmp''), length [104, 105 :: byte])),
      demo_fs\<lparr>fs_files := (fs_files demo_fs)(write_target ''b.txt'' (Some ''/tmp'') \<mapsto> [104, 105])\<rparr>)"
proof (rule to_file_writes)
  show "write_target ''b.txt'' (Some ''/tmp'') \<notin> fs_dirs demo_fs"
    by (simp add: write_target_def demo_fs_def path_nparts_def path_join_def path_root_def
        path_comps_def mk_path_def)
qed (simp_all add: new_data_object_def restored_bytes_def)

text \<open>C9: When the payload is compressed and \<open>zlib.decompress\<close> fails,
  \<open>to_file\<close> raises, but the target has already been opened for writing: an
  empty file is left in its place.\<close>

theorem to_file_decompress_error_truncates:
  assumes "binary_data d = Some b" and "is_zipped d" and "zlib_decompress L b = Inl e"
    and "(case fname of None \<Rightarrow> filename d | Some f \<Rightarrow> Some f) = Some f"
    and "write_target f directory \<notin> fs_dirs fs"
  shows "to_file L fs d fname directory
           = (Inl e, fs\<lparr>fs_files := (fs_files fs)(write_target f directory \<mapsto> [])\<rparr>)"
  using assms by (auto simp: to_file_def Let_def split: option.splits if_splits)

theorem to_file_decompress_error_truncates_witness:
  "to_file demo_lib demo_fs
      (new_data_object\<lparr>binary_data := Some [9], is_zipped := True, filename := Some ''notes.txt''\<rparr>) None None
   = (Inl ZlibError,
      demo_fs\<lparr>fs_files := (fs_files demo_fs)(write_target ''notes.txt'' None \<mapsto> [])\<rparr>)"
proof (rule to_file_decompress_error_truncates)
  show "write_target ''notes.txt'' None \<notin> fs_dirs demo_fs"
    by (simp add: write_target_def demo_fs_def path_str_def path_root_def path_comps_def mk_path_def)
next
  show "zlib_decompress demo_lib [9] = Inl ZlibError" by code_simp
qed (simp_all add: new_data_object_def)

end
