(* ===== verification/Regex.thy ===== *)
theory Regex
  imports PyStr
begin

text \<open>
  The part of Python's \<open>re\<close> module that \<open>src/crippy_app.py\<close> uses: patterns that
  are sequences of single-character items (a literal, a class, \<open>.\<close>), greedy
  repetitions \<open>*\<close> and \<open>+\<close> of such an item, the anchor \<open>$\<close>, and one capturing
  group around an item.  \<open>rmatch\<close> lists every way the pattern matches a prefix of
  the text, in the order in which Python's backtracking engine tries them (a
  greedy repetition tries the longest run first); \<open>re.match\<close> returns the first of
  them and \<open>re.search\<close> the first match at the least position.  \<open>^\<close> in a pattern
  passed to \<open>re.match\<close> always holds at the start and is left out.
\<close>

section \<open>Patterns and their matches\<close>

datatype ritem =
    RChar "char \<Rightarrow> bool"       \<comment> \<open>one character of a class\<close>
  | RRep "char \<Rightarrow> bool" nat    \<comment> \<open>greedy repetition, at least \<open>n\<close> times\<close>
  | REnd                       \<comment> \<open>\<open>$\<close>: end of text, or before a final newline\<close>

text \<open>An item of a pattern is paired with whether it is a capturing group.\<close>

type_synonym rpat = "(ritem \<times> bool) list"

text \<open>The lengths an item may consume at the start of a text, in the engine's order.\<close>

fun alts :: "ritem \<Rightarrow> string \<Rightarrow> nat list" where
  "alts (RChar p) s = (case s of c # _ \<Rightarrow> if p c then [1] else [] | [] \<Rightarrow> [])"
| "alts (RRep p m) s = rev [m..<Suc (length (takeWhile p s))]"
| "alts REnd s = (if s = [] \<or> s = [LF] then [0] else [])"

text \<open>A match is the list of the captured texts and the rest of the text.\<close>

definition add_cap :: "bool \<Rightarrow> string \<Rightarrow> string list \<times> string \<Rightarrow> string list \<times> string" where
  "add_cap g w m = (if g then w # fst m else fst m, snd m)"

lemma add_cap_simps [simp]:
  "add_cap False w m = m" "add_cap True w (cs, r) = (w # cs, r)"
  by (simp_all add: add_cap_def)

lemma map_add_cap_False [simp]: "map (add_cap False w) ms = ms"
  by (induction ms) auto

fun rmatch :: "rpat \<Rightarrow> string \<Rightarrow> (string list \<times> string) list" where
  "rmatch [] s = [([], s)]"
| "rmatch ((it, g) # ps) s =
     concat (map (\<lambda>k. map (add_cap g (take k s)) (rmatch ps (drop k s))) (alts it s))"

definition re_match :: "rpat \<Rightarrow> string \<Rightarrow> string list option" where
  "re_match p s = (case rmatch p s of [] \<Rightarrow> None | m # _ \<Rightarrow> Some (fst m))"

fun re_search :: "rpat \<Rightarrow> string \<Rightarrow> string list option" where
  "re_search p [] = re_match p []"
| "re_search p (c # s) = (case re_match p (c # s) of None \<Rightarrow> re_search p s | Some cs \<Rightarrow> Some cs)"

text \<open>\<open>m["name"]\<close> for a pattern with one group.\<close>

definition group1 :: "string list option \<Rightarrow> string option" where
  "group1 m = (case m of Some (g # _) \<Rightarrow> Some g | _ \<Rightarrow> None)"

section \<open>Building patterns\<close>

text \<open>A literal character; under \<open>re.IGNORECASE\<close> a literal matches every
  character with the same lower case (for Latin-1 text only the two cases of an
  ASCII letter).\<close>

definition lit :: "char \<Rightarrow> ritem \<times> bool" where
  "lit x = (RChar (\<lambda>c. c = x), False)"

definition ci_lit :: "string \<Rightarrow> rpat" where
  "ci_lit s = map (\<lambda>x. (RChar (\<lambda>c. py_lower_char c = x), False)) s"

lemma ci_lit_simps [simp]:
  "ci_lit [] = []" "ci_lit (x # xs) = (RChar (\<lambda>c. py_lower_char c = x), False) # ci_lit xs"
  by (simp_all add: ci_lit_def)

lemma ci_lit_append [simp]: "ci_lit (xs @ ys) = ci_lit xs @ ci_lit ys"
  by (simp add: ci_lit_def)

section \<open>Matching, one item at a time\<close>

lemma rmatch_RChar_Cons [regex_simps]:
  "rmatch ((RChar p, g) # ps) (c # s) =
     (if p c then map (add_cap g [c]) (rmatch ps s) else [])"
  by simp

lemma rmatch_RChar_Nil [regex_simps]: "rmatch ((RChar p, g) # ps) [] = []"
  by simp

lemma rmatch_REnd [regex_simps]:
  "rmatch ((REnd, g) # ps) s =
     (if s = [] \<or> s = [LF] then map (add_cap g []) (rmatch ps s) else [])"
  by simp

lemma rev_upt_Suc_le: "m \<le> n \<Longrightarrow> rev [m..<Suc n] = n # rev [m..<n]"
  by simp

text \<open>The greedy run: the first alternative of a repetition is the longest run.\<close>

lemma rmatch_RRep:
  "rmatch ((RRep p m, g) # ps) s =
     (if m \<le> length (takeWhile p s)
      then map (add_cap g (takeWhile p s)) (rmatch ps (dropWhile p s))
           @ concat (map (\<lambda>k. map (add_cap g (take k s)) (rmatch ps (drop k s)))
                        (rev [m..<length (takeWhile p s)]))
      else [])"
proof (cases "m \<le> length (takeWhile p s)")
  case True
  have "take (length (takeWhile p s)) s = takeWhile p s"
    by (metis append_eq_conv_conj takeWhile_dropWhile_id)
  moreover have "drop (length (takeWhile p s)) s = dropWhile p s"
    by (metis append_eq_conv_conj takeWhile_dropWhile_id)
  ultimately show ?thesis using True by (simp add: rev_upt_Suc_le)
next
  case False
  then show ?thesis by simp
qed

text \<open>A repetition whose continuation cannot start with a character of the
  repeated class takes exactly the longest run: no backtracking happens.\<close>

lemma rmatch_RRep_det:
  assumes "\<And>c s'. p c \<Longrightarrow> rmatch ps (c # s') = []"
  shows "rmatch ((RRep p m, g) # ps) s =
     (if m \<le> length (takeWhile p s)
      then map (add_cap g (takeWhile p s)) (rmatch ps (dropWhile p s))
      else [])"
proof -
  have "rmatch ps (drop k s) = []" if "k < length (takeWhile p s)" for k
  proof -
    have "drop k s = s ! k # drop (Suc k) s"
      using that by (metis Cons_nth_drop_Suc length_takeWhile_le order_less_le_trans)
    moreover have "p (s ! k)"
      using that by (metis nth_mem set_takeWhileD takeWhile_nth)
    ultimately show ?thesis using assms by simp
  qed
  then have "concat (map (\<lambda>k. map (add_cap g (take k s)) (rmatch ps (drop k s)))
                (rev [m..<length (takeWhile p s)])) = []"
    by simp
  then show ?thesis by (simp only: rmatch_RRep append_Nil2)
qed

text \<open>The first match of a greedy repetition, when the longest run leads to a match.\<close>

lemma re_match_RRep_first:
  assumes "m \<le> length (takeWhile p s)" and "re_match ps (dropWhile p s) = Some cs"
  shows "re_match ((RRep p m, g) # ps) s = Some (if g then takeWhile p s # cs else cs)"
proof -
  obtain x xs where x: "rmatch ps (dropWhile p s) = x # xs" and cs: "fst x = cs"
    using assms(2) by (auto simp: re_match_def split: list.splits)
  have "rmatch ((RRep p m, g) # ps) s = add_cap g (takeWhile p s) x # (map (add_cap g (takeWhile p s)) xs
         @ concat (map (\<lambda>k. map (add_cap g (take k s)) (rmatch ps (drop k s)))
                      (rev [m..<length (takeWhile p s)])))"
    using assms(1) x by (simp only: rmatch_RRep if_True list.map append_Cons)
  with cs show ?thesis by (simp add: re_match_def add_cap_def)
qed

lemma re_match_RChar:
  "re_match ((RChar p, g) # ps) (c # s) =
     (if p c then map_option (\<lambda>cs. if g then [c] # cs else cs) (re_match ps s) else None)"
  by (auto simp: re_match_def add_cap_def split: list.splits)

lemma re_match_REnd_Nil: "re_match [(REnd, False)] [] = Some []"
  by (simp add: re_match_def add_cap_def)

lemma re_match_REnd_LF: "re_match [(REnd, False)] [LF] = Some []"
  by (simp add: re_match_def add_cap_def)

lemma re_match_ci_lit:
  "re_match (ci_lit (py_lower w) @ ps) (w @ s) = re_match ps s"
  by (induction w) (simp_all add: re_match_RChar py_lower_def option.map_ident)

lemma re_match_Nil_pat [simp]: "re_match [] s = Some []"
  by (simp add: re_match_def)

lemma group1_Some [simp]: "group1 (Some (g # gs)) = Some g"
  by (simp add: group1_def)

lemma group1_None [simp]: "group1 None = None"
  by (simp add: group1_def)

section \<open>Searching\<close>

text \<open>\<open>re.search\<close> skips every position where the pattern does not match.\<close>

lemma re_search_append_skip:
  assumes "\<And>i. i < length xs \<Longrightarrow> re_match p (drop i xs @ ys) = None"
  shows "re_search p (xs @ ys) = re_search p ys"
  using assms
proof (induction xs)
  case Nil
  then show ?case by simp
next
  case (Cons x xs)
  have "re_match p ((x # xs) @ ys) = None" using Cons.prems [of 0] by simp
  moreover have "re_search p (xs @ ys) = re_search p ys"
    using Cons.prems by (intro Cons.IH) (metis Suc_less_eq drop_Suc_Cons length_Cons)
  ultimately show ?case by simp
qed

lemma re_search_here:
  "re_match p s = Some cs \<Longrightarrow> re_search p s = Some cs"
  by (cases s) simp_all

text \<open>A pattern that starts with a literal never matches where that literal is
  absent, so the search jumps to its first occurrence.\<close>

lemma re_search_to_literal:
  assumes "x \<notin> set xs"
  shows "re_search ((RChar (\<lambda>c. c = x), False) # ps) (xs @ ys) =
         re_search ((RChar (\<lambda>c. c = x), False) # ps) ys"
proof (rule re_search_append_skip)
  fix i assume "i < length xs"
  then have "drop i xs @ ys = xs ! i # (drop (Suc i) xs @ ys)"
    by (simp add: Cons_nth_drop_Suc)
  moreover have "xs ! i \<noteq> x" using assms \<open>i < length xs\<close> by (metis nth_mem)
  ultimately show "re_match ((RChar (\<lambda>c. c = x), False) # ps) (drop i xs @ ys) = None"
    by (simp add: re_match_RChar)
qed

section \<open>Repetitions without backtracking\<close>

lemma re_match_RRep_skip0:
  assumes "s = [] \<or> \<not> p (hd s)" and "re_match ps s = Some cs"
  shows "re_match ((RRep p 0, g) # ps) s = Some (if g then [] # cs else cs)"
proof -
  have "takeWhile p s = []" "dropWhile p s = s" using assms(1) by (cases s; simp)+
  then show ?thesis using re_match_RRep_first [of 0 p s ps cs g] assms(2) by simp
qed

lemma re_match_RRep_RChar_det:
  assumes "\<And>c. p c \<Longrightarrow> \<not> q c"
  shows "re_match ((RRep p m, False) # (RChar q, g) # ps) s =
           (if m \<le> length (takeWhile p s) then re_match ((RChar q, g) # ps) (dropWhile p s) else None)"
proof -
  have "rmatch ((RChar q, g) # ps) (c # s') = []" if "p c" for c s'
    using assms that by simp
  then have "rmatch ((RRep p m, False) # (RChar q, g) # ps) s =
     (if m \<le> length (takeWhile p s) then rmatch ((RChar q, g) # ps) (dropWhile p s) else [])"
    by (subst rmatch_RRep_det) simp_all
  then show ?thesis by (simp add: re_match_def)
qed

lemma re_match_RRep_zero:
  assumes "takeWhile p s = []"
  shows "re_match ((RRep p 0, False) # ps) s = re_match ps s"
  using assms by (simp add: re_match_def)

lemma space_not_ci: "py_isspace c \<Longrightarrow> \<not> py_isspace x \<Longrightarrow> py_lower_char c \<noteq> x"
  by (auto simp: py_lower_char_def pystr_simps Let_def)

end
