(* ===== verification/BlockCrypter.thy ===== *)
theory BlockCrypter
  imports DataObject Regex
begin

text \<open>
  The class \<open>BlockCrypter\<close> of \<open>src/crippy_app.py\<close> (lines 206--443): a Fernet
  cipher with a default line width, which renders a \<open>DataObject\<close> as a text block
  (\<open>encrypt_to_block\<close>) and parses such a block back (\<open>decrypt_from_block\<close>,
  \<open>_create_dataobject\<close>).  Fernet itself (\<open>cryptography.fernet\<close>) is a library:
  its three entry points are the fields of the record \<open>fernet\<close>, and the
  randomness an encryption draws (time stamp and IV) is an explicit argument.
\<close>

section \<open>The cipher interface and the crypter's state\<close>

record 'r fernet =
  fernet_key_ok :: "bytes \<Rightarrow> bool"                 \<comment> \<open>\<open>Fernet(key)\<close> accepts the key\<close>
  fernet_encrypt :: "bytes \<Rightarrow> 'r \<Rightarrow> bytes \<Rightarrow> bytes"  \<comment> \<open>key, randomness, data\<close>
  fernet_decrypt :: "bytes \<Rightarrow> bytes \<Rightarrow> bytes option"  \<comment> \<open>\<open>None\<close>: \<open>InvalidToken\<close>\<close>

record block_crypter =
  bc_key :: bytes
  default_width :: int

definition start_block :: string where
  "start_block = ''===== START BLOCK =====''"

definition end_block :: string where
  "end_block = ''===== END BLOCK =====''"

text \<open>\<open>__init__(key, width=70)\<close>.\<close>

definition block_crypter_init :: "'r fernet \<Rightarrow> bytes \<Rightarrow> int option \<Rightarrow> block_crypter result" where
  "block_crypter_init F key width =
     (let w = (case width of None \<Rightarrow> 70 | Some w \<Rightarrow> w)
      in if fernet_key_ok F key then Inr \<lparr>bc_key = key, default_width = w\<rparr>
         else Inl (ValueError ''Fernet key must be 32 url-safe base64-encoded bytes.''))"

text \<open>\<open>self._block.format(...)\<close>.\<close>

definition format_block :: "string \<Rightarrow> string \<Rightarrow> string \<Rightarrow> string \<Rightarrow> string" where
  "format_block ct cd ce data =
     start_block @ [LF] @ ''Content-Type: '' @ ct @ [LF] @ ''Content-Disposition: '' @ cd @ [LF]
     @ ce @ [LF] @ data @ [LF] @ end_block @ [LF]"

section \<open>Rendering\<close>

text \<open>\<open>[s[i : i + w] for i in range(0, len(s), w)]\<close> for \<open>w > 0\<close>.\<close>

definition wrap_slices :: "nat \<Rightarrow> string \<Rightarrow> string list" where
  "wrap_slices w s = map (\<lambda>k. py_slice s (k * w) (k * w + w)) [0..<(length s + w - 1) div w]"

abbreviation QT :: char where "QT \<equiv> CHR 0x27"
abbreviation DQ :: char where "DQ \<equiv> CHR 0x22"

text \<open>The header values of lines 315--325.\<close>

definition content_headers :: "data_object \<Rightarrow> string \<Rightarrow> (string \<times> string) result" where
  "content_headers d ct0 =
     (let ct = py_lower ct0
      in if ct = ''text/plain'' then
           Inr (ct @ (case charset d of None \<Rightarrow> [] | Some cs \<Rightarrow> ''; charset='' @ py_lower cs), ''inline'')
         else if ct = ''application/octet-stream'' then
           Inr (ct, ''attachment'' @ (case filename d of None \<Rightarrow> [] | Some f \<Rightarrow> ''; filename='' @ [DQ] @ f @ [DQ]))
         else Inl (InvalidDataException (''content_type '' @ [QT] @ ct0 @ [QT] @ '' is not supported'')))"

definition encrypt_to_block ::
  "'r fernet \<Rightarrow> block_crypter \<Rightarrow> 'r \<Rightarrow> data_object \<Rightarrow> int option \<Rightarrow> string result" where
  "encrypt_to_block F bc r d width =
     (case binary_data d of
       None \<Rightarrow> Inl (InvalidDataException ''got no binary_data'')
     | Some bin \<Rightarrow>
         (case content_type d of
           None \<Rightarrow> Inl (InvalidDataException ''no content_type specified'')
         | Some ct0 \<Rightarrow>
             (case content_headers d ct0 of
               Inl e \<Rightarrow> Inl e
             | Inr (ct, cd) \<Rightarrow>
                 (let ce = (if is_zipped d then ''Content-Encoding: gzip'' @ [LF] else [])
                  in case ascii_decode (fernet_encrypt F (bc_key bc) r bin) of
                       None \<Rightarrow> Inl UnicodeDecodeError
                     | Some enc \<Rightarrow>
                         (let w = (case width of None \<Rightarrow> default_width bc | Some w \<Rightarrow> w);
                              enc = (if w > 0 then py_join [LF] (wrap_slices (nat w) enc) else enc)
                          in Inr (format_block ct cd ce enc))))))"

section \<open>Parsing\<close>

text \<open>The header regular expressions of lines 426, 428 and 430:
  \<open>^\s*content\-type\:\s*(?P<type>.*)\s*$\<close> and its two siblings, with
  \<open>re.IGNORECASE\<close>.\<close>

definition header_pat :: "string \<Rightarrow> rpat" where
  "header_pat key =
     [(RRep py_isspace 0, False)] @ ci_lit key @
     [(RRep py_isspace 0, False), (RRep (\<lambda>c. c \<noteq> LF) 0, True), (RRep py_isspace 0, False), (REnd, False)]"

definition ct_pat :: rpat where "ct_pat = header_pat ''content-type:''"
definition cd_pat :: rpat where "cd_pat = header_pat ''content-disposition:''"
definition ce_pat :: rpat where "ce_pat = header_pat ''content-encoding:''"

text \<open>The state of the header loop of lines 419--435.\<close>

record hdr_scan =
  hs_type :: "string option"
  hs_disp :: "string option"
  hs_enc :: "string option"
  hs_pos :: nat

definition header_line :: "string \<Rightarrow> hdr_scan \<Rightarrow> hdr_scan" where
  "header_line line st =
     (case group1 (re_match ct_pat line) of
       Some v \<Rightarrow> st\<lparr>hs_type := Some v\<rparr>
     | None \<Rightarrow>
         (case group1 (re_match cd_pat line) of
           Some v \<Rightarrow> st\<lparr>hs_disp := Some v\<rparr>
         | None \<Rightarrow>
             (case group1 (re_match ce_pat line) of
               Some v \<Rightarrow> st\<lparr>hs_enc := Some v\<rparr>
             | None \<Rightarrow> st)))"

fun scan_headers :: "string list \<Rightarrow> hdr_scan \<Rightarrow> hdr_scan" where
  "scan_headers [] st = st"
| "scan_headers (line # ls) st =
     (if 0 < length (py_strip line) then
        (if py_in '':'' line
         then scan_headers ls ((header_line line st)\<lparr>hs_pos := hs_pos st + length line\<rparr>)
         else st)
      else scan_headers ls (st\<lparr>hs_pos := hs_pos st + length line\<rparr>))"

text \<open>Lines 411--439 and the text handed to the cipher on line 442: the content
  type, the disposition, the optional encoding and the body with its newlines
  removed.\<close>

definition parse_block :: "string \<Rightarrow> (string \<times> string \<times> string option \<times> string) result" where
  "parse_block block =
     (let s = py_find block start_block; e = py_find block end_block
      in if s = -1 \<or> e = -1 then Inl (InvalidBlockException ''cannot find block markers'')
         else
           (let s = nat s + length start_block;
                st = scan_headers (py_splitlines (py_slice block s (nat e)))
                       \<lparr>hs_type = None, hs_disp = None, hs_enc = None, hs_pos = s\<rparr>
            in case hs_type st of
                 None \<Rightarrow> Inl (InvalidBlockException (''expected '' @ [QT] @ ''Content-Type:'' @ [QT] @ '' not found in block''))
               | Some ct \<Rightarrow>
                   (case hs_disp st of
                     None \<Rightarrow> Inl (InvalidBlockException (''expected '' @ [QT] @ ''Content-Disposition:'' @ [QT] @ '' not found in block''))
                   | Some cd \<Rightarrow>
                       Inr (ct, cd, hs_enc st, removeAll LF (py_slice block (hs_pos st) (nat e))))))"

text \<open>The parameter regular expressions of lines 371 and 376:
  \<open>\;\s*charset\s*\=\s*['"]*(?P<charset>[^'";\s]+)['";\s]*\<close> and
  \<open>\;\s*filename\s*\=\s*['"]*(?P<filename>[^'";]+)['";\s]*\<close>, with \<open>re.IGNORECASE\<close>.\<close>

definition is_quote :: "char \<Rightarrow> bool" where
  "is_quote c \<longleftrightarrow> c = QT \<or> c = DQ"

definition param_pat :: "string \<Rightarrow> (char \<Rightarrow> bool) \<Rightarrow> rpat" where
  "param_pat name value_char =
     [lit (CHR '';''), (RRep py_isspace 0, False)] @ ci_lit name @
     [(RRep py_isspace 0, False), lit (CHR ''=''), (RRep py_isspace 0, False), (RRep is_quote 0, False),
      (RRep value_char 1, True), (RRep (\<lambda>c. is_quote c \<or> c = CHR '';'' \<or> py_isspace c) 0, False)]"

definition charset_pat :: rpat where
  "charset_pat = param_pat ''charset'' (\<lambda>c. \<not> (is_quote c \<or> c = CHR '';'' \<or> py_isspace c))"

definition filename_pat :: rpat where
  "filename_pat = param_pat ''filename'' (\<lambda>c. \<not> (is_quote c \<or> c = CHR '';''))"

definition create_dataobject ::
  "string \<Rightarrow> string \<Rightarrow> string option \<Rightarrow> bytes \<Rightarrow> data_object result" where
  "create_dataobject ct cd ce bin =
     (let ctl = py_lower ct
      in case (if py_in ''text/plain'' ctl then
                 Inr (''text/plain'', map_option py_strip (group1 (re_search charset_pat ctl)), None)
               else if py_in ''application/octet-stream'' ctl then
                 Inr (''application/octet-stream'', None, map_option py_strip (group1 (re_search filename_pat cd)))
               else Inl (InvalidContentException
                     (''_create_dataobject(): content_type is not supported: '' @ [QT] @ ct @ [QT]))) of
           Inl e \<Rightarrow> Inl e
         | Inr (oct, ocs, ofn) \<Rightarrow>
             (case (case ce of
                      None \<Rightarrow> Inr False
                    | Some enc \<Rightarrow>
                        if py_strip (py_lower enc) = ''gzip'' then Inr True
                        else Inl (InvalidContentException
                               (''_create_dataobject(): content_encoding is not supported: '' @ [QT] @ enc @ [QT]))) of
               Inl e \<Rightarrow> Inl e
             | Inr z \<Rightarrow> Inr \<lparr>content_type = Some oct, charset = ocs, is_zipped = z,
                             filename = ofn, binary_data = Some bin\<rparr>))"

definition decrypt_from_block :: "'r fernet \<Rightarrow> block_crypter \<Rightarrow> string \<Rightarrow> data_object result" where
  "decrypt_from_block F bc block =
     (case parse_block block of
       Inl e \<Rightarrow> Inl e
     | Inr (ct, cd, ce, body) \<Rightarrow>
         (case ascii_encode body of
           None \<Rightarrow> Inl UnicodeEncodeError
         | Some tok \<Rightarrow>
             (case fernet_decrypt F (bc_key bc) tok of
               None \<Rightarrow> Inl InvalidToken
             | Some bin \<Rightarrow> create_dataobject ct cd ce bin)))"

section \<open>Specification predicates\<close>

definition param_tail :: "(char \<Rightarrow> bool) \<Rightarrow> rpat" where
  "param_tail vc = [(RRep py_isspace 0, False), (RRep is_quote 0, False), (RRep vc 1, True),
     (RRep (\<lambda>c. is_quote c \<or> c = CHR '';'' \<or> py_isspace c) 0, False)]"

definition charset_value_ok :: "string \<Rightarrow> bool" where
  "charset_value_ok c \<longleftrightarrow> c \<noteq> [] \<and> list_all (\<lambda>ch. \<not> (is_quote ch \<or> ch = CHR '';'' \<or> py_isspace ch)) c"

definition filename_value_ok :: "string \<Rightarrow> bool" where
  "filename_value_ok f \<longleftrightarrow> f \<noteq> [] \<and> list_all (\<lambda>ch. \<not> (is_quote ch \<or> ch = CHR '';'' \<or> is_line_boundary ch)) f
     \<and> py_strip f = f \<and> find_idx end_block f = None"

definition token_char :: "char \<Rightarrow> bool" where
  "token_char c \<longleftrightarrow>
     (let n = (of_char c :: nat) in (48 \<le> n \<and> n \<le> 57) \<or> (65 \<le> n \<and> n \<le> 90) \<or> (97 \<le> n \<and> n \<le> 122)
        \<or> n = 45 \<or> n = 95 \<or> n = 61)"

definition hdr_lines :: "string \<Rightarrow> string \<Rightarrow> bool \<Rightarrow> string list" where
  "hdr_lines ct cd z = [''Content-Type: '' @ ct, ''Content-Disposition: '' @ cd]
     @ (if z then [''Content-Encoding: gzip''] else [])"

section \<open>Lemmas: the header and parameter patterns\<close>

lemma py_lower_char_quote [simp]: "is_quote (py_lower_char c) \<longleftrightarrow> is_quote c"
  by (auto simp: is_quote_def py_lower_char_eq_iff is_upper_code_def)

lemma re_match_header_pat:
  assumes "w \<noteq> []" and "\<not> py_isspace (hd w)" and "LF \<notin> set v" and "v = [] \<or> \<not> py_isspace (hd v)"
  shows "re_match (header_pat (py_lower w)) (w @ CHR '' '' # v @ [LF]) = Some [v]"
proof -
  have tail: "re_match [(RRep py_isspace 0, False), (REnd, False)] [LF] = Some []"
    by (simp add: re_match_def rmatch_RRep pystr_simps)
  have grp: "re_match [(RRep (\<lambda>c. c \<noteq> LF) 0, True), (RRep py_isspace 0, False), (REnd, False)] (v @ [LF]) = Some [v]"
  proof -
    have nl: "\<forall>c \<in> set v. c \<noteq> LF" using assms(3) by auto
    have "takeWhile (\<lambda>c. c \<noteq> LF) (v @ [LF]) = v" "dropWhile (\<lambda>c. c \<noteq> LF) (v @ [LF]) = [LF]"
      using takeWhile_all_then_stop [OF nl, of LF "[]"] dropWhile_all_then_stop [OF nl, of LF "[]"] by simp_all
    with tail show ?thesis using re_match_RRep_first [of 0 "\<lambda>c. c \<noteq> LF" "v @ [LF]"] by simp
  qed
  have sp: "re_match ((RRep py_isspace 0, False) # [(RRep (\<lambda>c. c \<noteq> LF) 0, True), (RRep py_isspace 0, False), (REnd, False)]) (CHR '' '' # v @ [LF]) = Some [v]"
  proof (cases v)
    case Nil
    then show ?thesis by (simp add: re_match_def rmatch_RRep pystr_simps)
  next
    case (Cons c v')
    with assms(4) have "takeWhile py_isspace (CHR '' '' # v @ [LF]) = '' ''"
      "dropWhile py_isspace (CHR '' '' # v @ [LF]) = v @ [LF]"
      by (simp_all add: pystr_simps)
    with grp show ?thesis using re_match_RRep_first [of 0 py_isspace "CHR '' '' # v @ [LF]"] by simp
  qed
  have "re_match (ci_lit (py_lower w) @ (RRep py_isspace 0, False) # [(RRep (\<lambda>c. c \<noteq> LF) 0, True), (RRep py_isspace 0, False), (REnd, False)]) (w @ CHR '' '' # v @ [LF]) = Some [v]"
    using sp by (simp only: re_match_ci_lit)
  then show ?thesis using assms(1,2) re_match_RRep_skip0 [of "w @ CHR '' '' # v @ [LF]" py_isspace] 
    by (simp add: header_pat_def)
qed

lemma header_value_match:
  assumes "no_boundary v" and "v = [] \<or> \<not> py_isspace (hd v)" and "py_lower w = key"
    and "w \<noteq> []" and "\<not> py_isspace (hd w)"
  shows "re_match (header_pat key) (w @ CHR '' '' # v @ [LF]) = Some [v]"
  using re_match_header_pat [OF assms(4,5) no_boundary_LF [OF assms(1)] assms(2)] assms(3) by simp

lemma re_match_param_value:
  assumes "v \<noteq> []" and "\<forall>c \<in> set v. vc c" and "takeWhile vc r = []"
  shows "re_match [(RRep vc 1, True), (RRep (\<lambda>c. is_quote c \<or> c = CHR '';'' \<or> py_isspace c) 0, False)] (v @ r)
           = Some [v]"
proof -
  have tw: "takeWhile vc (v @ r) = v" and dw: "dropWhile vc (v @ r) = r"
    using assms(2,3) by (simp_all add: takeWhile_append2 dropWhile_append2 dropWhile_when_takeWhile_Nil)
  have "re_match [(RRep (\<lambda>c. is_quote c \<or> c = CHR '';'' \<or> py_isspace c) 0, False)] r = Some []"
    using re_match_RRep_first [of 0 "\<lambda>c. is_quote c \<or> c = CHR '';'' \<or> py_isspace c" r "[]" "[]" False]
    by (simp add: re_match_def)
  then show ?thesis using re_match_RRep_first [of 1 vc "v @ r"] tw dw assms(1) by (simp add: Suc_le_eq)
qed

lemma re_match_param_pat:
  assumes "w \<noteq> []" and "py_lower w = w" and "\<not> py_isspace (hd w)"
  shows "re_match (param_pat w vc) (CHR '';'' # CHR '' '' # w @ CHR ''='' # v) = re_match (param_tail vc) v"
proof -
  let ?T = "param_tail vc"
  have eq: "re_match ((RRep py_isspace 0, False) # lit (CHR ''='') # ?T) (CHR ''='' # v) = re_match ?T v"
    by (simp add: re_match_RRep_zero lit_def re_match_RChar pystr_simps option.map_ident)
  have ci: "re_match (ci_lit w @ (RRep py_isspace 0, False) # lit (CHR ''='') # ?T) (w @ CHR ''='' # v) = re_match ?T v"
    using eq re_match_ci_lit [of w] assms(2) by simp
  obtain x w' where w: "w = x # w'" using assms(1) by (cases w) auto
  have tw: "takeWhile py_isspace (CHR '' '' # w @ CHR ''='' # v) = '' ''"
    and dw: "dropWhile py_isspace (CHR '' '' # w @ CHR ''='' # v) = w @ CHR ''='' # v"
    using assms(3) w by (simp_all add: pystr_simps)
  have "re_match ((RRep py_isspace 0, False) # ci_lit w @ (RRep py_isspace 0, False) # lit (CHR ''='') # ?T)
          (CHR '' '' # w @ CHR ''='' # v) = re_match ?T v"
    using ci w assms(3) tw dw re_match_RRep_RChar_det [of py_isspace "\<lambda>c. py_lower_char c = x" 0]
    by (simp add: space_not_ci)
  then show ?thesis
    by (simp add: param_pat_def param_tail_def lit_def re_match_RChar option.map_ident)
qed

lemma re_match_charset_pat:
  assumes "v \<noteq> []" and "\<forall>c \<in> set v. \<not> (is_quote c \<or> c = CHR '';'' \<or> py_isspace c)"
  shows "re_match charset_pat (''; charset='' @ v) = Some [v]"
proof -
  let ?vc = "\<lambda>c. \<not> (is_quote c \<or> c = CHR '';'' \<or> py_isspace c)"
  have val: "re_match [(RRep ?vc 1, True), (RRep (\<lambda>c. is_quote c \<or> c = CHR '';'' \<or> py_isspace c) 0, False)] v = Some [v]"
    using re_match_param_value [of v ?vc "[]"] assms by simp
  obtain x v' where v: "v = x # v'" using assms(1) by (cases v) auto
  have "\<not> py_isspace x" "\<not> is_quote x" using assms v by simp_all
  then have "re_match (param_tail ?vc) v = Some [v]"
    using val v by (simp add: param_tail_def re_match_RRep_zero)
  moreover have "py_lower ''charset'' = ''charset''" by (simp add: py_lower_def pystr_simps)
  ultimately show ?thesis
    using re_match_param_pat [of "''charset''" ?vc v] by (simp add: charset_pat_def pystr_simps)
qed

text \<open>The filename pattern captures the quoted value up to the first quote or
  semicolon, whatever follows it.\<close>

lemma re_match_filename_pat_prefix:
  assumes "f \<noteq> []" and "\<forall>c \<in> set f. \<not> (is_quote c \<or> c = CHR '';'')" and "\<not> py_isspace (hd f)"
    and "r = [] \<or> is_quote (hd r) \<or> hd r = CHR '';''"
  shows "re_match filename_pat (''; filename='' @ DQ # f @ r) = Some [f]"
proof -
  let ?vc = "\<lambda>c. \<not> (is_quote c \<or> c = CHR '';'')"
  have "takeWhile ?vc r = []" using assms(4) by (cases r) auto
  then have val: "re_match [(RRep ?vc 1, True), (RRep (\<lambda>c. is_quote c \<or> c = CHR '';'' \<or> py_isspace c) 0, False)]
               (f @ r) = Some [f]"
    using re_match_param_value [of f ?vc r] assms(1,2) by simp
  obtain x f' where f: "f = x # f'" using assms(1) by (cases f) auto
  have "\<not> is_quote x" using assms(2) f by simp
  then have "takeWhile is_quote (DQ # f @ r) = [DQ]" "dropWhile is_quote (DQ # f @ r) = f @ r"
    using f by (simp_all add: is_quote_def)
  then have "re_match ((RRep is_quote 0, False) # [(RRep ?vc 1, True),
               (RRep (\<lambda>c. is_quote c \<or> c = CHR '';'' \<or> py_isspace c) 0, False)]) (DQ # f @ r) = Some [f]"
    using re_match_RRep_first [of 0 is_quote "DQ # f @ r"] val by simp
  then have "re_match (param_tail ?vc) (DQ # f @ r) = Some [f]"
    by (simp add: param_tail_def re_match_RRep_zero pystr_simps)
  moreover have "py_lower ''filename'' = ''filename''" by (simp add: py_lower_def pystr_simps)
  ultimately show ?thesis
    using re_match_param_pat [of "''filename''" ?vc "DQ # f @ r"] by (simp add: filename_pat_def pystr_simps)
qed

lemma re_match_filename_pat:
  assumes "f \<noteq> []" and "\<forall>c \<in> set f. \<not> (is_quote c \<or> c = CHR '';'')" and "\<not> py_isspace (hd f)"
  shows "re_match filename_pat (''; filename='' @ DQ # f @ [DQ]) = Some [f]"
  using re_match_filename_pat_prefix [OF assms, of "[DQ]"] by (simp add: is_quote_def)

lemma param_pat_Cons: "param_pat w vc = (RChar (\<lambda>c. c = CHR '';''), False) # tl (param_pat w vc)"
  by (simp add: param_pat_def lit_def)

lemma re_search_param_after:
  assumes "CHR '';'' \<notin> set xs" and "re_match (param_pat w vc) ys = Some cs"
  shows "re_search (param_pat w vc) (xs @ ys) = Some cs"
  using re_search_to_literal [OF assms(1), of "tl (param_pat w vc)" ys] re_search_here [OF assms(2)]
  by (simp only: param_pat_Cons [symmetric])

lemma re_search_param_none:
  assumes "CHR '';'' \<notin> set xs"
  shows "re_search (param_pat w vc) xs = None"
  using re_search_to_literal [OF assms(1), of "tl (param_pat w vc)" "[]"]
  by (simp only: param_pat_Cons [symmetric] append_Nil2) (simp add: param_pat_def lit_def re_match_def)

lemma encoding_flag:
  "(case (if z then Some ''gzip'' else None) of None \<Rightarrow> Inr False
    | Some enc \<Rightarrow> if py_strip (py_lower enc) = ''gzip'' then Inr True else Inl (er enc)) = Inr z"
  by (simp add: py_strip_def py_lower_def pystr_simps)

lemma create_dataobject_text:
  assumes "case cs of None \<Rightarrow> True | Some c \<Rightarrow> charset_value_ok c"
  shows "create_dataobject (''text/plain'' @ (case cs of None \<Rightarrow> [] | Some c \<Rightarrow> ''; charset='' @ py_lower c))
           cd (if z then Some ''gzip'' else None) bin
         = Inr \<lparr>content_type = Some ''text/plain'', charset = map_option py_lower cs, is_zipped = z,
                 filename = None, binary_data = Some bin\<rparr>"
proof -
  let ?ct = "''text/plain'' @ (case cs of None \<Rightarrow> [] | Some c \<Rightarrow> ''; charset='' @ py_lower c)"
  have tp: "py_lower ''text/plain'' = ''text/plain''" by (simp add: py_lower_def pystr_simps)
  then have low: "py_lower ?ct = ?ct" by (cases cs) (simp_all add: py_lower_def pystr_simps)
  have inn: "py_in ''text/plain'' ?ct" by (simp add: py_in_def)
  have semi: "CHR '';'' \<notin> set ''text/plain''" by simp
  have grp: "map_option py_strip (group1 (re_search charset_pat ?ct)) = map_option py_lower cs"
  proof (cases cs)
    case None
    then show ?thesis using re_search_param_none [OF semi] by (simp add: charset_pat_def)
  next
    case (Some c)
    with assms have ok: "py_lower c \<noteq> []"
      "\<forall>ch \<in> set (py_lower c). \<not> (is_quote ch \<or> ch = CHR '';'' \<or> py_isspace ch)"
      by (auto simp: charset_value_ok_def py_lower_def list_all_iff)
    have "re_search charset_pat (''text/plain'' @ ''; charset='' @ py_lower c) = Some [py_lower c]"
      using re_search_param_after [OF semi re_match_charset_pat [OF ok, unfolded charset_pat_def]]
      by (simp add: charset_pat_def)
    moreover have "py_strip (py_lower c) = py_lower c" using ok(2) by (simp add: py_strip_no_space)
    ultimately show ?thesis using Some by simp
  qed
  show ?thesis
    using low inn grp by (simp add: create_dataobject_def Let_def encoding_flag)
qed

text \<open>A binary block gives the payload with the file name the filename pattern finds.\<close>

lemma create_dataobject_octet:
  assumes "map_option py_strip (group1 (re_search filename_pat cd)) = fn"
  shows "create_dataobject ''application/octet-stream'' cd (if z then Some ''gzip'' else None) bin
         = Inr \<lparr>content_type = Some ''application/octet-stream'', charset = None, is_zipped = z,
                 filename = fn, binary_data = Some bin\<rparr>"
proof -
  have low: "py_lower ''application/octet-stream'' = ''application/octet-stream''"
    by (simp add: py_lower_def pystr_simps)
  have notin: "\<not> py_in ''text/plain'' ''application/octet-stream''" by (simp add: py_in_def)
  have inn: "py_in ''application/octet-stream'' ''application/octet-stream''"
    using find_idx_Some_prefix [of "''application/octet-stream''" "[]"] by (simp add: py_in_def)
  show ?thesis
    using low notin inn assms by (simp add: create_dataobject_def Let_def encoding_flag)
qed

lemma create_dataobject_binary:
  assumes "case fn of None \<Rightarrow> True | Some f \<Rightarrow> filename_value_ok f"
  shows "create_dataobject ''application/octet-stream''
           (''attachment'' @ (case fn of None \<Rightarrow> [] | Some f \<Rightarrow> ''; filename='' @ [DQ] @ f @ [DQ]))
           (if z then Some ''gzip'' else None) bin
         = Inr \<lparr>content_type = Some ''application/octet-stream'', charset = None, is_zipped = z,
                 filename = fn, binary_data = Some bin\<rparr>"
proof (rule create_dataobject_octet)
  let ?cd = "''attachment'' @ (case fn of None \<Rightarrow> [] | Some f \<Rightarrow> ''; filename='' @ [DQ] @ f @ [DQ])"
  have semi: "CHR '';'' \<notin> set ''attachment''" by simp
  show "map_option py_strip (group1 (re_search filename_pat ?cd)) = fn"
  proof (cases fn)
    case None
    then show ?thesis using re_search_param_none [OF semi] by (simp add: filename_pat_def)
  next
    case (Some f)
    with assms have ok: "f \<noteq> []" "\<forall>ch \<in> set f. \<not> (is_quote ch \<or> ch = CHR '';'')" "py_strip f = f"
      by (auto simp: filename_value_ok_def list_all_iff)
    have "\<not> py_isspace (hd f)" using py_strip_fixed_hd ok(1,3) by blast
    then have "re_search filename_pat (''attachment'' @ ''; filename='' @ DQ # f @ [DQ]) = Some [f]"
      using re_search_param_after [OF semi re_match_filename_pat [OF ok(1,2) \<open>\<not> py_isspace (hd f)\<close>, unfolded filename_pat_def]]
      by (simp add: filename_pat_def)
    then show ?thesis using Some ok(3) by simp
  qed
qed

lemma token_char_facts:
  assumes "token_char c"
  shows "\<not> py_isspace c" "\<not> is_line_boundary c" "c \<noteq> CHR '':''" "c \<noteq> CHR '' ''" "c \<noteq> LF"
  using assms by (auto simp: token_char_def pystr_simps Let_def)

lemma scan_blank: "scan_headers ([LF] # ls) st = scan_headers ls (st\<lparr>hs_pos := hs_pos st + 1\<rparr>)"
  by (simp add: py_strip_def pystr_simps)

lemma scan_header_step:
  assumes "\<exists>c \<in> set line. \<not> py_isspace c" and "CHR '':'' \<in> set line"
  shows "scan_headers (line # ls) st = scan_headers ls ((header_line line st)\<lparr>hs_pos := hs_pos st + length line\<rparr>)"
proof -
  have "py_in '':'' line" using assms(2) by (simp add: py_in_def find_idx_single)
  then show ?thesis using py_strip_nonempty [OF assms(1)] by simp
qed

lemma scan_body_stop:
  assumes "l \<noteq> []" and "list_all token_char l"
  shows "scan_headers ((l @ [LF]) # ls) st = st"
proof -
  have "\<exists>c \<in> set (l @ [LF]). \<not> py_isspace c"
    using assms token_char_facts(1) by (cases l) auto
  moreover have "\<not> py_in '':'' (l @ [LF])"
    using assms token_char_facts(3) by (auto simp: py_in_def find_idx_single list_all_iff)
  ultimately show ?thesis using py_strip_nonempty by simp
qed

lemma re_match_ct_pat_other:
  "re_match ct_pat (''Content-Disposition: '' @ x) = None"
  "re_match ct_pat (''Content-Encoding: '' @ x) = None"
  "re_match cd_pat (''Content-Encoding: '' @ x) = None"
  by (simp_all add: ct_pat_def cd_pat_def header_pat_def re_match_def rmatch_RRep pystr_simps)

lemma header_line_ct:
  assumes "no_boundary ct" and "ct = [] \<or> \<not> py_isspace (hd ct)"
  shows "header_line (''Content-Type: '' @ ct @ [LF]) st = st\<lparr>hs_type := Some ct\<rparr>"
proof -
  have "re_match ct_pat (''Content-Type:'' @ CHR '' '' # ct @ [LF]) = Some [ct]"
    unfolding ct_pat_def by (rule header_value_match [OF assms]) (simp_all add: py_lower_def pystr_simps)
  then show ?thesis by (simp add: header_line_def)
qed

lemma header_line_cd:
  assumes "no_boundary cd" and "cd = [] \<or> \<not> py_isspace (hd cd)"
  shows "header_line (''Content-Disposition: '' @ cd @ [LF]) st = st\<lparr>hs_disp := Some cd\<rparr>"
proof -
  have "re_match cd_pat (''Content-Disposition:'' @ CHR '' '' # cd @ [LF]) = Some [cd]"
    unfolding cd_pat_def by (rule header_value_match [OF assms]) (simp_all add: py_lower_def pystr_simps)
  then show ?thesis using re_match_ct_pat_other(1) by (simp add: header_line_def)
qed

lemma header_line_ce:
  "header_line (''Content-Encoding: gzip'' @ [LF]) st = st\<lparr>hs_enc := Some ''gzip''\<rparr>"
proof -
  have "re_match ce_pat (''Content-Encoding:'' @ CHR '' '' # ''gzip'' @ [LF]) = Some [''gzip'']"
    unfolding ce_pat_def
    by (rule header_value_match) (simp_all add: py_lower_def no_boundary_def pystr_simps)
  then show ?thesis using re_match_ct_pat_other(2,3) by (simp add: header_line_def)
qed

lemma scan_hdr_lines:
  assumes "no_boundary ct" and "ct = [] \<or> \<not> py_isspace (hd ct)"
    and "no_boundary cd" and "cd = [] \<or> \<not> py_isspace (hd cd)"
  shows "scan_headers (map (\<lambda>l. l @ [LF]) (hdr_lines ct cd z) @ rest) st =
         scan_headers rest (st\<lparr>hs_type := Some ct, hs_disp := Some cd,
                                hs_enc := (if z then Some ''gzip'' else hs_enc st),
                                hs_pos := hs_pos st + length (unlines (hdr_lines ct cd z))\<rparr>)"
proof -
  have C: "\<exists>c \<in> set (''Content-'' @ x). \<not> py_isspace c" for x by (simp add: pystr_simps)
  have step_ct: "scan_headers ((''Content-Type: '' @ ct @ [LF]) # ls) s0 =
      scan_headers ls (s0\<lparr>hs_type := Some ct, hs_pos := hs_pos s0 + length (''Content-Type: '' @ ct @ [LF])\<rparr>)" for ls s0
    using scan_header_step [OF C [of "''Type: '' @ ct @ [LF]"]] header_line_ct [OF assms(1,2)] by simp
  have step_cd: "scan_headers ((''Content-Disposition: '' @ cd @ [LF]) # ls) s0 =
      scan_headers ls (s0\<lparr>hs_disp := Some cd, hs_pos := hs_pos s0 + length (''Content-Disposition: '' @ cd @ [LF])\<rparr>)" for ls s0
    using scan_header_step [OF C [of "''Disposition: '' @ cd @ [LF]"]] header_line_cd [OF assms(3,4)] by simp
  have step_ce: "scan_headers ((''Content-Encoding: gzip'' @ [LF]) # ls) s0 =
      scan_headers ls (s0\<lparr>hs_enc := Some ''gzip'', hs_pos := hs_pos s0 + length (''Content-Encoding: gzip'' @ [LF])\<rparr>)" for ls s0
    using scan_header_step [OF C [of "''Encoding: gzip'' @ [LF]"]] header_line_ce by simp
  show ?thesis
  proof (cases z)
    case True
    have eq: "map (\<lambda>l. l @ [LF]) (hdr_lines ct cd z) @ rest = (''Content-Type: '' @ ct @ [LF]) #
      (''Content-Disposition: '' @ cd @ [LF]) # (''Content-Encoding: gzip'' @ [LF]) # rest"
      using True by (simp add: hdr_lines_def)
    show ?thesis
      using True by (subst eq, subst step_ct, subst step_cd, subst step_ce) (simp add: hdr_lines_def add.assoc)
  next
    case False
    have eq: "map (\<lambda>l. l @ [LF]) (hdr_lines ct cd z) @ rest = (''Content-Type: '' @ ct @ [LF]) #
      (''Content-Disposition: '' @ cd @ [LF]) # rest"
      using False by (simp add: hdr_lines_def)
    show ?thesis
      using False by (subst eq, subst step_ct, subst step_cd) (simp add: hdr_lines_def add.assoc)
  qed
qed

end
