(* ===== verification/KeyDerivation.thy ===== *)
theory KeyDerivation
  imports Prelude
begin

text \<open>
  Key derivation of \<open>src/crippy_app.py\<close>: \<open>BlockCrypter.derive_key_from_password\<close>
  is \<open>urlsafe_b64encode(PBKDF2HMAC(SHA256, length=32, salt, iterations)
  .derive(password.encode("utf-8")))\<close>.  The libraries it calls are written out:
  URL-safe BASE64 (\<open>b64_encode\<close>, \<open>b64_decode\<close>, on 8-bit words with the bit
  operations of \<open>HOL-Library.Word\<close>), PBKDF2 over an abstract pseudo-random
  function (HMAC-SHA256 is a parameter), and UTF-8 on the code points
  U+0000--U+00FF.  The key check of \<open>Fernet.__init__\<close> is \<open>fernet_key_valid\<close>.
\<close>

section \<open>Definitions\<close>

text \<open>URL-safe BASE64 (\<open>base64.urlsafe_b64encode\<close>) with padding.\<close>

unbundle bit_operations_syntax

definition b64_alphabet :: string where
  "b64_alphabet = ''ABCDEFGHIJKLMNOPQRSTUVWXYZabcdefghijklmnopqrstuvwxyz0123456789-_''"

definition b64_sym :: "byte \<Rightarrow> byte" where
  "b64_sym x = of_nat (of_char (b64_alphabet ! unat x))"

abbreviation PAD :: byte where "PAD \<equiv> 61"

text \<open>The four 6-bit groups of three bytes, and the bytes rebuilt from them.\<close>

definition b64_s1 :: "byte \<Rightarrow> byte" where "b64_s1 a = drop_bit 2 a"
definition b64_s2 :: "byte \<Rightarrow> byte \<Rightarrow> byte" where "b64_s2 a b = push_bit 4 (a AND 3) OR drop_bit 4 b"
definition b64_s3 :: "byte \<Rightarrow> byte \<Rightarrow> byte" where "b64_s3 b c = push_bit 2 (b AND 15) OR drop_bit 6 c"
definition b64_s4 :: "byte \<Rightarrow> byte" where "b64_s4 c = c AND 63"

definition b64_j1 :: "byte \<Rightarrow> byte \<Rightarrow> byte" where "b64_j1 x y = push_bit 2 x OR drop_bit 4 y"
definition b64_j2 :: "byte \<Rightarrow> byte \<Rightarrow> byte" where "b64_j2 y z = push_bit 4 y OR drop_bit 2 z"
definition b64_j3 :: "byte \<Rightarrow> byte \<Rightarrow> byte" where "b64_j3 z u = push_bit 6 z OR u"

fun b64_encode :: "bytes \<Rightarrow> bytes" where
  "b64_encode (a # b # c # rest) =
     [b64_sym (b64_s1 a), b64_sym (b64_s2 a b), b64_sym (b64_s3 b c), b64_sym (b64_s4 c)] @ b64_encode rest"
| "b64_encode [a, b] = [b64_sym (b64_s1 a), b64_sym (b64_s2 a b), b64_sym (b64_s3 b 0), PAD]"
| "b64_encode [a] = [b64_sym (b64_s1 a), b64_sym (b64_s2 a 0), PAD, PAD]"
| "b64_encode [] = []"

fun idx_of :: "'a \<Rightarrow> 'a list \<Rightarrow> nat option" where
  "idx_of x [] = None"
| "idx_of x (y # ys) = (if x = y then Some 0 else map_option Suc (idx_of x ys))"

definition b64_val :: "byte \<Rightarrow> byte option" where
  "b64_val b = map_option of_nat (idx_of (char_of (unat b)) b64_alphabet)"

fun b64_decode :: "bytes \<Rightarrow> bytes option" where
  "b64_decode [] = Some []"
| "b64_decode (w # x # y # z # rest) =
     (case (b64_val w, b64_val x) of
       (Some a, Some b) \<Rightarrow>
         if y = PAD \<and> z = PAD then (if rest = [] then Some [b64_j1 a b] else None)
         else (case b64_val y of
                None \<Rightarrow> None
              | Some c \<Rightarrow>
                  if z = PAD then (if rest = [] then Some [b64_j1 a b, b64_j2 b c] else None)
                  else (case b64_val z of
                         None \<Rightarrow> None
                       | Some d \<Rightarrow> map_option (\<lambda>r. [b64_j1 a b, b64_j2 b c, b64_j3 c d] @ r) (b64_decode rest)))
     | _ \<Rightarrow> None)"
| "b64_decode _ = None"

text \<open>PBKDF2 (RFC 8018, section 5.2) over a pseudo-random function \<open>H\<close> (HMAC-SHA256
  in the code, with 32-byte outputs): the loop as OpenSSL runs it, and the
  RFC's definition of the block \<open>T_i = U_1 XOR ... XOR U_c\<close>.\<close>

type_synonym prf_fn = "bytes \<Rightarrow> bytes \<Rightarrow> bytes"

definition int_be32 :: "nat \<Rightarrow> bytes" where
  "int_be32 i = [of_nat (i div 2 ^ 24), of_nat (i div 2 ^ 16), of_nat (i div 2 ^ 8), of_nat i]"

definition xor_bytes :: "bytes \<Rightarrow> bytes \<Rightarrow> bytes" where
  "xor_bytes xs ys = map2 (\<lambda>x y. x XOR y) xs ys"

fun pbkdf2_loop :: "prf_fn \<Rightarrow> bytes \<Rightarrow> nat \<Rightarrow> bytes \<Rightarrow> bytes \<Rightarrow> bytes" where
  "pbkdf2_loop H p 0 u t = t"
| "pbkdf2_loop H p (Suc n) u t = (let u' = H p u in pbkdf2_loop H p n u' (xor_bytes t u'))"

definition pbkdf2_block :: "prf_fn \<Rightarrow> bytes \<Rightarrow> bytes \<Rightarrow> nat \<Rightarrow> nat \<Rightarrow> bytes" where
  "pbkdf2_block H p s c i = (let u = H p (s @ int_be32 i) in pbkdf2_loop H p (c - 1) u u)"

definition pbkdf2 :: "prf_fn \<Rightarrow> bytes \<Rightarrow> bytes \<Rightarrow> nat \<Rightarrow> nat \<Rightarrow> bytes" where
  "pbkdf2 H p s c dklen = take dklen (concat (map (pbkdf2_block H p s c) [1..<Suc ((dklen + 31) div 32)]))"

fun pbkdf2_U :: "prf_fn \<Rightarrow> bytes \<Rightarrow> bytes \<Rightarrow> nat \<Rightarrow> nat \<Rightarrow> bytes" where
  "pbkdf2_U H p s i 0 = H p (s @ int_be32 i)"
| "pbkdf2_U H p s i (Suc j) = H p (pbkdf2_U H p s i j)"

definition pbkdf2_T :: "prf_fn \<Rightarrow> bytes \<Rightarrow> bytes \<Rightarrow> nat \<Rightarrow> nat \<Rightarrow> bytes" where
  "pbkdf2_T H p s c i = foldl xor_bytes (pbkdf2_U H p s i 0) (map (pbkdf2_U H p s i) [1..<c])"

text \<open>\<open>str.encode("utf-8")\<close> on the code points U+0000--U+00FF.\<close>

definition utf8_char :: "char \<Rightarrow> bytes" where
  "utf8_char c = (let n = (of_char c :: nat) in
     if n < 128 then [of_nat n] else [of_nat (192 + n div 64), of_nat (128 + n mod 64)])"

definition utf8_encode :: "string \<Rightarrow> bytes" where
  "utf8_encode s = concat (map utf8_char s)"

fun utf8_decode :: "bytes \<Rightarrow> string option" where
  "utf8_decode [] = Some []"
| "utf8_decode (b # bs) =
     (if unat b < 128 then map_option (Cons (char_of (unat b))) (utf8_decode bs)
      else if unat b = 194 \<or> unat b = 195 then
        (case bs of
          [] \<Rightarrow> None
        | c # cs \<Rightarrow> if 128 \<le> unat c \<and> unat c < 192
                    then map_option (Cons (char_of ((unat b - 192) * 64 + (unat c - 128)))) (utf8_decode cs)
                    else None)
      else None)"

text \<open>The module constant \<open>SALT\<close> (line 17) and
  \<open>BlockCrypter.derive_key_from_password\<close> (lines 251--276).\<close>

definition SALT :: bytes where
  "SALT = [0xe5, 0x12, 0x06, 0x0e, 0xfc, 0x9b, 0x08, 0x6e, 0x99, 0x51, 0xd5, 0x05, 0xba, 0xb8, 0x31, 0x73]"

text \<open>\<open>BlockCrypter.generate_salt(length=32)\<close> (lines 238--249):
  \<open>secrets.token_bytes(length)\<close>, that is \<open>os.urandom(length)\<close>, which raises
  \<open>ValueError\<close> for a negative length.  \<open>urandom\<close> is the operating system's
  source of random bytes; \<open>None\<close> stands for the default argument.\<close>

definition generate_salt :: "(nat \<Rightarrow> bytes) \<Rightarrow> int option \<Rightarrow> bytes result" where
  "generate_salt urandom len =
     (let n = (case len of None \<Rightarrow> 32 | Some l \<Rightarrow> l)
      in if n < 0 then Inl (ValueError ''negative argument not allowed'') else Inr (urandom (nat n)))"

definition default_iterations :: nat where
  "default_iterations = 1500000"

definition derive_key_from_password :: "prf_fn \<Rightarrow> string \<Rightarrow> bytes \<Rightarrow> nat \<Rightarrow> bytes" where
  "derive_key_from_password H password salt iterations =
     b64_encode (pbkdf2 H (utf8_encode password) salt iterations 32)"

text \<open>The key check of \<open>Fernet.__init__\<close>: the key decodes (URL-safe BASE64) to 32 bytes.\<close>

definition fernet_key_valid :: "bytes \<Rightarrow> bool" where
  "fernet_key_valid k \<longleftrightarrow> (case b64_decode k of Some raw \<Rightarrow> length raw = 32 | None \<Rightarrow> False)"

text \<open>A stand-in pseudo-random function for the witnesses, with 32-byte outputs.\<close>

definition demo_prf :: prf_fn where
  "demo_prf k m = map (\<lambda>i. of_nat (i + length k + length m)) [0..<32]"

section \<open>Lemmas: BASE64\<close>

lemma word8_eqI:
  assumes "bit a 0 = bit b 0" "bit a 1 = bit b 1" "bit a 2 = bit b 2" "bit a 3 = bit b 3"
    "bit a 4 = bit b 4" "bit a 5 = bit b 5" "bit a 6 = bit b 6" "bit a 7 = bit b 7"
  shows "a = (b :: 8 word)"
proof (rule bit_word_eqI)
  fix n assume "n < LENGTH(8)"
  then have "n < 8" by simp
  then consider "n = 0" | "n = 1" | "n = 2" | "n = 3" | "n = 4" | "n = 5" | "n = 6" | "n = 7" by linarith
  then show "bit a n = bit b n" by cases (use assms in simp_all)
qed

lemma byte_high_bit [simp]: "8 \<le> n \<Longrightarrow> \<not> bit (a :: byte) n"
  by (auto dest: bit_imp_le_length)

lemma b64_join_split:
  "b64_j1 (b64_s1 a) (b64_s2 a b) = a" "b64_j2 (b64_s2 a b) (b64_s3 b c) = b" "b64_j3 (b64_s3 b c) (b64_s4 c) = c"
  unfolding b64_j1_def b64_j2_def b64_j3_def b64_s1_def b64_s2_def b64_s3_def b64_s4_def
  by (rule word8_eqI; simp add: bit_simps)+

lemma and63_lt: "unat ((x :: byte) AND 63) < 64"
proof -
  have "(63 :: byte) = mask 6" by (simp add: mask_eq_exp_minus_1)
  then have "x AND 63 = take_bit 6 x" by (simp add: take_bit_eq_mask)
  then show ?thesis by (simp add: unsigned_take_bit_eq take_bit_eq_mod unat_mod)
qed

lemma sextet_lt: "x AND 63 = x \<Longrightarrow> unat (x :: byte) < 64"
  using and63_lt [of x] by simp

lemma b64_sextets_lt:
  "unat (b64_s1 a) < 64" "unat (b64_s2 a b) < 64" "unat (b64_s3 b c) < 64" "unat (b64_s4 c) < 64"
proof -
  have "b64_s1 a AND 63 = b64_s1 a" "b64_s2 a b AND 63 = b64_s2 a b" "b64_s3 b c AND 63 = b64_s3 b c"
    unfolding b64_s1_def b64_s2_def b64_s3_def by (rule word8_eqI; simp add: bit_simps)+
  then show "unat (b64_s1 a) < 64" "unat (b64_s2 a b) < 64" "unat (b64_s3 b c) < 64" "unat (b64_s4 c) < 64"
    using and63_lt [of c] by (simp_all add: sextet_lt b64_s4_def)
qed

lemma idx_of_nth: "distinct xs \<Longrightarrow> i < length xs \<Longrightarrow> idx_of (xs ! i) xs = Some i"
proof (induction xs arbitrary: i)
  case (Cons y ys)
  then show ?case by (cases i) (auto simp: nth_mem)
qed simp

lemma b64_alphabet_facts: "distinct b64_alphabet" "length b64_alphabet = 64"
  by (simp_all add: b64_alphabet_def)

lemma b64_val_sym: "unat x < 64 \<Longrightarrow> b64_val (b64_sym x) = Some x"
proof -
  assume x: "unat x < 64"
  let ?c = "b64_alphabet ! unat x"
  have "(of_char ?c :: nat) < 256" by (rule nat_of_char_less_256)
  then have "unat (of_nat (of_char ?c) :: byte) = of_char ?c" by (simp add: unat_of_nat)
  moreover have "idx_of ?c b64_alphabet = Some (unat x)"
    using x b64_alphabet_facts by (simp add: idx_of_nth)
  ultimately show ?thesis by (simp add: b64_val_def b64_sym_def)
qed

lemma b64_val_PAD: "b64_val PAD = None"
  by code_simp

lemma b64_sym_not_PAD: "unat x < 64 \<Longrightarrow> b64_sym x \<noteq> PAD"
  using b64_val_sym b64_val_PAD by fastforce

lemma b64_roundtrip: "b64_decode (b64_encode bs) = Some bs"
  by (induction bs rule: b64_encode.induct)
     (simp_all add: b64_sextets_lt b64_val_sym b64_sym_not_PAD b64_join_split)

lemma length_b64_encode: "length (b64_encode bs) = 4 * ((length bs + 2) div 3)"
  by (induction bs rule: b64_encode.induct) (simp_all, presburger)

section \<open>Lemmas: PBKDF2\<close>

lemma pbkdf2_loop_fold:
  "pbkdf2_loop H p n (pbkdf2_U H p s i j) t = foldl xor_bytes t (map (pbkdf2_U H p s i) [Suc j..<Suc j + n])"
proof (induction n arbitrary: j t)
  case (Suc n)
  have "[Suc j..<Suc j + Suc n] = Suc j # [Suc (Suc j)..<Suc (Suc j) + n]" by (simp add: upt_conv_Cons)
  then show ?case using Suc.IH [of "Suc j"] by (simp add: Let_def)
qed simp

lemma pbkdf2_block_T: "0 < c \<Longrightarrow> pbkdf2_block H p s c i = pbkdf2_T H p s c i"
  using pbkdf2_loop_fold [of H p "c - 1" s i 0] by (simp add: pbkdf2_block_def pbkdf2_T_def)

lemma length_xor_bytes [simp]: "length (xor_bytes xs ys) = min (length xs) (length ys)"
  by (simp add: xor_bytes_def)

lemma length_foldl_xor:
  "length t = 32 \<Longrightarrow> \<forall>u \<in> set us. length u = 32 \<Longrightarrow> length (foldl xor_bytes t us) = 32"
  by (induction us arbitrary: t) simp_all

lemma pbkdf2_32:
  assumes "\<forall>k m. length (H k m) = 32" and "0 < c"
  shows "pbkdf2 H p s c 32 = pbkdf2_T H p s c 1" and "length (pbkdf2_T H p s c 1) = 32"
proof -
  show "length (pbkdf2_T H p s c 1) = 32"
    unfolding pbkdf2_T_def
  proof (rule length_foldl_xor)
    show "length (pbkdf2_U H p s 1 0) = 32" using assms(1) by simp
    show "\<forall>u \<in> set (map (pbkdf2_U H p s 1) [1..<c]). length u = 32"
    proof
      fix u assume "u \<in> set (map (pbkdf2_U H p s 1) [1..<c])"
      then obtain j where "u = pbkdf2_U H p s 1 j" by auto
      then show "length u = 32" using assms(1) by (cases j) simp_all
    qed
  qed
  then show "pbkdf2 H p s c 32 = pbkdf2_T H p s c 1"
    using pbkdf2_block_T [OF assms(2)] by (simp add: pbkdf2_def)
qed

section \<open>Lemmas: UTF-8\<close>

lemma utf8_char_roundtrip: "utf8_decode (utf8_char c @ r) = map_option (Cons c) (utf8_decode r)"
proof -
  let ?n = "of_char c :: nat"
  have lt: "?n < 256" by (rule nat_of_char_less_256)
  show ?thesis
  proof (cases "?n < 128")
    case True
    then show ?thesis using lt by (simp add: utf8_char_def unat_of_nat)
  next
    case False
    have u: "unat (of_nat k :: byte) = k" if "k < 256" for k using that by (simp add: unat_of_nat)
    have hi: "unat (of_nat (192 + ?n div 64) :: byte) = 192 + ?n div 64"
      and lo: "unat (of_nat (128 + ?n mod 64) :: byte) = 128 + ?n mod 64"
      using lt by (intro u; linarith)+
    have "?n div 64 = 2 \<or> ?n div 64 = 3" using False lt by linarith
    moreover have "(192 + ?n div 64 - 192) * 64 + (128 + ?n mod 64 - 128) = ?n" by simp
    ultimately show ?thesis using False hi lo by (auto simp: utf8_char_def Let_def)
  qed
qed

lemma utf8_roundtrip: "utf8_decode (utf8_encode s) = Some s"
  by (induction s) (simp_all add: utf8_encode_def utf8_char_roundtrip)

lemma derive_key_fernet_valid:
  "\<forall>k m. length (H k m) = 32 \<Longrightarrow> 0 < c \<Longrightarrow> fernet_key_valid (derive_key_from_password H pw salt c)"
  using pbkdf2_32 [of H c "utf8_encode pw" salt]
  by (simp add: derive_key_from_password_def b64_roundtrip fernet_key_valid_def)

section \<open>Properties\<close>

text \<open>C16: for every password and salt, and every pseudo-random function with
  32-byte outputs, the key of \<open>derive_key_from_password\<close> is 44 bytes of
  URL-safe BASE64 that decode to the RFC 8018 block \<open>T_1 = U_1 XOR ... XOR U_c\<close>
  of the UTF-8 encoded password; so it passes Fernet's key check.\<close>

theorem derive_key_valid:
  assumes "\<forall>k m. length (H k m) = 32" and "0 < iterations"
  shows "b64_decode (derive_key_from_password H password salt iterations)
           = Some (pbkdf2_T H (utf8_encode password) salt iterations 1)
         \<and> length (derive_key_from_password H password salt iterations) = 44
         \<and> fernet_key_valid (derive_key_from_password H password salt iterations)"
  using pbkdf2_32 [OF assms, of "utf8_encode password" salt] derive_key_fernet_valid [OF assms, of password salt]
  unfolding derive_key_from_password_def by (simp add: b64_roundtrip length_b64_encode)

theorem derive_key_valid_witness:
  "fernet_key_valid (derive_key_from_password demo_prf ''secret'' SALT 2)
   \<and> length (derive_key_from_password demo_prf ''secret'' SALT 2) = 44"
proof -
  have "\<forall>k m. length (demo_prf k m) = 32" by (simp add: demo_prf_def)
  then show ?thesis using derive_key_valid [of demo_prf 2 "''secret''" SALT] by simp
qed

end
