(* ===== verification/BlockRoundtrip.thy ===== *)
theory BlockRoundtrip
  imports BlockCrypter KeyDerivation
begin

text \<open>
  The render/parse round trip of \<open>BlockCrypter\<close>: a block produced by
  \<open>encrypt_to_block\<close> is parsed back by \<open>decrypt_from_block\<close> into the payload it
  was made from, up to the normalisations the code performs (content type and
  charset lower-cased, the charset dropped for binary payloads and the file name
  for text).  The wrapping of the token into lines is shown equal to plain
  chunking, and the parser's error branches for misplaced markers are
  characterised.
\<close>

section \<open>Reference definitions\<close>

text \<open>Plain chunking of a list into pieces of \<open>w\<close> elements, the reference for the
  slicing comprehension of line 335.\<close>

function chunks :: "nat \<Rightarrow> 'a list \<Rightarrow> 'a list list" where
  "chunks w xs = (if w = 0 \<or> xs = [] then [] else take w xs # chunks w (drop w xs))"
  by pat_completeness auto
termination
  by (relation "measure (\<lambda>(w, xs). length xs)") auto

declare chunks.simps [simp del]

text \<open>The characters a body line may hold and still be read as body by
  \<open>decrypt_from_block\<close>: no whitespace (so no line boundary, and no end marker,
  which holds a space) and no colon (so the line is not taken for a header).
  The token characters are such characters, and so is any other non-space
  character, ASCII or not, that a corruption may put into the body.\<close>

definition body_char :: "char \<Rightarrow> bool" where
  "body_char c \<longleftrightarrow> \<not> py_isspace c \<and> c \<noteq> CHR '':''"

text \<open>The shape of a parsable body: one empty line, or non-empty lines of body characters.\<close>

definition body_ok :: "string list \<Rightarrow> bool" where
  "body_ok B \<longleftrightarrow> B = [[]] \<or> (B \<noteq> [] \<and> list_all (\<lambda>l. l \<noteq> [] \<and> list_all body_char l) B)"

text \<open>The lines of the rendered body for a width \<open>w\<close> and a token \<open>enc\<close>
  (lines 333--335): chunks of \<open>w\<close> characters, or the whole token when the
  width is not positive.\<close>

definition body_lines :: "int \<Rightarrow> string \<Rightarrow> string list" where
  "body_lines w enc = (if 0 < w \<and> enc \<noteq> [] then chunks (nat w) enc else [enc])"

text \<open>Fernet tokens are URL-safe BASE64: ASCII letters, digits, \<open>-\<close>, \<open>_\<close>, \<open>=\<close>.\<close>

definition urlsafe_token :: "bytes \<Rightarrow> bool" where
  "urlsafe_token bs \<longleftrightarrow> list_all (\<lambda>b. unat b < 128 \<and> token_char (char_of (unat b))) bs"

text \<open>The payload a block restores: what \<open>_create_dataobject\<close> can recover of
  the payload the block was made from.\<close>

definition block_view :: "data_object \<Rightarrow> data_object" where
  "block_view d =
     (if map_option py_lower (content_type d) = Some ''text/plain''
      then d\<lparr>content_type := Some ''text/plain'', charset := map_option py_lower (charset d), filename := None\<rparr>
      else d\<lparr>content_type := Some ''application/octet-stream'', charset := None\<rparr>)"


text \<open>A stand-in cipher for the witnesses, with Fernet's key check: each byte becomes two letters
  \<open>A\<close>--\<open>P\<close> (its two hexadecimal digits), and decryption inverts this, failing
  (\<open>InvalidToken\<close>) on any other input.\<close>

definition hex_encode :: "bytes \<Rightarrow> bytes" where
  "hex_encode bs = concat (map (\<lambda>b. [65 + b div 16, 65 + b mod 16]) bs)"

fun hex_decode :: "bytes \<Rightarrow> bytes option" where
  "hex_decode [] = Some []"
| "hex_decode [_] = None"
| "hex_decode (a # b # rest) =
     (if 65 \<le> a \<and> a < 81 \<and> 65 \<le> b \<and> b < 81
      then map_option (Cons ((a - 65) * 16 + (b - 65))) (hex_decode rest) else None)"

definition demo_fernet :: "unit fernet" where
  "demo_fernet = \<lparr>fernet_key_ok = fernet_key_valid, fernet_encrypt = (\<lambda>k r bs. hex_encode bs),
                  fernet_decrypt = (\<lambda>k tok. hex_decode tok)\<rparr>"

definition demo_bc :: block_crypter where
  "demo_bc = \<lparr>bc_key = replicate 32 0, default_width = 70\<rparr>"

definition demo_note :: data_object where
  "demo_note = \<lparr>content_type = Some ''Text/Plain'', charset = Some ''UTF-8'', is_zipped = True,
                filename = None, binary_data = Some [104, 105, 33]\<rparr>"

definition demo_file :: data_object where
  "demo_file = \<lparr>content_type = Some ''application/octet-stream'', charset = None, is_zipped = False,
                filename = Some ''a;b.txt'', binary_data = Some [1, 2]\<rparr>"

section \<open>Lemmas: parsing a rendered block\<close>

lemma end_block_facts:
  "find_idx end_block start_block = None" "find_idx end_block [] = None"
  "find_idx end_block ''Content-Encoding: gzip'' = None"
  "LF \<notin> set end_block" "CHR '' '' \<in> set end_block" "CHR ''E'' \<in> set end_block"
  by (simp_all add: end_block_def start_block_def)

lemma token_body_char: "token_char c \<Longrightarrow> body_char c"
  using token_char_facts(1,3) by (simp add: body_char_def)

lemma body_char_facts:
  assumes "body_char c"
  shows "c \<noteq> CHR '' ''" "c \<noteq> LF" "\<not> is_line_boundary c"
  using assms by (auto simp: body_char_def pystr_simps Let_def)

lemma body_line_no_end:
  "list_all body_char l \<Longrightarrow> find_idx end_block l = None"
  using body_char_facts(1) end_block_facts(5)
  by (intro find_idx_missing_char [of "CHR '' ''"]) (auto simp: list_all_iff)

lemma body_line_no_boundary:
  "list_all body_char l \<Longrightarrow> no_boundary l"
  using body_char_facts(3) by (auto simp: list_all_iff no_boundary_def)

lemma hdr_lines_no_boundary:
  assumes "no_boundary ct" and "no_boundary cd"
  shows "\<forall>l \<in> set (hdr_lines ct cd z). no_boundary l"
  using assms by (auto simp: hdr_lines_def no_boundary_def pystr_simps)


lemma body_ok_lines:
  "body_ok B \<Longrightarrow> \<forall>l \<in> set B. list_all body_char l"
  by (auto simp: body_ok_def list_all_iff)

text \<open>A body line ends the header scan: it has a non-space character and no colon.\<close>

lemma scan_body_line_stop:
  assumes "l \<noteq> []" and "list_all body_char l"
  shows "scan_headers ((l @ [LF]) # ls) st = st"
proof -
  have "\<exists>c \<in> set (l @ [LF]). \<not> py_isspace c"
    using assms by (cases l) (auto simp: body_char_def)
  moreover have "\<not> py_in '':'' (l @ [LF])"
    using assms by (auto simp: py_in_def find_idx_single list_all_iff body_char_def)
  ultimately show ?thesis using py_strip_nonempty by simp
qed

lemma scan_body:
  assumes "body_ok B"
  shows "scan_headers (map (\<lambda>l. l @ [LF]) B) st =
           (if B = [[]] then st\<lparr>hs_pos := hs_pos st + 1\<rparr> else st)"
proof (cases "B = [[]]")
  case True
  then show ?thesis by (simp add: scan_blank del: scan_headers.simps(2))
next
  case False
  with assms obtain l B' where B: "B = l # B'" "l \<noteq> []" "list_all body_char l"
    by (cases B) (auto simp: body_ok_def)
  then show ?thesis using False scan_body_line_stop [OF B(2,3)] by simp
qed

lemma parse_block_found:
  assumes "py_find blk start_block = int s" and "py_find blk end_block = int e"
  shows "parse_block blk =
    (let st = scan_headers (py_splitlines (py_slice blk (s + length start_block) e))
                \<lparr>hs_type = None, hs_disp = None, hs_enc = None, hs_pos = s + length start_block\<rparr>
     in case hs_type st of
          None \<Rightarrow> Inl (InvalidBlockException (''expected '' @ [QT] @ ''Content-Type:'' @ [QT] @ '' not found in block''))
        | Some ct \<Rightarrow>
            (case hs_disp st of
              None \<Rightarrow> Inl (InvalidBlockException (''expected '' @ [QT] @ ''Content-Disposition:'' @ [QT] @ '' not found in block''))
            | Some cd \<Rightarrow> Inr (ct, cd, hs_enc st, removeAll LF (py_slice blk (hs_pos st) e))))"
  using assms by (simp add: parse_block_def Let_def cong: option.case_cong)

lemma parse_block_lines:
  assumes H: "\<forall>l \<in> set (hdr_lines ct cd z). find_idx end_block l = None"
    and ct: "no_boundary ct" "ct = [] \<or> \<not> py_isspace (hd ct)"
    and cd: "no_boundary cd" "cd = [] \<or> \<not> py_isspace (hd cd)"
    and B: "body_ok B"
  shows "parse_block (start_block @ [LF] @ unlines (hdr_lines ct cd z @ [[]] @ B) @ end_block @ [LF])
           = Inr (ct, cd, if z then Some ''gzip'' else None, concat B)"
proof -
  let ?R = "hdr_lines ct cd z @ [[]] @ B"
  let ?blk = "start_block @ [LF] @ unlines ?R @ end_block @ [LF]"
  have Btok: "\<forall>l \<in> set B. list_all body_char l" using B by (rule body_ok_lines)
  have fs: "py_find ?blk start_block = int 0"
    using find_idx_Some_prefix [of start_block] by (simp add: py_find_def)
  have lines: "\<forall>l \<in> set (start_block # ?R). find_idx end_block l = None"
    using H Btok end_block_facts(1,2) body_line_no_end by auto
  have "find_idx end_block (unlines (start_block # ?R) @ end_block @ [LF])
          = Some (length (unlines (start_block # ?R)))"
    using find_idx_unlines [OF lines end_block_facts(4)] by simp
  then have fe: "py_find ?blk end_block = int (length start_block + Suc (length (unlines ?R)))"
    by (simp add: py_find_def)
  have slice: "py_slice ?blk (0 + length start_block) (length start_block + Suc (length (unlines ?R)))
                 = unlines ([] # ?R)"
    by (simp add: py_slice_def)
  have nb: "\<forall>l \<in> set ([] # ?R). no_boundary l"
    using hdr_lines_no_boundary [OF ct(1) cd(1)] Btok body_line_no_boundary by auto
  have split: "py_splitlines (unlines ([] # ?R)) = map (\<lambda>l. l @ [LF]) ([] # ?R)"
    using splitlines_unlines [OF nb, of "[]"] by simp
  let ?st0 = "\<lparr>hs_type = None, hs_disp = None, hs_enc = None, hs_pos = 0 + length start_block\<rparr>"
  let ?p = "length start_block + Suc (length (unlines (hdr_lines ct cd z))) + 1"
  have scan: "scan_headers (map (\<lambda>l. l @ [LF]) ([] # ?R)) ?st0 =
      \<lparr>hs_type = Some ct, hs_disp = Some cd, hs_enc = (if z then Some ''gzip'' else None),
       hs_pos = (if B = [[]] then ?p + 1 else ?p)\<rparr>"
    by (simp del: scan_headers.simps(2) add: scan_blank scan_hdr_lines [OF ct cd] scan_body [OF B])
  have body: "removeAll LF (py_slice ?blk (if B = [[]] then ?p + 1 else ?p)
                (length start_block + Suc (length (unlines ?R)))) = concat B"
  proof (cases "B = [[]]")
    case True
    then show ?thesis by (simp add: py_slice_def)
  next
    case False
    have "\<forall>l \<in> set B. LF \<notin> set l"
      using Btok body_char_facts(2) by (auto simp: list_all_iff)
    with False show ?thesis by (simp add: py_slice_def removeAll_LF_unlines)
  qed
  show ?thesis
    unfolding parse_block_found [OF fs fe] Let_def slice split scan hdr_scan.select_convs option.case body
    by (rule refl)
qed


section \<open>Lemmas: chunking and the rendered body\<close>

lemma wrap_slices_chunks: "0 < w \<Longrightarrow> wrap_slices w s = chunks w s"
proof (induction w s rule: chunks.induct)
  case (1 w xs)
  show ?case
  proof (cases "xs = []")
    case True
    have "(w - Suc 0) div w = 0" using "1.prems" by (intro div_less) linarith
    with True "1.prems" show ?thesis by (simp add: wrap_slices_def chunks.simps)
  next
    case False
    let ?n = "(length xs + w - 1) div w"
    have "w \<le> length xs + w - 1" using False by (cases xs) auto
    with "1.prems" have a: "?n = Suc ((length xs + w - 1 - w) div w)" by (rule le_div_geq)
    have n: "?n = Suc ((length (drop w xs) + w - 1) div w)"
    proof (cases "length xs \<le> w")
      case True
      have "(length xs + w - 1 - w) div w = 0" using True "1.prems" by (intro div_less) linarith
      moreover have "(length (drop w xs) + w - 1) div w = 0" using True "1.prems" by (intro div_less) simp
      ultimately show ?thesis using a by simp
    next
      case False
      then have "length xs + w - 1 - w = length (drop w xs) + w - 1" by simp
      with a show ?thesis by simp
    qed
    have shift: "py_slice xs (w + k * w) (w + k * w + w) = py_slice (drop w xs) (k * w) (k * w + w)" for k
      by (simp add: py_slice_def add.commute add.left_commute)
    have "wrap_slices w xs = take w xs # map (\<lambda>k. py_slice xs (Suc k * w) (Suc k * w + w))
            [0..<(length (drop w xs) + w - 1) div w]"
      unfolding wrap_slices_def n by (simp del: upt_Suc add: upt_conv_Cons map_Suc_upt [symmetric] py_slice_def)
    also have "\<dots> = take w xs # wrap_slices w (drop w xs)"
      by (simp add: shift wrap_slices_def)
    also have "\<dots> = take w xs # chunks w (drop w xs)"
      using "1.IH" False "1.prems" by simp
    finally show ?thesis using False "1.prems" by (simp add: chunks.simps [of w xs])
  qed
qed

lemma concat_chunks: "0 < w \<Longrightarrow> concat (chunks w xs) = xs"
  by (induction w xs rule: chunks.induct) (simp add: chunks.simps)

lemma chunks_bounds: "0 < w \<Longrightarrow> l \<in> set (chunks w xs) \<Longrightarrow> l \<noteq> [] \<and> length l \<le> w \<and> set l \<subseteq> set xs"
proof (induction w xs rule: chunks.induct)
  case (1 w xs)
  show ?case
  proof (cases "xs = []")
    case True
    with "1.prems" show ?thesis by (simp add: chunks.simps)
  next
    case False
    with "1.prems" have "l = take w xs \<or> l \<in> set (chunks w (drop w xs))"
      by (simp add: chunks.simps [of w xs])
    then show ?thesis
    proof
      assume "l = take w xs"
      with False "1.prems"(1) show ?thesis by (auto dest: in_set_takeD)
    next
      assume "l \<in> set (chunks w (drop w xs))"
      with "1.IH" False "1.prems"(1) show ?thesis by (auto dest: in_set_dropD)
    qed
  qed
qed

lemma chunks_Nil_iff: "0 < w \<Longrightarrow> chunks w xs = [] \<longleftrightarrow> xs = []"
  by (simp add: chunks.simps [of w xs])


lemma body_data_lines:
  "(if 0 < w then py_join [LF] (wrap_slices (nat w) enc) else enc) @ [LF] = unlines (body_lines w enc)"
proof (cases "0 < w")
  case True
  then have "wrap_slices (nat w) enc = chunks (nat w) enc" by (simp add: wrap_slices_chunks)
  with True show ?thesis by (simp add: py_join_LF_unlines body_lines_def chunks_Nil_iff)
qed (simp add: body_lines_def)

lemma format_block_lines:
  "format_block ct cd (if z then ''Content-Encoding: gzip'' @ [LF] else []) data =
     start_block @ [LF] @ unlines (hdr_lines ct cd z @ [[]]) @ data @ [LF] @ end_block @ [LF]"
  by (simp add: format_block_def hdr_lines_def)

lemma encrypt_to_block_Inr:
  assumes "encrypt_to_block F bc r d width = Inr blk"
  obtains bin ct0 ct cd enc where "binary_data d = Some bin" "content_type d = Some ct0"
    "content_headers d ct0 = Inr (ct, cd)" "ascii_decode (fernet_encrypt F (bc_key bc) r bin) = Some enc"
    "blk = start_block @ [LF] @ unlines (hdr_lines ct cd (is_zipped d) @ [[]]
             @ body_lines (case width of None \<Rightarrow> default_width bc | Some w \<Rightarrow> w) enc) @ end_block @ [LF]"
proof -
  obtain bin where b: "binary_data d = Some bin"
    using assms by (cases "binary_data d") (simp_all add: encrypt_to_block_def)
  obtain ct0 where c: "content_type d = Some ct0"
    using assms b by (cases "content_type d") (simp_all add: encrypt_to_block_def)
  obtain ct cd where h: "content_headers d ct0 = Inr (ct, cd)"
    using assms b c by (cases "content_headers d ct0") (auto simp: encrypt_to_block_def)
  obtain enc where e: "ascii_decode (fernet_encrypt F (bc_key bc) r bin) = Some enc"
    using assms b c h by (cases "ascii_decode (fernet_encrypt F (bc_key bc) r bin)") (simp_all add: encrypt_to_block_def)
  let ?w = "case width of None \<Rightarrow> default_width bc | Some w \<Rightarrow> w"
  have "blk = format_block ct cd (if is_zipped d then ''Content-Encoding: gzip'' @ [LF] else [])
          (if 0 < ?w then py_join [LF] (wrap_slices (nat ?w) enc) else enc)"
    using assms b c h e by (simp add: encrypt_to_block_def Let_def)
  also have "\<dots> = start_block @ [LF] @ unlines (hdr_lines ct cd (is_zipped d) @ [[]])
      @ ((if 0 < ?w then py_join [LF] (wrap_slices (nat ?w) enc) else enc) @ [LF]) @ end_block @ [LF]"
    by (simp only: format_block_lines append_assoc)
  also have "\<dots> = start_block @ [LF] @ unlines (hdr_lines ct cd (is_zipped d) @ [[]] @ body_lines ?w enc)
      @ end_block @ [LF]"
    by (simp only: body_data_lines unlines_append append_assoc)
  finally have "blk = start_block @ [LF] @ unlines (hdr_lines ct cd (is_zipped d) @ [[]] @ body_lines ?w enc)
      @ end_block @ [LF]" .
  with b c h e show thesis by (rule that)
qed


section \<open>Lemmas: the rendered headers\<close>

lemma boundary_is_space: "is_line_boundary c \<Longrightarrow> py_isspace c"
  by (auto simp: pystr_simps Let_def)

lemma upper_notin_lower: "is_upper_code (of_char u) \<Longrightarrow> u \<notin> set (py_lower s)"
  using py_lower_char_not_upper by (auto simp: py_lower_def)

lemma no_boundary_lower [simp]: "no_boundary (py_lower s) \<longleftrightarrow> no_boundary s"
  by (simp add: no_boundary_def py_lower_def)

lemma no_E_no_end: "CHR ''E'' \<notin> set l \<Longrightarrow> find_idx end_block l = None"
  by (rule find_idx_missing_char [OF end_block_facts(6)])

lemma E_notin_lower: "CHR ''E'' \<notin> set (py_lower s)"
  by (rule upper_notin_lower) (simp add: is_upper_code_def)

lemma hdr_text_ok:
  assumes "case cs of None \<Rightarrow> True | Some c \<Rightarrow> charset_value_ok c"
    and "ct = ''text/plain'' @ (case cs of None \<Rightarrow> [] | Some c \<Rightarrow> ''; charset='' @ py_lower c)"
  shows "\<forall>l \<in> set (hdr_lines ct ''inline'' z). find_idx end_block l = None"
    and "no_boundary ct" and "ct = [] \<or> \<not> py_isspace (hd ct)"
proof -
  have "CHR ''E'' \<notin> set (''Content-Type: '' @ ct)"
    using assms(2) E_notin_lower by (cases cs) auto
  then have "find_idx end_block (''Content-Type: '' @ ct) = None" by (rule no_E_no_end)
  moreover have "find_idx end_block (''Content-Disposition: '' @ ''inline'') = None"
    by (rule no_E_no_end) simp
  ultimately show "\<forall>l \<in> set (hdr_lines ct ''inline'' z). find_idx end_block l = None"
    using end_block_facts(3) by (simp add: hdr_lines_def del: find_idx.simps)
  show "no_boundary ct"
  proof (cases cs)
    case None
    then show ?thesis using assms(2) by (simp add: no_boundary_def pystr_simps)
  next
    case (Some c)
    with assms(1) have "no_boundary c"
      using boundary_is_space by (auto simp: charset_value_ok_def list_all_iff no_boundary_def)
    then show ?thesis
      unfolding assms(2) Some option.case no_boundary_append no_boundary_lower
      by (simp add: no_boundary_def pystr_simps)
  qed
  show "ct = [] \<or> \<not> py_isspace (hd ct)" using assms(2) by (simp add: pystr_simps)
qed

text \<open>What a file name must satisfy for the disposition line to parse: no line
  boundary and no end marker (quotes and semicolons are allowed).\<close>

lemma filename_value_ok_hdr:
  "case fn of None \<Rightarrow> True | Some f \<Rightarrow> filename_value_ok f \<Longrightarrow>
   case fn of None \<Rightarrow> True | Some f \<Rightarrow> no_boundary f \<and> find_idx end_block f = None"
  by (auto simp: filename_value_ok_def list_all_iff no_boundary_def split: option.splits)

lemma hdr_binary_ok:
  assumes "case fn of None \<Rightarrow> True | Some f \<Rightarrow> no_boundary f \<and> find_idx end_block f = None"
    and "cd = ''attachment'' @ (case fn of None \<Rightarrow> [] | Some f \<Rightarrow> ''; filename='' @ [DQ] @ f @ [DQ])"
  shows "\<forall>l \<in> set (hdr_lines ''application/octet-stream'' cd z). find_idx end_block l = None"
    and "no_boundary cd" and "cd = [] \<or> \<not> py_isspace (hd cd)"
proof -
  have dq: "DQ \<notin> set end_block" by (simp add: end_block_def)
  have "find_idx end_block (''Content-Disposition: '' @ cd) = None"
  proof (cases fn)
    case (Some f)
    then have "find_idx end_block f = None" using assms(1) by simp
    then have "find_idx end_block (f @ DQ # []) = None"
      using find_idx_append_None [OF _ dq end_block_facts(2)] by blast
    moreover have "CHR ''E'' \<notin> set ''Content-Disposition: attachment; filename=''" by simp
    ultimately have "find_idx end_block (''Content-Disposition: attachment; filename='' @ DQ # f @ [DQ]) = None"
      using find_idx_append_None [OF no_E_no_end dq] by blast
    then show ?thesis using Some assms(2) by (simp del: find_idx.simps)
  next
    case None
    then show ?thesis using assms(2) by (intro no_E_no_end) simp
  qed
  moreover have "find_idx end_block ''Content-Type: application/octet-stream'' = None"
    by (rule no_E_no_end) simp
  ultimately show "\<forall>l \<in> set (hdr_lines ''application/octet-stream'' cd z). find_idx end_block l = None"
    using end_block_facts(3) by (simp add: hdr_lines_def del: find_idx.simps)
  show "no_boundary cd"
  proof (cases fn)
    case None
    then show ?thesis using assms(2) by (simp add: no_boundary_def pystr_simps)
  next
    case (Some f)
    with assms(1) have "no_boundary f" by simp
    then show ?thesis
      unfolding assms(2) Some option.case no_boundary_append by (simp add: no_boundary_def pystr_simps)
  qed
  show "cd = [] \<or> \<not> py_isspace (hd cd)" using assms(2) by (simp add: pystr_simps)
qed


section \<open>Lemmas: codec and payload\<close>

lemma ascii_decode_encode:
  assumes "ascii_decode bs = Some s"
  shows "ascii_encode s = Some bs"
proof -
  have lt: "\<forall>b \<in> set bs. unat b < 128" and s: "s = map (\<lambda>b. char_of (unat b)) bs"
    using assms by (auto simp: ascii_decode_def list_all_iff split: if_splits)
  have m: "unat b mod 256 = unat b" for b :: byte
    using unsigned_less [of b, where ?'a = nat] by simp
  show ?thesis using lt s by (auto simp: ascii_encode_def list_all_iff m intro!: map_idI)
qed

lemma urlsafe_token_decode:
  "urlsafe_token bs \<Longrightarrow> ascii_decode bs = Some s \<Longrightarrow> list_all token_char s"
  by (auto simp: urlsafe_token_def ascii_decode_def list_all_iff split: if_splits)

lemma body_lines_ok: "list_all token_char enc \<Longrightarrow> body_ok (body_lines w enc)"
  using chunks_bounds [of "nat w" _ enc] token_body_char
  by (auto simp: body_lines_def body_ok_def list_all_iff chunks_Nil_iff)

lemma concat_body_lines: "concat (body_lines w enc) = enc"
  by (simp add: body_lines_def concat_chunks)

lemma decrypt_from_block_parsed:
  "parse_block blk = Inr (ct, cd, ce, body) \<Longrightarrow> ascii_encode body = Some tok \<Longrightarrow>
   fernet_decrypt F (bc_key bc) tok = Some bin \<Longrightarrow>
   decrypt_from_block F bc blk = create_dataobject ct cd ce bin"
  by (simp add: decrypt_from_block_def)

lemma content_headers_Inr:
  assumes "content_headers d ct0 = Inr (ct, cd)"
  shows "py_lower ct0 = ''text/plain'' \<and> ct = ''text/plain'' @ (case charset d of None \<Rightarrow> [] | Some c \<Rightarrow> ''; charset='' @ py_lower c) \<and> cd = ''inline''
    \<or> py_lower ct0 = ''application/octet-stream'' \<and> ct = ''application/octet-stream''
      \<and> cd = ''attachment'' @ (case filename d of None \<Rightarrow> [] | Some f \<Rightarrow> ''; filename='' @ [DQ] @ f @ [DQ])"
  using assms by (auto simp: content_headers_def Let_def split: if_splits)

section \<open>Lemmas: the round trip\<close>

text \<open>A token of URL-safe characters is ASCII.\<close>

lemma urlsafe_ascii_decode: "urlsafe_token bs \<Longrightarrow> \<exists>s. ascii_decode bs = Some s"
  by (simp add: urlsafe_token_def ascii_decode_def list_all_iff)

text \<open>A text payload with data is rendered whenever the cipher's token is URL-safe.\<close>

lemma encrypt_to_block_text_Inr:
  assumes "binary_data d = Some bin" "content_type d = Some ''text/plain''"
    and "urlsafe_token (fernet_encrypt F (bc_key bc) r bin)"
  shows "\<exists>blk. encrypt_to_block F bc r d width = Inr blk"
proof -
  obtain s where "ascii_decode (fernet_encrypt F (bc_key bc) r bin) = Some s"
    using urlsafe_ascii_decode [OF assms(3)] by blast
  then show ?thesis using assms(1,2)
    by (simp add: encrypt_to_block_def content_headers_def Let_def py_lower_def pystr_simps)
qed

text \<open>A rendered block decrypts to what \<open>_create_dataobject\<close> makes of its
  headers and the plaintext, once the headers are shown to parse.\<close>

lemma decrypt_rendered:
  assumes enc: "encrypt_to_block F bc r d width = Inr blk"
    and tok: "urlsafe_token (fernet_encrypt F (bc_key bc) r (the (binary_data d)))"
    and dec: "fernet_decrypt F (bc_key bc) (fernet_encrypt F (bc_key bc) r (the (binary_data d))) = Some (the (binary_data d))"
  shows "\<exists>bin ct0 ct cd. binary_data d = Some bin \<and> content_type d = Some ct0 \<and> content_headers d ct0 = Inr (ct, cd)
    \<and> ((\<forall>l \<in> set (hdr_lines ct cd (is_zipped d)). find_idx end_block l = None)
         \<and> no_boundary ct \<and> (ct = [] \<or> \<not> py_isspace (hd ct)) \<and> no_boundary cd \<and> (cd = [] \<or> \<not> py_isspace (hd cd))
       \<longrightarrow> decrypt_from_block F bc blk = create_dataobject ct cd (if is_zipped d then Some ''gzip'' else None) bin)"
proof -
  let ?w = "case width of None \<Rightarrow> default_width bc | Some w \<Rightarrow> w"
  obtain bin ct0 ct cd e where b: "binary_data d = Some bin" and c: "content_type d = Some ct0"
    and h: "content_headers d ct0 = Inr (ct, cd)"
    and e: "ascii_decode (fernet_encrypt F (bc_key bc) r bin) = Some e"
    and blk: "blk = start_block @ [LF] @ unlines (hdr_lines ct cd (is_zipped d) @ [[]] @ body_lines ?w e)
                @ end_block @ [LF]"
    using encrypt_to_block_Inr [OF enc] by blast
  have etok: "list_all token_char e" using urlsafe_token_decode [OF _ e] tok b by simp
  have B: "body_ok (body_lines ?w e)" by (rule body_lines_ok [OF etok])
  have dec': "decrypt_from_block F bc blk = create_dataobject ct cd (if is_zipped d then Some ''gzip'' else None) bin"
    if "\<forall>l \<in> set (hdr_lines ct cd (is_zipped d)). find_idx end_block l = None"
      "no_boundary ct" "ct = [] \<or> \<not> py_isspace (hd ct)" "no_boundary cd" "cd = [] \<or> \<not> py_isspace (hd cd)"
  proof (rule decrypt_from_block_parsed)
    show "parse_block blk = Inr (ct, cd, if is_zipped d then Some ''gzip'' else None, e)"
      using parse_block_lines [OF that B] blk by (simp add: concat_body_lines)
    show "ascii_encode e = Some (fernet_encrypt F (bc_key bc) r bin)" by (rule ascii_decode_encode [OF e])
    show "fernet_decrypt F (bc_key bc) (fernet_encrypt F (bc_key bc) r bin) = Some bin" using dec b by simp
  qed
  show ?thesis using b c h dec' by blast
qed

lemma block_roundtrip:
  assumes enc: "encrypt_to_block F bc r d width = Inr blk"
    and tok: "urlsafe_token (fernet_encrypt F (bc_key bc) r (the (binary_data d)))"
    and dec: "fernet_decrypt F (bc_key bc) (fernet_encrypt F (bc_key bc) r (the (binary_data d))) = Some (the (binary_data d))"
    and cs: "case charset d of None \<Rightarrow> True | Some c \<Rightarrow> charset_value_ok c"
    and fn: "case filename d of None \<Rightarrow> True | Some f \<Rightarrow> filename_value_ok f"
  shows "decrypt_from_block F bc blk = Inr (block_view d)"
proof -
  obtain bin ct0 ct cd where b: "binary_data d = Some bin" and c: "content_type d = Some ct0"
    and h: "content_headers d ct0 = Inr (ct, cd)"
    and dec': "(\<forall>l \<in> set (hdr_lines ct cd (is_zipped d)). find_idx end_block l = None)
         \<and> no_boundary ct \<and> (ct = [] \<or> \<not> py_isspace (hd ct)) \<and> no_boundary cd \<and> (cd = [] \<or> \<not> py_isspace (hd cd))
       \<longrightarrow> decrypt_from_block F bc blk = create_dataobject ct cd (if is_zipped d then Some ''gzip'' else None) bin"
    using decrypt_rendered [OF enc tok dec] by blast
  from content_headers_Inr [OF h] show ?thesis
  proof (elim disjE conjE)
    assume t: "py_lower ct0 = ''text/plain''"
      and ct: "ct = ''text/plain'' @ (case charset d of None \<Rightarrow> [] | Some c \<Rightarrow> ''; charset='' @ py_lower c)"
      and cd: "cd = ''inline''"
    have ok: "no_boundary ''inline''" "''inline'' = [] \<or> \<not> py_isspace (hd ''inline'')"
      by (simp_all add: no_boundary_def pystr_simps)
    have "decrypt_from_block F bc blk = create_dataobject ct cd (if is_zipped d then Some ''gzip'' else None) bin"
      using dec' hdr_text_ok [OF cs ct] ok cd by blast
    then show ?thesis using create_dataobject_text [OF cs] ct cd t b c
      by (cases d) (simp add: block_view_def)
  next
    assume t: "py_lower ct0 = ''application/octet-stream''"
      and ct: "ct = ''application/octet-stream''"
      and cd: "cd = ''attachment'' @ (case filename d of None \<Rightarrow> [] | Some f \<Rightarrow> ''; filename='' @ [DQ] @ f @ [DQ])"
    have ok: "no_boundary ct" "ct = [] \<or> \<not> py_isspace (hd ct)"
      using ct by (simp_all add: no_boundary_def pystr_simps)
    have "decrypt_from_block F bc blk = create_dataobject ct cd (if is_zipped d then Some ''gzip'' else None) bin"
      using dec' hdr_binary_ok [OF filename_value_ok_hdr [OF fn] cd] ok ct by blast
    moreover have "map_option py_lower (content_type d) \<noteq> Some ''text/plain''" using t c by simp
    ultimately show ?thesis using create_dataobject_binary [OF fn] ct cd b
      by (cases d) (simp add: block_view_def)
  qed
qed

text \<open>The same for a binary payload.\<close>

lemma encrypt_to_block_binary_Inr:
  assumes "binary_data d = Some bin" "content_type d = Some ''application/octet-stream''"
    and "urlsafe_token (fernet_encrypt F (bc_key bc) r bin)"
  shows "\<exists>blk. encrypt_to_block F bc r d width = Inr blk"
proof -
  obtain s where "ascii_decode (fernet_encrypt F (bc_key bc) r bin) = Some s"
    using urlsafe_ascii_decode [OF assms(3)] by blast
  then show ?thesis using assms(1,2)
    by (simp add: encrypt_to_block_def content_headers_def Let_def py_lower_def pystr_simps)
qed

section \<open>Lemmas: the stand-in cipher\<close>

text \<open>\<open>demo_fernet\<close> has URL-safe tokens that decrypt to their plaintext.\<close>

lemma hex_digit_unat: "(x :: byte) < 16 \<Longrightarrow> unat (65 + x) = 65 + unat x"
proof -
  assume "x < 16"
  then have "unat x < 16" by (simp add: word_less_nat_alt)
  then show ?thesis by (simp add: unat_add_lem [THEN iffD1])
qed

lemma hex_digit_range: "(x :: byte) < 16 \<Longrightarrow> 65 \<le> 65 + x \<and> 65 + x < (81 :: byte)"
  using hex_digit_unat [of x] by (simp add: word_le_nat_alt word_less_nat_alt)

lemma byte_div_mod_16: "(b :: byte) div 16 < 16" "b mod 16 < 16"
proof -
  have "unat b < 256" using unsigned_less [of b, where ?'a = nat] by simp
  then show "b div 16 < 16" by (simp add: word_less_nat_alt unat_div)
  show "b mod 16 < 16" by (simp add: word_less_nat_alt unat_mod)
qed

lemma hex_decode_encode: "hex_decode (hex_encode bs) = Some bs"
proof (induction bs)
  case (Cons b bs)
  have r: "65 \<le> 65 + b div 16 \<and> 65 + b div 16 < (81 :: byte)" "65 \<le> 65 + b mod 16 \<and> 65 + b mod 16 < (81 :: byte)"
    using hex_digit_range byte_div_mod_16 by blast+
  have "(65 + b div 16 - 65) * 16 + (65 + b mod 16 - 65) = b"
    by (simp add: div_mult_mod_eq)
  then show ?case using Cons r by (simp add: hex_encode_def)
qed (simp add: hex_encode_def)

lemma urlsafe_hex_encode: "urlsafe_token (hex_encode bs)"
proof -
  have "unat (65 + x) < 128 \<and> token_char (char_of (unat (65 + x)))" if "x < 16" for x :: byte
  proof -
    have "unat x < 16" using that by (simp add: word_less_nat_alt)
    then show ?thesis using hex_digit_unat [OF that] by (simp add: token_char_def Let_def)
  qed
  then show ?thesis using byte_div_mod_16 by (simp add: urlsafe_token_def hex_encode_def list_all_iff)
qed


section \<open>Properties\<close>

text \<open>C10: encrypting a payload into a block and decrypting the block gives the
  payload back (up to the normalisations of \<open>block_view\<close>), for every width,
  every randomness of the cipher and every Fernet implementation that decrypts
  its own URL-safe tokens, provided the charset and the file name are values the
  parameter patterns can read back.\<close>

theorem encrypt_decrypt_roundtrip:
  assumes enc: "encrypt_to_block F bc r d width = Inr blk"
    and tok: "urlsafe_token (fernet_encrypt F (bc_key bc) r (the (binary_data d)))"
    and dec: "fernet_decrypt F (bc_key bc) (fernet_encrypt F (bc_key bc) r (the (binary_data d))) = Some (the (binary_data d))"
    and cs: "case charset d of None \<Rightarrow> True | Some c \<Rightarrow> charset_value_ok c"
    and fn: "case filename d of None \<Rightarrow> True | Some f \<Rightarrow> filename_value_ok f"
  shows "decrypt_from_block F bc blk = Inr (block_view d)"
  using assms by (rule block_roundtrip)

theorem encrypt_decrypt_roundtrip_witness:
  "encrypt_to_block demo_fernet demo_bc () demo_note (Some 4)
     = Inr (projr (encrypt_to_block demo_fernet demo_bc () demo_note (Some 4)))
   \<and> decrypt_from_block demo_fernet demo_bc (projr (encrypt_to_block demo_fernet demo_bc () demo_note (Some 4)))
     = Inr (block_view demo_note)"
proof -
  have r: "encrypt_to_block demo_fernet demo_bc () demo_note (Some 4)
             = Inr (projr (encrypt_to_block demo_fernet demo_bc () demo_note (Some 4)))"
    by code_simp
  have t: "urlsafe_token (fernet_encrypt demo_fernet (bc_key demo_bc) () (the (binary_data demo_note)))"
    by code_simp
  have d: "fernet_decrypt demo_fernet (bc_key demo_bc) (fernet_encrypt demo_fernet (bc_key demo_bc) ()
             (the (binary_data demo_note))) = Some (the (binary_data demo_note))"
    by code_simp
  have c: "case charset demo_note of None \<Rightarrow> True | Some c \<Rightarrow> charset_value_ok c" by code_simp
  have f: "case filename demo_note of None \<Rightarrow> True | Some f \<Rightarrow> filename_value_ok f"
    by (simp add: demo_note_def)
  show ?thesis using r encrypt_decrypt_roundtrip [OF r t d c f] by simp
qed

text \<open>C11: the slicing comprehension of line 335 is plain chunking: its lines
  concatenate to the token, and each is non-empty and at most \<open>w\<close> long.\<close>

theorem wrap_slices_lossless:
  "0 < w \<Longrightarrow> wrap_slices w s = chunks w s \<and> concat (wrap_slices w s) = s
     \<and> (\<forall>l \<in> set (wrap_slices w s). l \<noteq> [] \<and> length l \<le> w)"
  using chunks_bounds [of w _ s] by (simp add: wrap_slices_chunks concat_chunks)

theorem wrap_slices_lossless_witness:
  "wrap_slices 4 ''GIGJCB'' = [''GIGJ'', ''CB'']"
proof -
  have "wrap_slices 4 ''GIGJCB'' = chunks 4 ''GIGJCB''" using wrap_slices_lossless [of 4 "''GIGJCB''"] by simp
  moreover have "chunks 4 ''GIGJCB'' = [''GIGJ'', ''CB'']" by code_simp
  ultimately show ?thesis by simp
qed

text \<open>C12: a text that lacks either marker is rejected with
  \<open>InvalidBlockException("cannot find block markers")\<close>, before anything else
  is looked at.\<close>

theorem decrypt_markers_missing:
  "find_idx start_block blk = None \<or> find_idx end_block blk = None \<Longrightarrow>
   decrypt_from_block F bc blk = Inl (InvalidBlockException ''cannot find block markers'')"
  by (auto simp: decrypt_from_block_def parse_block_def py_find_def)

theorem decrypt_markers_missing_witness:
  "decrypt_from_block demo_fernet demo_bc ''no block here'' = Inl (InvalidBlockException ''cannot find block markers'')"
proof -
  have "find_idx start_block ''no block here'' = None" by code_simp
  then show ?thesis using decrypt_markers_missing [of "''no block here''" demo_fernet demo_bc] by simp
qed

text \<open>C13: when the end marker comes before (or overlaps) the end of the start
  marker, both are found, the header region is empty, and the block is
  rejected as lacking its \<open>Content-Type\<close> header rather than its markers.\<close>

theorem decrypt_markers_reversed:
  assumes "py_find blk start_block = int s" and "py_find blk end_block = int e"
    and "e \<le> s + length start_block"
  shows "decrypt_from_block F bc blk =
           Inl (InvalidBlockException (''expected '' @ [QT] @ ''Content-Type:'' @ [QT] @ '' not found in block''))"
  using parse_block_found [OF assms(1,2)] assms(3) by (simp add: decrypt_from_block_def py_slice_def)

theorem decrypt_markers_reversed_witness:
  "decrypt_from_block demo_fernet demo_bc (end_block @ [LF] @ start_block @ [LF]) =
     Inl (InvalidBlockException (''expected '' @ [QT] @ ''Content-Type:'' @ [QT] @ '' not found in block''))"
proof -
  have s: "py_find (end_block @ [LF] @ start_block @ [LF]) start_block = int 22" by code_simp
  have e: "py_find (end_block @ [LF] @ start_block @ [LF]) end_block = int 0" by code_simp
  show ?thesis using decrypt_markers_reversed [OF s e] by (simp add: start_block_def)
qed

text \<open>C14: the input checks of \<open>encrypt_to_block\<close> come in the order of the code:
  a payload without bytes is refused for that, whatever its content type; one
  with bytes but no content type is refused for that; and a content type other
  than \<open>text/plain\<close> or \<open>application/octet-stream\<close> (in any letter case) is
  refused naming the type as given.\<close>

theorem encrypt_to_block_input_errors:
  "(binary_data d = None \<longrightarrow>
      encrypt_to_block F bc r d width = Inl (InvalidDataException ''got no binary_data''))
   \<and> (binary_data d \<noteq> None \<and> content_type d = None \<longrightarrow>
      encrypt_to_block F bc r d width = Inl (InvalidDataException ''no content_type specified''))
   \<and> (binary_data d \<noteq> None \<and> content_type d = Some ct0
        \<and> py_lower ct0 \<noteq> ''text/plain'' \<and> py_lower ct0 \<noteq> ''application/octet-stream'' \<longrightarrow>
      encrypt_to_block F bc r d width =
        Inl (InvalidDataException (''content_type '' @ [QT] @ ct0 @ [QT] @ '' is not supported'')))"
  by (auto simp: encrypt_to_block_def content_headers_def Let_def)

theorem encrypt_to_block_input_errors_witness:
  "encrypt_to_block demo_fernet demo_bc () (demo_note\<lparr>content_type := Some ''image/png''\<rparr>) None =
     Inl (InvalidDataException (''content_type '' @ [QT] @ ''image/png'' @ [QT] @ '' is not supported''))
   \<and> encrypt_to_block demo_fernet demo_bc () (demo_note\<lparr>binary_data := None, content_type := None\<rparr>) None =
     Inl (InvalidDataException ''got no binary_data'')"
proof -
  have "py_lower ''image/png'' = ''image/png''" by code_simp
  then show ?thesis
    using encrypt_to_block_input_errors [of "demo_note\<lparr>content_type := Some ''image/png''\<rparr>" demo_fernet demo_bc "()" None "''image/png''"]
      encrypt_to_block_input_errors [of "demo_note\<lparr>binary_data := None, content_type := None\<rparr>" demo_fernet demo_bc "()" None]
    by (simp add: demo_note_def)
qed

text \<open>C15: a supported content type with a \<open>Content-Encoding\<close> other than
  \<open>gzip\<close> (after lower-casing and stripping) is refused with
  \<open>InvalidContentException\<close> naming the encoding.\<close>

theorem create_dataobject_bad_encoding:
  assumes "py_in ''text/plain'' (py_lower ct) \<or> py_in ''application/octet-stream'' (py_lower ct)"
    and "py_strip (py_lower enc) \<noteq> ''gzip''"
  shows "create_dataobject ct cd (Some enc) bin =
           Inl (InvalidContentException (''_create_dataobject(): content_encoding is not supported: '' @ [QT] @ enc @ [QT]))"
  using assms by (auto simp: create_dataobject_def Let_def)

theorem create_dataobject_bad_encoding_witness:
  "create_dataobject ''text/plain'' ''inline'' (Some ''deflate'') [1] =
     Inl (InvalidContentException (''_create_dataobject(): content_encoding is not supported: '' @ [QT] @ ''deflate'' @ [QT]))"
proof -
  have "py_in ''text/plain'' (py_lower ''text/plain'')" by code_simp
  moreover have "py_strip (py_lower ''deflate'') \<noteq> ''gzip''" by code_simp
  ultimately show ?thesis using create_dataobject_bad_encoding by blast
qed

text \<open>C18: the body of a rendered block is the cipher token cut into lines of at
  most \<open>width\<close> characters when the width is positive, and a single line when it
  is not (the spec's \<open>line_width = 0\<close> case).\<close>

theorem encrypt_to_block_body_width:
  assumes "encrypt_to_block F bc r d (Some w) = Inr blk"
  shows "\<exists>ct cd enc B. ascii_decode (fernet_encrypt F (bc_key bc) r (the (binary_data d))) = Some enc
           \<and> blk = start_block @ [LF] @ unlines (hdr_lines ct cd (is_zipped d) @ [[]] @ B) @ end_block @ [LF]
           \<and> concat B = enc \<and> (if 0 < w then (\<forall>l \<in> set B. length l \<le> nat w) else B = [enc])"
proof -
  obtain bin ct0 ct cd enc where b: "binary_data d = Some bin"
    and e: "ascii_decode (fernet_encrypt F (bc_key bc) r bin) = Some enc"
    and blk: "blk = start_block @ [LF] @ unlines (hdr_lines ct cd (is_zipped d) @ [[]] @ body_lines w enc)
                @ end_block @ [LF]"
    using encrypt_to_block_Inr [OF assms] by (metis option.simps(5))
  have "if 0 < w then (\<forall>l \<in> set (body_lines w enc). length l \<le> nat w) else body_lines w enc = [enc]"
    using chunks_bounds [of "nat w" _ enc] by (auto simp: body_lines_def)
  then show ?thesis using b e blk concat_body_lines [of w enc]
    by (intro exI [where x = ct] exI [where x = cd] exI [where x = enc] exI [where x = "body_lines w enc"]) simp
qed

theorem encrypt_to_block_body_width_witness:
  "\<exists>ct cd enc B. ascii_decode (fernet_encrypt demo_fernet (bc_key demo_bc) () (the (binary_data demo_note))) = Some enc
     \<and> projr (encrypt_to_block demo_fernet demo_bc () demo_note (Some 4))
         = start_block @ [LF] @ unlines (hdr_lines ct cd (is_zipped demo_note) @ [[]] @ B) @ end_block @ [LF]
     \<and> concat B = enc \<and> (\<forall>l \<in> set B. length l \<le> 4)"
proof -
  have r: "encrypt_to_block demo_fernet demo_bc () demo_note (Some 4)
             = Inr (projr (encrypt_to_block demo_fernet demo_bc () demo_note (Some 4)))"
    by code_simp
  show ?thesis using encrypt_to_block_body_width [OF r] by simp
qed

text \<open>C19: the spec promises one generic authentication error for any
  corrupted body; the code encodes the body with \<open>.encode("ASCII")\<close> before
  Fernet sees it.  So any block with well-formed headers whose body lines hold a
  non-ASCII character (for instance a rendered block with one body character
  replaced by \<open>U+00E9\<close>) is refused with \<open>UnicodeEncodeError\<close>, for every
  cipher and every key: the cipher is never consulted.\<close>

theorem tampered_body_error:
  assumes "\<forall>l \<in> set (hdr_lines ct cd z). find_idx end_block l = None"
    and "no_boundary ct" "ct = [] \<or> \<not> py_isspace (hd ct)"
    and "no_boundary cd" "cd = [] \<or> \<not> py_isspace (hd cd)"
    and "body_ok B" and "\<not> list_all (\<lambda>c. (of_char c :: nat) < 128) (concat B)"
  shows "decrypt_from_block F bc (start_block @ [LF] @ unlines (hdr_lines ct cd z @ [[]] @ B) @ end_block @ [LF])
           = Inl UnicodeEncodeError"
  using parse_block_lines [OF assms(1-6)] assms(7) by (simp add: decrypt_from_block_def ascii_encode_def)

theorem tampered_body_error_witness:
  "encrypt_to_block demo_fernet demo_bc () demo_note (Some 4)
     = Inr (start_block @ [LF] @ unlines (hdr_lines ''text/plain; charset=utf-8'' ''inline'' True
              @ [[]] @ [''GIGJ'', ''CB'']) @ end_block @ [LF])
   \<and> decrypt_from_block demo_fernet demo_bc (start_block @ [LF] @ unlines (hdr_lines ''text/plain; charset=utf-8'' ''inline'' True
              @ [[]] @ [CHR 0xE9 # ''IGJ'', ''CB'']) @ end_block @ [LF]) = Inl UnicodeEncodeError"
proof
  show "encrypt_to_block demo_fernet demo_bc () demo_note (Some 4)
     = Inr (start_block @ [LF] @ unlines (hdr_lines ''text/plain; charset=utf-8'' ''inline'' True
              @ [[]] @ [''GIGJ'', ''CB'']) @ end_block @ [LF])"
    by code_simp
  have h: "\<forall>l \<in> set (hdr_lines ''text/plain; charset=utf-8'' ''inline'' True). find_idx end_block l = None"
    by code_simp
  have ct: "no_boundary ''text/plain; charset=utf-8''" "''text/plain; charset=utf-8'' = [] \<or> \<not> py_isspace (hd ''text/plain; charset=utf-8'')"
    by code_simp+
  have cd: "no_boundary ''inline''" "''inline'' = [] \<or> \<not> py_isspace (hd ''inline'')"
    by code_simp+
  have B: "body_ok [CHR 0xE9 # ''IGJ'', ''CB'']" and n: "\<not> list_all (\<lambda>c. (of_char c :: nat) < 128) (concat [CHR 0xE9 # ''IGJ'', ''CB''])"
    by code_simp+
  show "decrypt_from_block demo_fernet demo_bc (start_block @ [LF] @ unlines (hdr_lines ''text/plain; charset=utf-8'' ''inline'' True
              @ [[]] @ [CHR 0xE9 # ''IGJ'', ''CB'']) @ end_block @ [LF]) = Inl UnicodeEncodeError"
    by (rule tampered_body_error [OF h ct cd B n])
qed

text \<open>C20: a file name containing \<open>;\<close> does not survive the round trip:
  \<open>encrypt_to_block\<close> writes it verbatim between the quotes, but the filename
  pattern \<open>[^'";]+\<close> stops at the first semicolon, so a binary payload named
  \<open>a;b\<close> comes back named \<open>a\<close>, for every cipher that decrypts its own tokens,
  every width and every tail \<open>b\<close>.\<close>

theorem filename_semicolon_truncated:
  assumes enc: "encrypt_to_block F bc r d width = Inr blk"
    and tok: "urlsafe_token (fernet_encrypt F (bc_key bc) r (the (binary_data d)))"
    and dec: "fernet_decrypt F (bc_key bc) (fernet_encrypt F (bc_key bc) r (the (binary_data d))) = Some (the (binary_data d))"
    and oct: "map_option py_lower (content_type d) = Some ''application/octet-stream''"
    and fn: "filename d = Some (a @ CHR '';'' # b)" and a: "filename_value_ok a"
    and b: "no_boundary b" "find_idx end_block b = None"
  shows "decrypt_from_block F bc blk = Inr ((block_view d)\<lparr>filename := Some a\<rparr>)"
proof -
  obtain bin ct0 ct cd where bn: "binary_data d = Some bin" and c: "content_type d = Some ct0"
    and h: "content_headers d ct0 = Inr (ct, cd)"
    and dec': "(\<forall>l \<in> set (hdr_lines ct cd (is_zipped d)). find_idx end_block l = None)
         \<and> no_boundary ct \<and> (ct = [] \<or> \<not> py_isspace (hd ct)) \<and> no_boundary cd \<and> (cd = [] \<or> \<not> py_isspace (hd cd))
       \<longrightarrow> decrypt_from_block F bc blk = create_dataobject ct cd (if is_zipped d then Some ''gzip'' else None) bin"
    using decrypt_rendered [OF enc tok dec] by blast
  let ?f = "a @ CHR '';'' # b"
  have ct0: "py_lower ct0 = ''application/octet-stream''" using oct c by simp
  then have ct: "ct = ''application/octet-stream''"
    and cd: "cd = ''attachment'' @ (case Some ?f of None \<Rightarrow> [] | Some f \<Rightarrow> ''; filename='' @ [DQ] @ f @ [DQ])"
    using content_headers_Inr [OF h] fn by auto
  have a_ok: "a \<noteq> []" "\<forall>ch \<in> set a. \<not> (is_quote ch \<or> ch = CHR '';'')" "py_strip a = a"
    and a_hdr: "no_boundary a" "find_idx end_block a = None"
    using a filename_value_ok_hdr [of "Some a"] by (auto simp: filename_value_ok_def list_all_iff)
  have "no_boundary ?f" using a_hdr(1) b(1) by (auto simp: no_boundary_def pystr_simps)
  moreover have "find_idx end_block ?f = None"
    using find_idx_append_None [OF a_hdr(2) _ b(2)] by (simp add: end_block_def)
  ultimately have f_hdr: "case Some ?f of None \<Rightarrow> True | Some f \<Rightarrow> no_boundary f \<and> find_idx end_block f = None"
    by simp
  have ok: "no_boundary ct" "ct = [] \<or> \<not> py_isspace (hd ct)"
    using ct by (simp_all add: no_boundary_def pystr_simps)
  have "decrypt_from_block F bc blk = create_dataobject ct cd (if is_zipped d then Some ''gzip'' else None) bin"
    using dec' hdr_binary_ok [OF f_hdr cd] ok ct by blast
  moreover have grp: "map_option py_strip (group1 (re_search filename_pat cd)) = Some a"
  proof -
    have semi: "CHR '';'' \<notin> set ''attachment''" by simp
    have "\<not> py_isspace (hd a)" using py_strip_fixed_hd a_ok(1,3) by blast
    then have "re_match filename_pat (''; filename='' @ DQ # a @ (CHR '';'' # b @ [DQ])) = Some [a]"
      using re_match_filename_pat_prefix [OF a_ok(1,2)] by simp
    then have "re_search filename_pat (''attachment'' @ ''; filename='' @ DQ # a @ (CHR '';'' # b @ [DQ])) = Some [a]"
      using re_search_param_after [OF semi, of "''filename''"] by (simp add: filename_pat_def)
    then show ?thesis using cd a_ok(3) by simp
  qed
  moreover have "map_option py_lower (content_type d) \<noteq> Some ''text/plain''" using oct by (simp del: map_option_eq_Some)
  ultimately show ?thesis using create_dataobject_octet [OF grp] ct bn c
    by (cases d) (simp add: block_view_def)
qed

theorem filename_semicolon_truncated_witness:
  "decrypt_from_block demo_fernet demo_bc (projr (encrypt_to_block demo_fernet demo_bc () demo_file None))
     = Inr (demo_file\<lparr>filename := Some ''a''\<rparr>)"
proof -
  have r: "encrypt_to_block demo_fernet demo_bc () demo_file None
             = Inr (projr (encrypt_to_block demo_fernet demo_bc () demo_file None))"
    by code_simp
  have t: "urlsafe_token (fernet_encrypt demo_fernet (bc_key demo_bc) () (the (binary_data demo_file)))"
    by code_simp
  have d: "fernet_decrypt demo_fernet (bc_key demo_bc) (fernet_encrypt demo_fernet (bc_key demo_bc) ()
             (the (binary_data demo_file))) = Some (the (binary_data demo_file))"
    by code_simp
  have o: "map_option py_lower (content_type demo_file) = Some ''application/octet-stream''" by code_simp
  have f: "filename demo_file = Some (''a'' @ CHR '';'' # ''b.txt'')" by (simp add: demo_file_def)
  have a: "filename_value_ok ''a''" by code_simp
  have b: "no_boundary ''b.txt''" "find_idx end_block ''b.txt'' = None" by code_simp+
  have "block_view demo_file = demo_file" by code_simp
  then show ?thesis using filename_semicolon_truncated [OF r t d o f a b] by simp
qed

end
