(* ===== verification/Plural.thy ===== *)
theory Plural
  imports PyStr
begin

text \<open>
  \<open>msg_with_correct_plural\<close> of \<open>src/crippy.py\<close> (lines 24--42): the number
  formatted with \<open>f"{number:,}"\<close>, its commas replaced by dots, and the two
  auto-numbered fields of the template filled with it and with the plural
  suffix.
\<close>

section \<open>Definitions\<close>

text \<open>Decimal digits of a natural number (\<open>str(n)\<close>, \<open>n \<ge> 0\<close>).\<close>

function nat_digits :: "nat \<Rightarrow> string" where
  "nat_digits n = (if n < 10 then [char_of (48 + n)] else nat_digits (n div 10) @ [char_of (48 + n mod 10)])"
  by auto
termination
  by (relation "measure id") auto

declare nat_digits.simps [simp del]

text \<open>The \<open>,\<close> option of the format mini-language: a comma between groups of
  three digits, counted from the right (on the reversed digits).\<close>

fun group_rev :: "string \<Rightarrow> string" where
  "group_rev (a # b # c # d # rest) = a # b # c # CHR '','' # group_rev (d # rest)"
| "group_rev xs = xs"

definition group_thousands :: "string \<Rightarrow> string" where
  "group_thousands ds = rev (group_rev (rev ds))"

definition fmt_thousands :: "int \<Rightarrow> string" where
  "fmt_thousands n = (if n < 0 then ''-'' else []) @ group_thousands (nat_digits (nat \<bar>n\<bar>))"

text \<open>\<open>s.replace(a, b)\<close> for one-character \<open>a\<close> and \<open>b\<close>.\<close>

definition py_replace_char :: "char \<Rightarrow> char \<Rightarrow> string \<Rightarrow> string" where
  "py_replace_char a b s = map (\<lambda>c. if c = a then b else c) s"

text \<open>\<open>template.format(*args)\<close> for templates whose replacement fields are the
  auto-numbered \<open>{}\<close>, with the escapes \<open>{{\<close> and \<open>}}\<close>; \<open>i\<close> is the number of
  the next field.  Named or numbered fields, conversions and format specs are
  outside the model and give the value \<open>ValueError\<close>.\<close>

fun fmt_fields :: "string \<Rightarrow> string list \<Rightarrow> nat \<Rightarrow> string result" where
  "fmt_fields [] args i = Inr []"
| "fmt_fields [c] args i =
     (if c = CHR ''{'' then Inl (ValueError ''Single '{' encountered in format string'')
      else if c = CHR ''}'' then Inl (ValueError ''Single '}' encountered in format string'')
      else Inr [c])"
| "fmt_fields (c # d # t) args i =
     (if c = CHR ''{'' \<and> d = CHR ''{'' then map_sum id (Cons c) (fmt_fields t args i)
      else if c = CHR ''{'' \<and> d = CHR ''}'' then
        (if i < length args then map_sum id ((@) (args ! i)) (fmt_fields t args (Suc i))
         else Inl (IndexError ''Replacement index out of range for positional args tuple''))
      else if c = CHR ''}'' \<and> d = CHR ''}'' then map_sum id (Cons c) (fmt_fields t args i)
      else if c = CHR ''{'' then Inl (ValueError ''replacement field outside the model'')
      else if c = CHR ''}'' then Inl (ValueError ''Single '}' encountered in format string'')
      else map_sum id (Cons c) (fmt_fields (d # t) args i))"

definition py_format :: "string \<Rightarrow> string list \<Rightarrow> string result" where
  "py_format template args = fmt_fields template args 0"

definition str_number :: "int \<Rightarrow> string" where
  "str_number number = py_replace_char (CHR '','') (CHR ''.'') (fmt_thousands number)"

definition msg_with_correct_plural :: "string \<Rightarrow> int \<Rightarrow> string result" where
  "msg_with_correct_plural template number =
     (let s_or_no_s = (if number = 1 then [] else ''s'');
          str_num = str_number number
      in py_format template [str_num, s_or_no_s])"

text \<open>The value of a string of decimal digits (the reference for the digits).\<close>

definition digits_value :: "string \<Rightarrow> nat" where
  "digits_value s = foldl (\<lambda>acc c. 10 * acc + (of_char c - 48)) 0 s"

definition no_braces :: "string \<Rightarrow> bool" where
  "no_braces s \<longleftrightarrow> CHR ''{'' \<notin> set s \<and> CHR ''}'' \<notin> set s"

section \<open>Lemmas\<close>

lemma nat_digits_value: "digits_value (nat_digits n) = n"
proof (induction n rule: nat_digits.induct)
  case (1 n)
  show ?case
  proof (cases "n < 10")
    case True
    then show ?thesis by (simp add: nat_digits.simps [of n] digits_value_def)
  next
    case False
    then show ?thesis using "1.IH" by (simp add: nat_digits.simps [of n] digits_value_def)
  qed
qed

lemma nat_digits_chars: "x \<in> set (nat_digits n) \<Longrightarrow> (48::nat) \<le> of_char x \<and> of_char x \<le> (57::nat)"
proof (induction n rule: nat_digits.induct)
  case (1 n)
  have lt: "48 + k < 256 \<Longrightarrow> of_char (char_of (48 + k) :: char) = 48 + k" for k :: nat
    by (simp add: of_char_of)
  show ?case
  proof (cases "n < 10")
    case True
    then show ?thesis using "1.prems" lt [of n] by (simp add: nat_digits.simps [of n])
  next
    case False
    have "n mod 10 < 10" by simp
    then show ?thesis using False "1.prems" "1.IH" lt [of "n mod 10"]
      by (auto simp: nat_digits.simps [of n])
  qed
qed

lemma nat_digits_not_punct:
  "CHR '','' \<notin> set (nat_digits n)" "CHR ''.'' \<notin> set (nat_digits n)"
  "CHR ''{'' \<notin> set (nat_digits n)" "CHR ''}'' \<notin> set (nat_digits n)"
  using nat_digits_chars [of "CHR '',''" n] nat_digits_chars [of "CHR ''.''" n]
    nat_digits_chars [of "CHR ''{''" n] nat_digits_chars [of "CHR ''}''" n] by auto

lemma nat_digits_nonempty: "nat_digits n \<noteq> []"
  by (simp add: nat_digits.simps [of n])

lemma group_rev_groups:
  "r \<noteq> [] \<Longrightarrow> \<exists>gs g. group_rev r = concat (map (\<lambda>x. x @ [CHR '','']) gs) @ g \<and> r = concat gs @ g
     \<and> 1 \<le> length g \<and> length g \<le> 3 \<and> (\<forall>x \<in> set gs. length x = 3)"
proof (induction r rule: group_rev.induct)
  case (1 a b c d rest)
  then obtain g gs where "group_rev (d # rest) = concat (map (\<lambda>x. x @ [CHR '','']) gs) @ g"
    "d # rest = concat gs @ g" "1 \<le> length g" "length g \<le> 3" "\<forall>x \<in> set gs. length x = 3"
    by blast
  moreover have "group_rev (a # b # c # d # rest) = [a, b, c] @ CHR '','' # group_rev (d # rest)" by simp
  ultimately show ?case by (intro exI [where x = "[a, b, c] # gs"] exI [where x = g]) simp
qed (rule exI [where x = "[]"], simp)+

lemma split_on_groups:
  "c \<notin> set g \<Longrightarrow> \<forall>x \<in> set gs. c \<notin> set x \<Longrightarrow> split_on c (g @ concat (map (Cons c) gs)) = g # gs"
proof (induction gs arbitrary: g)
  case (Cons x gs)
  then show ?case using split_on_sep [of c g "x @ concat (map (Cons c) gs)"] by simp
qed (simp add: split_on_no_sep_eq)

lemma group_thousands_groups:
  assumes "ds \<noteq> []"
  shows "\<exists>g gs. group_thousands ds = g @ concat (map (Cons CHR '','') gs) \<and> ds = g @ concat gs
           \<and> 1 \<le> length g \<and> length g \<le> 3 \<and> (\<forall>x \<in> set gs. length x = 3)"
proof -
  obtain gs0 g0 where e: "group_rev (rev ds) = concat (map (\<lambda>x. x @ [CHR '','']) gs0) @ g0"
    and r: "rev ds = concat gs0 @ g0" and l: "1 \<le> length g0" "length g0 \<le> 3" "\<forall>x \<in> set gs0. length x = 3"
    using group_rev_groups [of "rev ds"] assms by auto
  have "ds = rev g0 @ concat (map rev (rev gs0))"
    using arg_cong [OF r, of rev] by (simp add: rev_concat rev_map)
  moreover have "group_thousands ds = rev g0 @ concat (map (Cons CHR '','') (map rev (rev gs0)))"
    by (simp add: group_thousands_def e rev_concat rev_map comp_def)
  ultimately show ?thesis using l by (intro exI [where x = "rev g0"] exI [where x = "map rev (rev gs0)"]) simp
qed

lemma py_replace_char_absent: "a \<notin> set s \<Longrightarrow> py_replace_char a b s = s"
  by (induction s) (auto simp: py_replace_char_def)

lemma py_replace_char_append [simp]:
  "py_replace_char a b (xs @ ys) = py_replace_char a b xs @ py_replace_char a b ys"
  by (simp add: py_replace_char_def)

lemma fmt_fields_plain:
  "no_braces a \<Longrightarrow> fmt_fields (a @ r) args i = map_sum id ((@) a) (fmt_fields r args i)"
proof (induction a)
  case (Cons x a)
  then have x: "x \<noteq> CHR ''{''" "x \<noteq> CHR ''}''" and a: "no_braces a" by (auto simp: no_braces_def)
  have "fmt_fields (x # a @ r) args i = map_sum id (Cons x) (fmt_fields (a @ r) args i)"
    using x by (cases "a @ r") simp_all
  then show ?case using Cons.IH [OF a] by (simp add: sum.map_comp comp_def)
qed (cases "fmt_fields r args i"; simp)

lemma fmt_fields_plain_end: "no_braces a \<Longrightarrow> fmt_fields a args i = Inr a"
  using fmt_fields_plain [of a "[]"] by simp

lemma py_replace_char_groups:
  "\<forall>x \<in> set gs. a \<notin> set x \<Longrightarrow> py_replace_char a b (concat (map (Cons a) gs)) = concat (map (Cons b) gs)"
  by (induction gs) (simp_all add: py_replace_char_absent [unfolded py_replace_char_def] py_replace_char_def)

text \<open>The rules that evaluate \<open>str_number\<close> on a numeral.\<close>

lemmas str_number_eval = str_number_def fmt_thousands_def nat_digits.simps group_thousands_def
  py_replace_char_def pystr_simps

section \<open>Properties\<close>

text \<open>C21: for \<open>n \<ge> 0\<close> the number in the message is its decimal digits in
  groups of three separated by dots, the first group of one to three digits;
  the digits read back as \<open>n\<close>.\<close>

theorem str_number_groups:
  assumes "0 \<le> n"
  shows "\<exists>g gs. split_on (CHR ''.'') (str_number n) = g # gs \<and> 1 \<le> length g \<and> length g \<le> 3
           \<and> (\<forall>x \<in> set gs. length x = 3) \<and> digits_value (g @ concat gs) = nat n"
proof -
  let ?ds = "nat_digits (nat n)"
  obtain g gs where t: "group_thousands ?ds = g @ concat (map (Cons CHR '','') gs)" and d: "?ds = g @ concat gs"
    and l: "1 \<le> length g" "length g \<le> 3" "\<forall>x \<in> set gs. length x = 3"
    using group_thousands_groups [OF nat_digits_nonempty] by blast
  have nd: "CHR '','' \<notin> set g" "CHR ''.'' \<notin> set g" "\<forall>x \<in> set gs. CHR '','' \<notin> set x \<and> CHR ''.'' \<notin> set x"
    using nat_digits_not_punct(1,2) [of "nat n"] d by auto
  have "str_number n = g @ concat (map (Cons CHR ''.'') gs)"
    using assms t nd by (simp add: str_number_def fmt_thousands_def py_replace_char_groups py_replace_char_absent)
  then have "split_on (CHR ''.'') (str_number n) = g # gs" using nd by (simp add: split_on_groups)
  moreover have "digits_value (g @ concat gs) = nat n" using d nat_digits_value [of "nat n"] by simp
  ultimately show ?thesis using l by blast
qed

theorem str_number_groups_witness:
  "split_on (CHR ''.'') (str_number 1234567) = [''1'', ''234'', ''567'']"
proof -
  obtain g gs where "split_on (CHR ''.'') (str_number 1234567) = g # gs"
    using str_number_groups [of 1234567] by auto
  moreover have "str_number 1234567 = ''1.234.567''" by (simp add: str_number_eval)
  ultimately show ?thesis by simp
qed

text \<open>C22: a template made of brace-free text around two \<open>{}\<close> fields becomes
  the text with the dotted number in the first field and \<open>s\<close> in the second,
  except for the number 1, which gets no \<open>s\<close>.\<close>

theorem msg_with_correct_plural_fills:
  assumes "no_braces a" and "no_braces b" and "no_braces c"
  shows "msg_with_correct_plural (a @ ''{}'' @ b @ ''{}'' @ c) n
           = Inr (a @ str_number n @ b @ (if n = 1 then [] else ''s'') @ c)"
  using assms by (simp add: msg_with_correct_plural_def py_format_def fmt_fields_plain fmt_fields_plain_end)

theorem msg_with_correct_plural_fills_witness:
  "msg_with_correct_plural ''Encrypted {} byte{}...'' 1234567 = Inr ''Encrypted 1.234.567 bytes...''
   \<and> msg_with_correct_plural ''Decrypted {} byte{}'' 1 = Inr ''Decrypted 1 byte''"
proof -
  have n: "no_braces ''Encrypted ''" "no_braces '' byte''" "no_braces ''...''" "no_braces []"
    by (simp_all add: no_braces_def)
  have "str_number 1234567 = ''1.234.567''" "str_number 1 = ''1''" by (simp_all add: str_number_eval)
  then show ?thesis
    using msg_with_correct_plural_fills [OF n(1,2,3), of 1234567]
      msg_with_correct_plural_fills [OF _ n(2,4), of "''Decrypted ''" 1]
    by (simp add: no_braces_def)
qed

end
