(* ===== verification/Settings.thy ===== *)
theory Settings
  imports PyStr "HOL-Library.AList"
begin

text \<open>
  The settings store of \<open>src/usersettings.py\<close>: a JSON document in a file of the
  user's configuration directory, read and written whole by the property
  \<open>settings\<close>, with \<open>get\<close>, \<open>__getitem__\<close> and \<open>__setitem__\<close> on top.  The file
  is opened with \<open>encoding="ansi"\<close>, a codec only Windows has: the flag
  \<open>ansi_ok\<close> of the platform says whether it exists.  Elsewhere opening raises
  \<open>LookupError\<close>, and a write has already created (or truncated) the file when
  it does.
\<close>

section \<open>Definitions\<close>

text \<open>JSON values as \<open>json.loads\<close> returns them; an object is a dictionary, a
  list of pairs with distinct keys in insertion order.\<close>

datatype json = JNull | JBool bool | JInt int | JStr string | JList "json list" | JObj "(string \<times> json) list"

text \<open>The platform and the files: \<open>ansi_ok\<close>, and the content of each settings
  file by path: \<open>Some j\<close> for the JSON text of \<open>j\<close>, \<open>None\<close> for text that is not
  JSON (the empty file a failed write leaves).\<close>

record settings_fs =
  ansi_ok :: bool
  sf_files :: "string \<rightharpoonup> json option"
  sf_dirs :: "string set"

record user_settings =
  user_settings_file :: string

definition DEFAULT_FILENAME :: string where
  "DEFAULT_FILENAME = ''settings.json''"

text \<open>\<open>__init__\<close>: \<open>config\<close> is \<open>platformdirs.user_config_path\<close>.\<close>

definition user_settings_init :: "settings_fs \<Rightarrow> string \<Rightarrow> string option \<Rightarrow> settings_fs \<times> user_settings" where
  "user_settings_init fs config filename =
     (let fs = (if config \<in> sf_dirs fs then fs else fs\<lparr>sf_dirs := insert config (sf_dirs fs)\<rparr>);
          f = (case filename of None \<Rightarrow> path_join config DEFAULT_FILENAME
               | Some n \<Rightarrow> path_join config (path_name n))
      in (fs, \<lparr>user_settings_file = f\<rparr>))"

definition json_type_name :: "json \<Rightarrow> string" where
  "json_type_name v = (case v of JNull \<Rightarrow> ''NoneType'' | JBool _ \<Rightarrow> ''bool'' | JInt _ \<Rightarrow> ''int''
     | JStr _ \<Rightarrow> ''str'' | JList _ \<Rightarrow> ''list'' | JObj _ \<Rightarrow> ''dict'')"

definition ansi_error :: py_error where
  "ansi_error = LookupError ''unknown encoding: ansi''"

text \<open>The property \<open>settings\<close>: \<open>{}\<close> when the file does not exist, else the
  file read with \<open>encoding="ansi"\<close> and parsed.\<close>

definition settings_get :: "settings_fs \<Rightarrow> user_settings \<Rightarrow> json result" where
  "settings_get fs us =
     (case sf_files fs (user_settings_file us) of
       None \<Rightarrow> Inr (JObj [])
     | Some c \<Rightarrow>
         if \<not> ansi_ok fs then Inl ansi_error
         else (case c of None \<Rightarrow> Inl (ValueError ''Expecting value'') | Some j \<Rightarrow> Inr j))"

text \<open>The setter: only a dictionary is written; \<open>write_text\<close> opens (creating or
  truncating) the file before the codec lookup fails.\<close>

definition settings_set :: "settings_fs \<Rightarrow> user_settings \<Rightarrow> json \<Rightarrow> unit result \<times> settings_fs" where
  "settings_set fs us v =
     (case v of
       JObj kvs \<Rightarrow>
         if ansi_ok fs then (Inr (), fs\<lparr>sf_files := (sf_files fs)(user_settings_file us \<mapsto> Some v)\<rparr>)
         else (Inl ansi_error, fs\<lparr>sf_files := (sf_files fs)(user_settings_file us \<mapsto> None)\<rparr>)
     | _ \<Rightarrow> (Inl (TypeError (''operand type must be a '' @ [CHR 0x27] @ ''dict'' @ [CHR 0x27]
                @ '', got: '' @ [CHR 0x27] @ json_type_name v @ [CHR 0x27])), fs))"

definition getitem :: "settings_fs \<Rightarrow> user_settings \<Rightarrow> string \<Rightarrow> json result" where
  "getitem fs us name =
     (case settings_get fs us of
       Inl e \<Rightarrow> Inl e
     | Inr (JObj kvs) \<Rightarrow> (case map_of kvs name of None \<Rightarrow> Inl (KeyError name) | Some v \<Rightarrow> Inr v)
     | Inr _ \<Rightarrow> Inl (TypeError ''object is not subscriptable by str''))"

definition settings_get_default :: "settings_fs \<Rightarrow> user_settings \<Rightarrow> string \<Rightarrow> json \<Rightarrow> json result" where
  "settings_get_default fs us name dflt =
     (case getitem fs us name of Inl (KeyError _) \<Rightarrow> Inr dflt | r \<Rightarrow> r)"

definition setitem :: "settings_fs \<Rightarrow> user_settings \<Rightarrow> string \<Rightarrow> json \<Rightarrow> unit result \<times> settings_fs" where
  "setitem fs us key value =
     (case settings_get fs us of
       Inl e \<Rightarrow> (Inl e, fs)
     | Inr (JObj kvs) \<Rightarrow> settings_set fs us (JObj (AList.update key value kvs))
     | Inr _ \<Rightarrow> (Inl (TypeError ''object does not support item assignment''), fs))"

text \<open>Two platforms for the witnesses, and the store of \<open>UserSettings("crippy")\<close>.\<close>

definition demo_windows :: settings_fs where
  "demo_windows = \<lparr>ansi_ok = True, sf_files = Map.empty, sf_dirs = {}\<rparr>"

definition demo_linux :: settings_fs where
  "demo_linux = \<lparr>ansi_ok = False, sf_files = Map.empty, sf_dirs = {}\<rparr>"

definition demo_us :: user_settings where
  "demo_us = \<lparr>user_settings_file = ''/home/ben/.config/crippy/settings.json''\<rparr>"

section \<open>The store as a dictionary\<close>

text \<open>A client's sequence of \<open>settings[k] = v\<close> and \<open>settings.get(k, d)\<close>
  calls, run on the store (each call reads and writes the file) and on an
  in-memory dictionary, the abstract specification of the store.  The result of
  \<open>__setitem__\<close> is \<open>None\<close>.\<close>

datatype settings_op = OpSet string json | OpGet string json

fun run_settings :: "settings_fs \<Rightarrow> user_settings \<Rightarrow> settings_op list \<Rightarrow> json result list \<times> settings_fs" where
  "run_settings fs us [] = ([], fs)"
| "run_settings fs us (OpSet k v # ops) =
     (case setitem fs us k v of
       (Inl e, fs') \<Rightarrow> (let (rs, fs'') = run_settings fs' us ops in (Inl e # rs, fs''))
     | (Inr _, fs') \<Rightarrow> (let (rs, fs'') = run_settings fs' us ops in (Inr JNull # rs, fs'')))"
| "run_settings fs us (OpGet k d # ops) =
     (let (rs, fs') = run_settings fs us ops in (settings_get_default fs us k d # rs, fs'))"

fun run_dict :: "(string \<rightharpoonup> json) \<Rightarrow> settings_op list \<Rightarrow> json list" where
  "run_dict m [] = []"
| "run_dict m (OpSet k v # ops) = JNull # run_dict (m(k \<mapsto> v)) ops"
| "run_dict m (OpGet k d # ops) = (case m k of None \<Rightarrow> d | Some v \<Rightarrow> v) # run_dict m ops"

section \<open>Lemmas\<close>

lemma settings_get_written:
  "ansi_ok fs \<Longrightarrow> settings_set fs us (JObj kvs) = (Inr (), fs') \<Longrightarrow> settings_get fs' us = Inr (JObj kvs)"
  by (auto simp: settings_set_def settings_get_def split: if_splits)

lemma setitem_Inr:
  assumes "setitem fs us k v = (Inr (), fs')"
  obtains kvs where "settings_get fs us = Inr (JObj kvs)" "ansi_ok fs"
    "fs' = fs\<lparr>sf_files := (sf_files fs)(user_settings_file us \<mapsto> Some (JObj (AList.update k v kvs)))\<rparr>"
  using assms by (auto simp: setitem_def settings_set_def split: sum.splits json.splits if_splits)

text \<open>The store on a platform without the \<open>ansi\<close> codec: an absent file reads
  as \<open>{}\<close>, a present one raises, and a write raises either way, leaving the
  file present.\<close>

lemma settings_get_default_absent:
  "sf_files fs (user_settings_file us) = None \<Longrightarrow> settings_get_default fs us k d = Inr d"
  by (simp add: settings_get_default_def getitem_def settings_get_def)

lemma settings_get_default_no_ansi:
  "\<not> ansi_ok fs \<Longrightarrow> sf_files fs (user_settings_file us) \<noteq> None \<Longrightarrow> settings_get_default fs us k d = Inl ansi_error"
  by (auto simp: settings_get_default_def getitem_def settings_get_def ansi_error_def)

lemma setitem_no_ansi:
  assumes "\<not> ansi_ok fs"
  shows "fst (setitem fs us k v) = Inl ansi_error"
    and "ansi_ok (snd (setitem fs us k v)) = ansi_ok fs"
    and "sf_files (snd (setitem fs us k v)) (user_settings_file us) \<noteq> None"
  using assms
  by (auto simp: setitem_def settings_get_def settings_set_def split: option.splits)

lemma setitem_no_ansi_dest:
  "\<not> ansi_ok fs \<Longrightarrow> setitem fs us k v = (a, fs') \<Longrightarrow>
     a = Inl ansi_error \<and> \<not> ansi_ok fs' \<and> sf_files fs' (user_settings_file us) \<noteq> None"
  using setitem_no_ansi [of fs us k v] by simp

text \<open>On a dictionary file, \<open>__setitem__\<close> rewrites the file with the key updated
  and \<open>get\<close> is a dictionary lookup with a default.\<close>

lemma setitem_dict:
  assumes "ansi_ok fs" and "settings_get fs us = Inr (JObj kvs)"
  shows "setitem fs us k v = (Inr (), fs\<lparr>sf_files := (sf_files fs)(user_settings_file us \<mapsto> Some (JObj (AList.update k v kvs)))\<rparr>)"
  using assms by (simp add: setitem_def settings_set_def)

lemma get_default_dict:
  "settings_get fs us = Inr (JObj kvs) \<Longrightarrow> settings_get_default fs us k d = Inr (case map_of kvs k of None \<Rightarrow> d | Some v \<Rightarrow> v)"
  by (simp add: settings_get_default_def getitem_def split: option.splits)

section \<open>Properties\<close>

text \<open>C23: where the \<open>ansi\<close> codec exists (Windows), a successful
  \<open>settings[k] = v\<close> is read back by \<open>get(k, d)\<close>, and leaves every other key as
  it was.\<close>

theorem setitem_get:
  assumes "setitem fs us k v = (Inr (), fs')"
  shows "settings_get_default fs' us k d = Inr v
         \<and> (\<forall>k'. k' \<noteq> k \<longrightarrow> settings_get_default fs' us k' d = settings_get_default fs us k' d)"
proof -
  obtain kvs where g: "settings_get fs us = Inr (JObj kvs)" and a: "ansi_ok fs"
    and f: "fs' = fs\<lparr>sf_files := (sf_files fs)(user_settings_file us \<mapsto> Some (JObj (AList.update k v kvs)))\<rparr>"
    using setitem_Inr [OF assms] by blast
  have g': "settings_get fs' us = Inr (JObj (AList.update k v kvs))" using a f by (simp add: settings_get_def)
  show ?thesis using g g' by (auto simp: settings_get_default_def getitem_def update_conv' split: option.splits)
qed

theorem setitem_get_witness:
  "settings_get_default (snd (setitem demo_windows demo_us ''LAST_LOAD_PATH'' (JStr ''/home/ben'')))
     demo_us ''LAST_LOAD_PATH'' (JStr ''.'') = Inr (JStr ''/home/ben'')"
proof -
  have "setitem demo_windows demo_us ''LAST_LOAD_PATH'' (JStr ''/home/ben'')
          = (Inr (), snd (setitem demo_windows demo_us ''LAST_LOAD_PATH'' (JStr ''/home/ben'')))"
    by (simp add: setitem_def settings_get_def settings_set_def demo_windows_def)
  then show ?thesis using setitem_get by blast
qed

text \<open>C24: where the \<open>ansi\<close> codec does not exist (Linux, macOS), the first
  \<open>settings[k] = v\<close> raises \<open>LookupError\<close> after creating an empty settings
  file, and from then on every \<open>get\<close>, whatever its key and default, raises
  \<open>LookupError\<close> too: the store never works.\<close>

theorem settings_broken_without_ansi:
  assumes "\<not> ansi_ok fs" and "sf_files fs (user_settings_file us) = None"
  shows "fst (setitem fs us k v) = Inl ansi_error
         \<and> (\<forall>k' d. settings_get_default (snd (setitem fs us k v)) us k' d = Inl ansi_error)"
  using assms
  by (simp add: setitem_def settings_get_def settings_set_def getitem_def settings_get_default_def ansi_error_def)

theorem settings_broken_without_ansi_witness:
  "fst (setitem demo_linux demo_us ''LAST_LOAD_PATH'' (JStr ''/home/ben'')) = Inl ansi_error
   \<and> settings_get_default (snd (setitem demo_linux demo_us ''LAST_LOAD_PATH'' (JStr ''/home/ben'')))
       demo_us ''LAST_SAVE_PATH'' (JStr ''.'') = Inl ansi_error"
proof -
  have "\<not> ansi_ok demo_linux" "sf_files demo_linux (user_settings_file demo_us) = None"
    by (simp_all add: demo_linux_def)
  then show ?thesis using settings_broken_without_ansi by blast
qed

text \<open>C29: where the \<open>ansi\<close> codec exists and the settings file holds a
  dictionary (or does not exist yet), the store refines an in-memory dictionary:
  any sequence of \<open>settings[k] = v\<close> and \<open>get(k, d)\<close> calls returns exactly what
  the same calls on the dictionary \<open>dict(kvs)\<close> return, and never raises.\<close>

theorem settings_refine_dict:
  assumes "ansi_ok fs" and "settings_get fs us = Inr (JObj kvs)"
  shows "fst (run_settings fs us ops) = map Inr (run_dict (map_of kvs) ops)"
  using assms
proof (induction ops arbitrary: fs kvs)
  case Nil
  then show ?case by simp
next
  case (Cons op ops)
  show ?case
  proof (cases op)
    case (OpSet k v)
    let ?fs' = "fs\<lparr>sf_files := (sf_files fs)(user_settings_file us \<mapsto> Some (JObj (AList.update k v kvs)))\<rparr>"
    have g': "settings_get ?fs' us = Inr (JObj (AList.update k v kvs))" using Cons.prems(1)
      by (simp add: settings_get_def)
    have "fst (run_settings ?fs' us ops) = map Inr (run_dict (map_of (AList.update k v kvs)) ops)"
      using Cons.IH [of ?fs' "AList.update k v kvs"] Cons.prems(1) g' by simp
    then show ?thesis using OpSet setitem_dict [OF Cons.prems]
      by (simp add: update_conv' Let_def split_def)
  next
    case (OpGet k d)
    then show ?thesis using Cons.IH [OF Cons.prems] get_default_dict [OF Cons.prems(2)]
      by (simp add: Let_def split_def split: option.splits)
  qed
qed

theorem settings_refine_dict_witness:
  "fst (run_settings demo_windows demo_us [OpSet ''LAST_LOAD_PATH'' (JStr ''/tmp''), OpGet ''LAST_LOAD_PATH'' (JStr ''.''),
      OpGet ''LAST_SAVE_PATH'' (JStr ''.'')]) = [Inr JNull, Inr (JStr ''/tmp''), Inr (JStr ''.'')]"
proof -
  have "fst (run_settings demo_windows demo_us [OpSet ''LAST_LOAD_PATH'' (JStr ''/tmp''), OpGet ''LAST_LOAD_PATH'' (JStr ''.''),
      OpGet ''LAST_SAVE_PATH'' (JStr ''.'')]) = map Inr (run_dict (map_of []) [OpSet ''LAST_LOAD_PATH'' (JStr ''/tmp''),
      OpGet ''LAST_LOAD_PATH'' (JStr ''.''), OpGet ''LAST_SAVE_PATH'' (JStr ''.'')])"
    by (rule settings_refine_dict) (simp_all add: demo_windows_def settings_get_def)
  also have "\<dots> = [Inr JNull, Inr (JStr ''/tmp''), Inr (JStr ''.'')]" by simp
  finally show ?thesis .
qed

end
