(* ===== verification/MainWindow.thy ===== *)
theory MainWindow
  imports BlockRoundtrip Plural Settings
begin

text \<open>
  The main window of \<open>src/crippy.py\<close> (class \<open>MainWindow\<close>, lines 45--282) with
  the drop target of \<open>src/myplaintextedit.py\<close> and the object names of
  \<open>src/crippy_ui.py\<close> that \<open>connectSlotsByName\<close> wires to its slots.  The
  window's state is the record \<open>window\<close>: the texts of its widgets, the check
  box and the echo mode of the password field, the message boxes shown, the
  settings store and the files.  A user action is an \<open>event\<close>; \<open>window_step\<close>
  runs the slot Qt calls for it, with the slots Qt calls in turn when a slot
  changes a widget (\<open>on_te_input_textChanged\<close>,
  \<open>on_cb_show_password_stateChanged\<close>).  An exception that escapes a slot ends
  it (Qt prints it and the event loop goes on): it is recorded in
  \<open>slot_error\<close>, and the state is what the slot had changed before.  File
  dialogs are functions from the proposed path to the user's answer (\<open>''''\<close> for
  Cancel), and the randomness of each encryption is an argument of the event.
\<close>

section \<open>State, environment and events\<close>

text \<open>The libraries the window calls: the codecs and zlib, the cipher, the PRF of
  the key derivation, and the working directory (\<open>pathlib.Path.cwd()\<close>).\<close>

record 'r env =
  env_lib :: pylib
  env_cipher :: "'r fernet"
  env_prf :: prf_fn
  env_cwd :: string

record window =
  le_password :: string
  cb_show_password :: bool
  echo_normal :: bool            \<comment> \<open>echo mode of \<open>le_password\<close>: \<open>Normal\<close> (or \<open>Password\<close>)\<close>
  le_filename :: string
  te_input :: string
  te_output :: string
  status_msg :: string
  win_settings :: user_settings
  win_sfs :: settings_fs
  win_fs :: fsys
  dialogs :: "string list"       \<comment> \<open>titles of the message boxes shown, oldest first\<close>
  closed :: bool
  slot_error :: "py_error option"

text \<open>What is dropped on the input field: a list of URLs (as local file names,
  \<open>url.toLocalFile()\<close>), or text dropped at a cursor position.\<close>

datatype mime = MimeUrls "string list" | MimeText nat string

datatype 'r event =
    FileNew | FileExit | HelpAbout | ToggleShowPassword
  | TypePassword string | TypeFilename string | TypeInput string
  | EncryptInputToOutput 'r | EncryptFileToOutput 'r "string \<Rightarrow> string"
  | DecryptInputToOutput | DecryptInputToFile "string \<Rightarrow> string"
  | PbEncrypt 'r | PbDecrypt | PbEncryptFromFile 'r "string \<Rightarrow> string" | PbDecryptToFile "string \<Rightarrow> string"
  | Drop 'r mime | CloseWindow

definition LAST_LOAD_PATH :: string where "LAST_LOAD_PATH = ''LAST_LOAD_PATH''"
definition LAST_SAVE_PATH :: string where "LAST_SAVE_PATH = ''LAST_SAVE_PATH''"

text \<open>\<open>__init__\<close>: the settings of \<open>UserSettings("crippy", "nl.benhattem")\<close> in the
  configuration directory \<open>config\<close>, and the widgets as \<open>setupUi\<close> leaves them
  (empty, check box off, password echo mode \<open>Password\<close>).\<close>

definition main_window_init :: "settings_fs \<Rightarrow> fsys \<Rightarrow> string \<Rightarrow> window" where
  "main_window_init sfs fs config =
     (let (sfs', us) = user_settings_init sfs config None
      in \<lparr>le_password = [], cb_show_password = False, echo_normal = False, le_filename = [],
          te_input = [], te_output = [], status_msg = [], win_settings = us, win_sfs = sfs',
          win_fs = fs, dialogs = [], closed = False, slot_error = None\<rparr>)"

section \<open>Slots connected to widget signals\<close>

definition on_te_input_textChanged :: "window \<Rightarrow> window" where
  "on_te_input_textChanged w = w\<lparr>te_output := [], status_msg := []\<rparr>"

text \<open>Writing the input field (\<open>clear\<close>, \<open>setPlainText\<close>, typing) emits
  \<open>textChanged\<close>.\<close>

definition set_input :: "window \<Rightarrow> string \<Rightarrow> window" where
  "set_input w s = on_te_input_textChanged (w\<lparr>te_input := s\<rparr>)"

definition on_cb_show_password_stateChanged :: "window \<Rightarrow> window" where
  "on_cb_show_password_stateChanged w = w\<lparr>echo_normal := cb_show_password w, status_msg := []\<rparr>"

text \<open>\<open>setChecked\<close> emits \<open>stateChanged\<close> only when the state changes.\<close>

definition set_show_password :: "window \<Rightarrow> bool \<Rightarrow> window" where
  "set_show_password w b =
     (if b = cb_show_password w then w else on_cb_show_password_stateChanged (w\<lparr>cb_show_password := b\<rparr>))"

definition reset_gui :: "window \<Rightarrow> window" where
  "reset_gui w =
     (let w = w\<lparr>le_password := []\<rparr>;
          w = set_show_password w False;
          w = w\<lparr>le_filename := []\<rparr>;
          w = set_input w [];
          w = w\<lparr>te_output := []\<rparr>
      in w\<lparr>status_msg := []\<rparr>)"

section \<open>Handlers\<close>

definition slot_raise :: "window \<Rightarrow> py_error \<Rightarrow> window" where
  "slot_raise w e = w\<lparr>slot_error := Some e\<rparr>"

definition slot_ok :: "window \<Rightarrow> window" where
  "slot_ok w = w\<lparr>slot_error := None\<rparr>"

definition window_key :: "'r env \<Rightarrow> window \<Rightarrow> bytes" where
  "window_key E w = derive_key_from_password (env_prf E) (le_password w) SALT default_iterations"

text \<open>\<open>encrypt(data)\<close>: key, cipher, block, status message.\<close>

definition window_encrypt :: "'r env \<Rightarrow> 'r \<Rightarrow> window \<Rightarrow> data_object \<Rightarrow> string result \<times> window" where
  "window_encrypt E r w data =
     (case block_crypter_init (env_cipher E) (window_key E w) None of
       Inl e \<Rightarrow> (Inl e, w)
     | Inr bc \<Rightarrow>
         (case encrypt_to_block (env_cipher E) bc r data None of
           Inl e \<Rightarrow> (Inl e, w)
         | Inr enc \<Rightarrow>
             (let len_data = (case binary_data data of None \<Rightarrow> 0 | Some b \<Rightarrow> length b)
              in case msg_with_correct_plural ''Encrypted {} byte{}...'' (int len_data) of
                   Inl e \<Rightarrow> (Inl e, w)
                 | Inr m \<Rightarrow> (Inr enc, w\<lparr>status_msg := m\<rparr>))))"

definition on_encrypt_input_to_output_triggered :: "'r env \<Rightarrow> 'r \<Rightarrow> window \<Rightarrow> window" where
  "on_encrypt_input_to_output_triggered E r w =
     (case from_str (env_lib E) (Some (te_input w)) None None of
       Inl e \<Rightarrow> slot_raise w e
     | Inr d \<Rightarrow>
         (case window_encrypt E r w d of
           (Inl e, w1) \<Rightarrow> slot_raise w1 e
         | (Inr enc, w1) \<Rightarrow> slot_ok (w1\<lparr>te_output := enc\<rparr>)))"

text \<open>\<open>_encrypt_file(filename)\<close>.\<close>

definition encrypt_file :: "'r env \<Rightarrow> 'r \<Rightarrow> window \<Rightarrow> string \<Rightarrow> unit result \<times> window" where
  "encrypt_file E r w fname =
     (if fname = [] then (Inr (), w)
      else
        (let w1 = set_input w []
         in case from_file (env_lib E) (win_fs w1) fname None of
              Inl e \<Rightarrow> (Inl e, w1)
            | Inr d \<Rightarrow>
                (case window_encrypt E r w1 d of
                  (Inl e, w2) \<Rightarrow> (Inl e, w2)
                | (Inr enc, w2) \<Rightarrow> (Inr (), w2\<lparr>te_output := enc\<rparr>))))"

text \<open>\<open>pathlib.Path(v)\<close> of a stored setting: only a string is a path.\<close>

definition path_of_json :: "json \<Rightarrow> string result" where
  "path_of_json v =
     (case v of JStr s \<Rightarrow> Inr s
      | _ \<Rightarrow> Inl (TypeError ''expected str, bytes or os.PathLike object''))"

text \<open>\<open>select_file_dialog(save, overrule_filename)\<close>; \<open>ask\<close> is the dialog: the
  user's answer to the proposed path.\<close>

definition select_file_dialog ::
  "'r env \<Rightarrow> window \<Rightarrow> bool \<Rightarrow> string option \<Rightarrow> (string \<Rightarrow> string) \<Rightarrow> string result \<times> window" where
  "select_file_dialog E w save overrule ask =
     (let setting = (if save then LAST_SAVE_PATH else LAST_LOAD_PATH)
      in case settings_get_default (win_sfs w) (win_settings w) setting (JStr (env_cwd E)) of
           Inl e \<Rightarrow> (Inl e, w)
         | Inr v \<Rightarrow>
             (case path_of_json v of
               Inl e \<Rightarrow> (Inl e, w)
             | Inr start \<Rightarrow>
                 (let given = (case overrule of None \<Rightarrow> le_filename w | Some f \<Rightarrow> f);
                      start_path = (if given \<noteq> [] then path_join start (path_name given) else path_str start);
                      fname = ask start_path
                  in if overrule = None \<and> fname \<noteq> [] then
                       (case setitem (win_sfs w) (win_settings w) setting (JStr (path_parent fname)) of
                         (Inl e, sfs') \<Rightarrow> (Inl e, w\<lparr>win_sfs := sfs'\<rparr>)
                       | (Inr _, sfs') \<Rightarrow> (Inr fname, w\<lparr>win_sfs := sfs', le_filename := path_name fname\<rparr>))
                     else (Inr fname, w))))"

definition on_encrypt_file_to_output_triggered ::
  "'r env \<Rightarrow> 'r \<Rightarrow> (string \<Rightarrow> string) \<Rightarrow> window \<Rightarrow> window" where
  "on_encrypt_file_to_output_triggered E r ask w =
     (case select_file_dialog E w False None ask of
       (Inl e, w1) \<Rightarrow> slot_raise w1 e
     | (Inr f, w1) \<Rightarrow>
         (case encrypt_file E r w1 f of
           (Inl e, w2) \<Rightarrow> slot_raise w2 e
         | (Inr _, w2) \<Rightarrow> slot_ok w2))"

text \<open>\<open>decrypt()\<close>: an empty input or any exception of \<open>decrypt_from_block\<close> shows
  a message box and gives \<open>DataObject.from_str("")\<close>.\<close>

definition window_decrypt :: "'r env \<Rightarrow> window \<Rightarrow> data_object result \<times> window" where
  "window_decrypt E w =
     (if te_input w = [] then
        (from_str (env_lib E) (Some []) None None, w\<lparr>dialogs := dialogs w @ [''No input'']\<rparr>)
      else
        (case block_crypter_init (env_cipher E) (window_key E w) None of
          Inl e \<Rightarrow> (Inl e, w)
        | Inr bc \<Rightarrow>
            (case decrypt_from_block (env_cipher E) bc (te_input w) of
              Inl _ \<Rightarrow> (from_str (env_lib E) (Some []) None None, w\<lparr>dialogs := dialogs w @ [''Decryption error'']\<rparr>)
            | Inr d \<Rightarrow>
                (let w1 = (case filename d of None \<Rightarrow> w | Some f \<Rightarrow> w\<lparr>le_filename := path_name f\<rparr>);
                     len_data = (case binary_data d of None \<Rightarrow> 0 | Some b \<Rightarrow> length b)
                 in case msg_with_correct_plural ''Decrypted {} byte{}'' (int len_data) of
                      Inl e \<Rightarrow> (Inl e, w1)
                    | Inr m \<Rightarrow> (Inr d, w1\<lparr>status_msg := m\<rparr>)))))"

text \<open>\<open>if decrypted_data.binary_data:\<close> (no bytes and empty bytes are false).\<close>

definition has_data :: "data_object \<Rightarrow> bool" where
  "has_data d \<longleftrightarrow> (case binary_data d of None \<Rightarrow> False | Some b \<Rightarrow> b \<noteq> [])"

definition on_decrypt_input_to_output_triggered :: "'r env \<Rightarrow> window \<Rightarrow> window" where
  "on_decrypt_input_to_output_triggered E w =
     (case window_decrypt E w of
       (Inl e, w1) \<Rightarrow> slot_raise w1 e
     | (Inr d, w1) \<Rightarrow>
         (case (if has_data d
                then map_sum id (\<lambda>t. w1\<lparr>te_output := (case t of None \<Rightarrow> [] | Some s \<Rightarrow> s)\<rparr>) (as_str (env_lib E) d None)
                else Inr w1) of
           Inl e \<Rightarrow> slot_raise w1 e
         | Inr w2 \<Rightarrow> slot_ok (w2\<lparr>status_msg := status_msg w2 @ ''...''\<rparr>)))"

definition on_decrypt_input_to_file_triggered :: "'r env \<Rightarrow> (string \<Rightarrow> string) \<Rightarrow> window \<Rightarrow> window" where
  "on_decrypt_input_to_file_triggered E ask w =
     (case window_decrypt E w of
       (Inl e, w1) \<Rightarrow> slot_raise w1 e
     | (Inr d, w1) \<Rightarrow>
         (if \<not> has_data d then slot_ok w1
          else
            (case select_file_dialog E w1 True None ask of
              (Inl e, w2) \<Rightarrow> slot_raise w2 e
            | (Inr f, w2) \<Rightarrow>
                (if f = [] then slot_ok (w2\<lparr>status_msg := status_msg w2 @ '', NOT saved (cancelled)...''\<rparr>)
                 else
                   (let w3 = w2\<lparr>te_output := []\<rparr>
                    in case to_file (env_lib E) (win_fs w3) d (Some f) None of
                         (Inl e, fs') \<Rightarrow> slot_raise (w3\<lparr>win_fs := fs'\<rparr>) e
                       | (Inr _, fs') \<Rightarrow> slot_ok (w3\<lparr>win_fs := fs',
                            status_msg := status_msg w3 @ '', saved to '' @ [QT] @ f @ [QT] @ ''...''\<rparr>))))))"

text \<open>\<open>on_te_input_file_dropped(filename)\<close>, the slot of the signal
  \<open>file_dropped\<close>; a \<open>pathlib.Path\<close> is always true, \<open>Path("")\<close> is \<open>"."\<close>.\<close>

definition on_te_input_file_dropped :: "'r env \<Rightarrow> 'r \<Rightarrow> window \<Rightarrow> string \<Rightarrow> window" where
  "on_te_input_file_dropped E r w fname =
     (case setitem (win_sfs w) (win_settings w) LAST_LOAD_PATH (JStr (path_parent fname)) of
       (Inl e, sfs') \<Rightarrow> slot_raise (w\<lparr>win_sfs := sfs'\<rparr>) e
     | (Inr _, sfs') \<Rightarrow>
         (case encrypt_file E r (w\<lparr>win_sfs := sfs'\<rparr>) (path_str fname) of
           (Inl e, w2) \<Rightarrow> slot_raise w2 e
         | (Inr _, w2) \<Rightarrow> slot_ok w2))"

text \<open>\<open>MyPlainTextEdit.dropEvent\<close>: URLs emit \<open>file_dropped\<close> with the first one;
  anything else goes to \<open>QPlainTextEdit.dropEvent\<close>, which inserts dropped text
  at the cursor.\<close>

definition drop_event :: "'r env \<Rightarrow> 'r \<Rightarrow> window \<Rightarrow> mime \<Rightarrow> window" where
  "drop_event E r w m =
     (case m of
       MimeUrls (u # _) \<Rightarrow> on_te_input_file_dropped E r w u
     | MimeUrls [] \<Rightarrow> slot_ok w
     | MimeText pos s \<Rightarrow>
         slot_ok (if s = [] then w else set_input w (take pos (te_input w) @ s @ drop pos (te_input w))))"

section \<open>Menu and button slots\<close>

text \<open>\<open>on_file_new_triggered\<close>, \<open>on_file_exit_triggered\<close> and
  \<open>on_help_about_triggered\<close> (the about box is modal and only shown), and the
  four buttons, whose slots call the menu slots.\<close>

definition on_file_new_triggered :: "window \<Rightarrow> window" where
  "on_file_new_triggered w = slot_ok (reset_gui w)"

definition on_file_exit_triggered :: "window \<Rightarrow> window" where
  "on_file_exit_triggered w = slot_ok (w\<lparr>closed := True\<rparr>)"

definition on_help_about_triggered :: "window \<Rightarrow> window" where
  "on_help_about_triggered w = slot_ok (w\<lparr>dialogs := dialogs w @ [''About'']\<rparr>)"

definition on_pb_encrypt_from_file_clicked :: "'r env \<Rightarrow> 'r \<Rightarrow> (string \<Rightarrow> string) \<Rightarrow> window \<Rightarrow> window" where
  "on_pb_encrypt_from_file_clicked E r ask w = on_encrypt_file_to_output_triggered E r ask w"

definition on_pb_decrypt_to_file_clicked :: "'r env \<Rightarrow> (string \<Rightarrow> string) \<Rightarrow> window \<Rightarrow> window" where
  "on_pb_decrypt_to_file_clicked E ask w = on_decrypt_input_to_file_triggered E ask w"

definition on_pb_encrypt_clicked :: "'r env \<Rightarrow> 'r \<Rightarrow> window \<Rightarrow> window" where
  "on_pb_encrypt_clicked E r w = on_encrypt_input_to_output_triggered E r w"

definition on_pb_decrypt_clicked :: "'r env \<Rightarrow> window \<Rightarrow> window" where
  "on_pb_decrypt_clicked E w = on_decrypt_input_to_output_triggered E w"

text \<open>Closing the window from its title bar (or with the window manager's close
  key): Qt calls \<open>closeEvent\<close>, which \<open>MainWindow\<close> does not override, so the
  close is accepted and the window closes, as \<open>self.close()\<close> does; no slot
  runs.\<close>

definition close_event :: "window \<Rightarrow> window" where
  "close_event w = w\<lparr>closed := True\<rparr>"

section \<open>Steps\<close>

text \<open>One user action: the slot \<open>connectSlotsByName\<close> connected to the
  signal it emits, or the widget's own reaction (typing; the check box toggles
  and emits \<open>stateChanged\<close>).\<close>

definition window_step :: "'r env \<Rightarrow> window \<Rightarrow> 'r event \<Rightarrow> window" where
  "window_step E w ev =
     (case ev of
       FileNew \<Rightarrow> on_file_new_triggered w
     | FileExit \<Rightarrow> on_file_exit_triggered w
     | HelpAbout \<Rightarrow> on_help_about_triggered w
     | ToggleShowPassword \<Rightarrow> slot_ok (set_show_password w (\<not> cb_show_password w))
     | TypePassword s \<Rightarrow> slot_ok (w\<lparr>le_password := s\<rparr>)
     | TypeFilename s \<Rightarrow> slot_ok (w\<lparr>le_filename := s\<rparr>)
     | TypeInput s \<Rightarrow> slot_ok (if s = te_input w then w else set_input w s)
     | EncryptInputToOutput r \<Rightarrow> on_encrypt_input_to_output_triggered E r w
     | EncryptFileToOutput r ask \<Rightarrow> on_encrypt_file_to_output_triggered E r ask w
     | DecryptInputToOutput \<Rightarrow> on_decrypt_input_to_output_triggered E w
     | DecryptInputToFile ask \<Rightarrow> on_decrypt_input_to_file_triggered E ask w
     | PbEncrypt r \<Rightarrow> on_pb_encrypt_clicked E r w
     | PbDecrypt \<Rightarrow> on_pb_decrypt_clicked E w
     | PbEncryptFromFile r ask \<Rightarrow> on_pb_encrypt_from_file_clicked E r ask w
     | PbDecryptToFile ask \<Rightarrow> on_pb_decrypt_to_file_clicked E ask w
     | Drop r m \<Rightarrow> drop_event E r w m
     | CloseWindow \<Rightarrow> close_event w)"

fun window_run :: "'r env \<Rightarrow> window \<Rightarrow> 'r event list \<Rightarrow> window" where
  "window_run E w [] = w"
| "window_run E w (ev # evs) = window_run E (window_step E w ev) evs"

inductive reachable :: "'r env \<Rightarrow> window \<Rightarrow> window \<Rightarrow> bool" for E w0 where
  start: "reachable E w0 w0"
| step: "reachable E w0 w \<Longrightarrow> reachable E w0 (window_step E w ev)"

definition echo_consistent :: "window \<Rightarrow> bool" where
  "echo_consistent w \<longleftrightarrow> echo_normal w = cb_show_password w"

definition keeps_controls :: "window \<Rightarrow> window \<Rightarrow> bool" where
  "keeps_controls w w' \<longleftrightarrow> cb_show_password w' = cb_show_password w \<and> echo_normal w' = echo_normal w
     \<and> closed w' = closed w"

text \<open>An environment and a window for the examples: the stand-in library, cipher
  and PRF, and a window opened with the settings directory of a Linux user.\<close>

definition demo_env :: "unit env" where
  "demo_env = \<lparr>env_lib = demo_lib, env_cipher = demo_fernet, env_prf = demo_prf, env_cwd = ''/home/ben''\<rparr>"

definition demo_config :: string where
  "demo_config = ''/home/ben/.config/crippy''"


text \<open>The payload of \<open>DataObject.from_str(text)\<close> and what the block gives back of it.\<close>

abbreviation text_payload :: "pylib \<Rightarrow> bytes \<Rightarrow> data_object" where
  "text_payload L b \<equiv> store_data L (new_data_object\<lparr>content_type := Some ''text/plain'',
      charset := Some DEFAULT_CHARSET, filename := None\<rparr>) (Some b) None"

text \<open>The visible state of the widgets, which \<open>File/New\<close> resets.\<close>

definition widgets :: "window \<Rightarrow> string \<times> bool \<times> bool \<times> string \<times> string \<times> string \<times> string" where
  "widgets w = (le_password w, cb_show_password w, echo_normal w, le_filename w, te_input w, te_output w, status_msg w)"

section \<open>Lemmas: what the handlers leave alone\<close>

named_theorems window_frame "handlers that keep the check box, the echo mode and the closed flag"

text \<open>The step with the forwarding slots unfolded.\<close>

lemmas window_step_unfold = window_step_def close_event_def on_file_new_triggered_def on_file_exit_triggered_def
  on_help_about_triggered_def on_pb_encrypt_from_file_clicked_def on_pb_decrypt_to_file_clicked_def
  on_pb_encrypt_clicked_def on_pb_decrypt_clicked_def

lemma keeps_controls_refl [simp]: "keeps_controls w w"
  by (simp add: keeps_controls_def)

lemma keeps_controls_trans [trans]: "keeps_controls w1 w2 \<Longrightarrow> keeps_controls w2 w3 \<Longrightarrow> keeps_controls w1 w3"
  by (simp add: keeps_controls_def)

lemma slot_echo_simps [simp]:
  "cb_show_password (slot_raise w e) = cb_show_password w"
  "echo_normal (slot_raise w e) = echo_normal w"
  "cb_show_password (slot_ok w) = cb_show_password w"
  "echo_normal (slot_ok w) = echo_normal w"
  "cb_show_password (set_input w s) = cb_show_password w"
  "echo_normal (set_input w s) = echo_normal w"
  "closed (slot_raise w e) = closed w" "closed (slot_ok w) = closed w" "closed (set_input w s) = closed w"
  by (simp_all add: slot_raise_def slot_ok_def set_input_def on_te_input_textChanged_def)

lemma map_sum_eq_Inr: "map_sum f g x = Inr y \<longleftrightarrow> (\<exists>z. x = Inr z \<and> y = g z)"
  by (cases x) auto

lemma window_encrypt_frame [window_frame]: "window_encrypt E r w d = (x, w') \<Longrightarrow> keeps_controls w w'"
  by (auto simp: window_encrypt_def Let_def keeps_controls_def split: sum.splits)

lemma encrypt_file_frame [window_frame]: "encrypt_file E r w f = (x, w') \<Longrightarrow> keeps_controls w w'"
  by (auto simp: encrypt_file_def Let_def split: if_splits sum.splits prod.splits
           dest!: window_encrypt_frame simp add: keeps_controls_def)

lemma select_file_dialog_frame [window_frame]: "select_file_dialog E w s ov ask = (x, w') \<Longrightarrow> keeps_controls w w'"
  by (auto simp: select_file_dialog_def Let_def keeps_controls_def split: if_splits sum.splits prod.splits)

lemma window_decrypt_frame [window_frame]: "window_decrypt E w = (x, w') \<Longrightarrow> keeps_controls w w'"
  by (auto simp: window_decrypt_def Let_def keeps_controls_def split: if_splits sum.splits option.splits)

lemma handlers_frame:
  "keeps_controls w (on_encrypt_input_to_output_triggered E r w)"
  "keeps_controls w (on_encrypt_file_to_output_triggered E r ask w)"
  "keeps_controls w (on_decrypt_input_to_output_triggered E w)"
  "keeps_controls w (on_decrypt_input_to_file_triggered E ask w)"
  "keeps_controls w (on_te_input_file_dropped E r w f)"
  "keeps_controls w (drop_event E r w m)"
  unfolding on_encrypt_input_to_output_triggered_def on_encrypt_file_to_output_triggered_def
    on_decrypt_input_to_output_triggered_def on_decrypt_input_to_file_triggered_def
    on_te_input_file_dropped_def drop_event_def
  by (auto simp: Let_def map_sum_eq_Inr split: sum.splits prod.splits if_splits mime.splits list.splits
           dest!: window_frame simp add: keeps_controls_def)

lemma echo_consistent_step:
  assumes "echo_consistent w"
  shows "echo_consistent (window_step E w ev)"
proof (cases ev)
  case FileNew
  then show ?thesis using assms by (auto simp: window_step_unfold reset_gui_def Let_def set_show_password_def
      on_cb_show_password_stateChanged_def set_input_def on_te_input_textChanged_def slot_ok_def echo_consistent_def)
next
  case ToggleShowPassword
  then show ?thesis using assms by (simp add: window_step_unfold set_show_password_def
      on_cb_show_password_stateChanged_def slot_ok_def echo_consistent_def)
qed (use assms in \<open>simp_all add: window_step_unfold echo_consistent_def
      handlers_frame [unfolded keeps_controls_def]\<close>)

lemma reachable_echo_consistent:
  "reachable E w0 w \<Longrightarrow> echo_consistent w0 \<Longrightarrow> echo_consistent w"
  by (induction rule: reachable.induct) (auto intro: echo_consistent_step)


section \<open>Lemmas: the successful paths\<close>

lemma window_cipher:
  assumes "fernet_key_ok (env_cipher E) = fernet_key_valid" and "\<forall>k m. length (env_prf E k m) = 32"
  shows "block_crypter_init (env_cipher E) (window_key E w) None = Inr \<lparr>bc_key = window_key E w, default_width = 70\<rparr>"
  using derive_key_fernet_valid [OF assms(2), of default_iterations]
  by (simp add: block_crypter_init_def window_key_def assms(1) default_iterations_def)

lemma window_msgs:
  "\<exists>m. msg_with_correct_plural ''Encrypted {} byte{}...'' n = Inr m"
  "\<exists>m. msg_with_correct_plural ''Decrypted {} byte{}'' n = Inr m"
  by (simp_all add: msg_with_correct_plural_def py_format_def Let_def)

lemma window_encrypt_Inr:
  assumes "block_crypter_init (env_cipher E) (window_key E w) None = Inr bc"
    and "encrypt_to_block (env_cipher E) bc r d None = Inr blk"
  shows "\<exists>m. window_encrypt E r w d = (Inr blk, w\<lparr>status_msg := m\<rparr>)"
  using assms window_msgs(1) [of "int (case binary_data d of None \<Rightarrow> 0 | Some b \<Rightarrow> length b)"]
  by (auto simp: window_encrypt_def Let_def)

lemma window_decrypt_Inr:
  assumes "te_input w \<noteq> []" and "block_crypter_init (env_cipher E) (window_key E w) None = Inr bc"
    and "decrypt_from_block (env_cipher E) bc (te_input w) = Inr d"
  shows "\<exists>m. window_decrypt E w =
           (Inr d, (case filename d of None \<Rightarrow> w | Some f \<Rightarrow> w\<lparr>le_filename := path_name f\<rparr>)\<lparr>status_msg := m\<rparr>)"
  using assms window_msgs(2) [of "int (case binary_data d of None \<Rightarrow> 0 | Some b \<Rightarrow> length b)"]
  by (auto simp: window_decrypt_def Let_def)

lemma text_payload_facts:
  "content_type (text_payload L b) = Some ''text/plain''" "filename (text_payload L b) = None"
  "charset (text_payload L b) = Some ''utf-8''" "block_view (text_payload L b) = text_payload L b"
  "binary_data (text_payload L b) = Some (if length (zlib_compress L b) < length b then zlib_compress L b else b)"
  by (simp_all add: new_data_object_def DEFAULT_CHARSET_def block_view_def py_lower_def pystr_simps store_data_def Let_def)

lemma as_str_text_payload:
  assumes "bytes_decode L DEFAULT_CHARSET b = Inr t" and "zlib_decompress L (zlib_compress L b) = Inr b"
  shows "as_str L (text_payload L b) None = Inr (Some t)"
  using assms by (simp add: as_str_def store_data_def new_data_object_def Let_def)

lemma charset_utf8_ok: "charset_value_ok ''utf-8''"
  by (simp add: charset_value_ok_def is_quote_def pystr_simps)

lemma start_block_nonempty: "start_block @ r \<noteq> []"
  by (simp add: start_block_def)

lemma main_window_init_echo: "echo_consistent (main_window_init sfs fs config)"
  by (simp add: main_window_init_def echo_consistent_def Let_def split: prod.splits)

lemma reset_gui_widgets:
  "echo_consistent w \<Longrightarrow> widgets (reset_gui w) = ([], False, False, [], [], [], [])"
  by (simp add: reset_gui_def widgets_def Let_def set_show_password_def on_cb_show_password_stateChanged_def
      set_input_def on_te_input_textChanged_def echo_consistent_def)

lemma main_window_init_widgets: "widgets (main_window_init sfs fs config) = ([], False, False, [], [], [], [])"
  by (simp add: main_window_init_def widgets_def Let_def split: prod.splits)

section \<open>Lemmas: the empty payload of a failed decryption\<close>

lemma from_str_empty:
  "str_encode L DEFAULT_CHARSET [] = Inr [] \<Longrightarrow>
   from_str L (Some []) None None = Inr (text_payload L [])"
  by (simp add: from_str_Some)

lemma text_payload_empty_no_data: "\<not> has_data (text_payload L [])"
  by (simp add: has_data_def text_payload_facts(5))

section \<open>Lemmas: the settings on the platforms\<close>

lemma select_file_dialog_no_ansi:
  assumes "\<not> ansi_ok (win_sfs w)" and "\<forall>p. ask p \<noteq> []"
    and "select_file_dialog E w save None ask = (x, w')"
  shows "x = Inl ansi_error \<and> te_input w' = te_input w \<and> te_output w' = te_output w \<and> win_settings w' = win_settings w
         \<and> \<not> ansi_ok (win_sfs w') \<and> sf_files (win_sfs w') (user_settings_file (win_settings w)) \<noteq> None"
proof (cases "sf_files (win_sfs w) (user_settings_file (win_settings w))")
  case None
  then show ?thesis using assms
    by (auto simp: select_file_dialog_def Let_def settings_get_default_absent path_of_json_def
        split: prod.splits sum.splits dest: setitem_no_ansi_dest)
next
  case (Some c)
  then show ?thesis using assms
    by (simp add: select_file_dialog_def Let_def settings_get_default_no_ansi)
qed

lemma widgets_slot_ok [simp]: "widgets (slot_ok w) = widgets w"
  by (simp add: widgets_def slot_ok_def)

section \<open>Properties\<close>

text \<open>C25: in every state the window reaches from its start, whatever the
  user does, the password field shows the password in clear exactly when the
  check box \<open>Show password\<close> is checked.\<close>

theorem window_echo_invariant:
  assumes "reachable E (main_window_init sfs fs config) w"
  shows "echo_normal w = cb_show_password w"
  using reachable_echo_consistent [OF assms main_window_init_echo] by (simp add: echo_consistent_def)

theorem window_echo_invariant_witness:
  "echo_normal (window_step demo_env (window_step demo_env (main_window_init demo_windows demo_fs demo_config)
      ToggleShowPassword) FileNew) = False"
proof -
  let ?w0 = "main_window_init demo_windows demo_fs demo_config"
  have r: "reachable demo_env ?w0 (window_step demo_env (window_step demo_env ?w0 ToggleShowPassword) FileNew)"
    by (intro reachable.step reachable.start)
  have "cb_show_password (window_step demo_env (window_step demo_env ?w0 ToggleShowPassword) FileNew) = False"
    by (simp add: window_step_unfold reset_gui_def Let_def set_show_password_def on_cb_show_password_stateChanged_def
        set_input_def on_te_input_textChanged_def slot_ok_def)
  then show ?thesis using window_echo_invariant [OF r] by simp
qed

text \<open>C26: on a platform without the \<open>ansi\<close> codec, \<open>Encrypt file\<close> never
  encrypts: whatever file the user picks, the slot ends with \<open>LookupError\<close>,
  input and output are unchanged, and the settings file exists afterwards, so
  the next attempt fails the same way.\<close>

theorem encrypt_file_no_ansi:
  assumes "\<not> ansi_ok (win_sfs w)" and "\<forall>p. ask p \<noteq> []"
  shows "slot_error (window_step E w (EncryptFileToOutput r ask)) = Some ansi_error
         \<and> te_input (window_step E w (EncryptFileToOutput r ask)) = te_input w
         \<and> te_output (window_step E w (EncryptFileToOutput r ask)) = te_output w
         \<and> \<not> ansi_ok (win_sfs (window_step E w (EncryptFileToOutput r ask)))
         \<and> sf_files (win_sfs (window_step E w (EncryptFileToOutput r ask))) (user_settings_file (win_settings w)) \<noteq> None"
proof -
  obtain x w' where s: "select_file_dialog E w False None ask = (x, w')" by fastforce
  then show ?thesis using select_file_dialog_no_ansi [OF assms s]
    by (simp add: window_step_unfold on_encrypt_file_to_output_triggered_def slot_raise_def)
qed

theorem encrypt_file_no_ansi_witness:
  "slot_error (window_step demo_env (main_window_init demo_linux demo_fs demo_config)
      (EncryptFileToOutput () (\<lambda>p. ''/tmp/notes.txt''))) = Some ansi_error"
proof -
  have a: "\<not> ansi_ok (win_sfs (main_window_init demo_linux demo_fs demo_config))"
    by (simp add: main_window_init_def user_settings_init_def demo_linux_def Let_def split: prod.splits)
  have b: "\<forall>p. (\<lambda>p. ''/tmp/notes.txt'') p \<noteq> []" by simp
  show ?thesis using encrypt_file_no_ansi [OF a b, where E = demo_env and r = "()"] by (rule conjunct1)
qed

text \<open>C27: the round trip through the window.  Encrypting the input to the
  output, pasting the output block into the input field and decrypting it to the
  output gives back the text first typed, with no exception in either slot; for
  every password, every randomness, and every Fernet implementation whose tokens
  are URL-safe and decrypt to their plaintext, when the UTF-8 codec and zlib
  invert themselves on the text's bytes and neither is empty.\<close>

theorem encrypt_paste_decrypt:
  assumes key: "fernet_key_ok (env_cipher E) = fernet_key_valid"
    and kdf: "\<forall>k m. length (env_prf E k m) = 32"
    and tok: "\<forall>k r b. urlsafe_token (fernet_encrypt (env_cipher E) k r b)"
    and inv: "\<forall>k r b. fernet_decrypt (env_cipher E) k (fernet_encrypt (env_cipher E) k r b) = Some b"
    and enc: "str_encode (env_lib E) DEFAULT_CHARSET (te_input w) = Inr b"
    and dec: "bytes_decode (env_lib E) DEFAULT_CHARSET b = Inr (te_input w)"
    and zip: "zlib_decompress (env_lib E) (zlib_compress (env_lib E) b) = Inr b"
    and ne: "b \<noteq> []" "zlib_compress (env_lib E) b \<noteq> []"
  shows "slot_error (window_step E w (EncryptInputToOutput r)) = None
         \<and> slot_error (window_run E w [EncryptInputToOutput r,
              TypeInput (te_output (window_step E w (EncryptInputToOutput r))), DecryptInputToOutput]) = None
         \<and> te_output (window_run E w [EncryptInputToOutput r,
              TypeInput (te_output (window_step E w (EncryptInputToOutput r))), DecryptInputToOutput]) = te_input w"
proof -
  let ?L = "env_lib E" and ?F = "env_cipher E"
  let ?d = "text_payload ?L b" and ?bc = "\<lparr>bc_key = window_key E w, default_width = 70\<rparr>"
  have fs: "from_str ?L (Some (te_input w)) None None = Inr ?d"
    using enc by (simp add: from_str_Some)
  have bc: "block_crypter_init ?F (window_key E w) None = Inr ?bc"
    using window_cipher [OF key kdf] .
  obtain bin where bin: "binary_data ?d = Some bin" using text_payload_facts(5) by blast
  obtain blk where blk: "encrypt_to_block ?F ?bc r ?d None = Inr blk"
    using encrypt_to_block_text_Inr [OF bin text_payload_facts(1), where F = ?F and bc = ?bc and r = r and width = None] tok
    by blast
  obtain m1 where we: "window_encrypt E r w ?d = (Inr blk, w\<lparr>status_msg := m1\<rparr>)"
    using window_encrypt_Inr [OF bc blk] by blast
  define w1 where "w1 = window_step E w (EncryptInputToOutput r)"
  have w1: "w1 = slot_ok (w\<lparr>status_msg := m1, te_output := blk\<rparr>)"
    by (simp add: w1_def window_step_unfold on_encrypt_input_to_output_triggered_def fs we)
  define w2 where "w2 = window_step E w1 (TypeInput blk)"
  have w2: "te_input w2 = blk" "window_key E w2 = window_key E w"
    by (simp_all add: w2_def w1 window_step_unfold set_input_def on_te_input_textChanged_def
        slot_ok_def window_key_def)
  have ne2: "te_input w2 \<noteq> []"
    by (rule encrypt_to_block_Inr [OF blk]) (simp add: w2(1) start_block_def)
  have rt: "decrypt_from_block ?F ?bc blk = Inr ?d"
    using block_roundtrip [OF blk] tok inv charset_utf8_ok text_payload_facts(2,3,4) by simp
  obtain m2 where wd: "window_decrypt E w2 = (Inr ?d, w2\<lparr>status_msg := m2\<rparr>)"
    using window_decrypt_Inr [OF ne2, where E = E and bc = ?bc and d = ?d] bc rt w2 text_payload_facts(2) by auto
  have hd: "has_data ?d" using ne by (simp add: has_data_def text_payload_facts(5))
  have "te_output (window_step E w2 DecryptInputToOutput) = te_input w"
       "slot_error (window_step E w2 DecryptInputToOutput) = None"
    using wd hd as_str_text_payload [OF dec zip]
    by (simp_all add: window_step_unfold on_decrypt_input_to_output_triggered_def slot_ok_def)
  moreover have "slot_error w1 = None" "te_output w1 = blk" by (simp_all add: w1 slot_ok_def)
  moreover have "window_run E w [EncryptInputToOutput r, TypeInput (te_output w1), DecryptInputToOutput]
      = window_step E w2 DecryptInputToOutput"
    by (simp add: w1_def [symmetric] w2_def calculation(4))
  ultimately show ?thesis unfolding w1_def by simp
qed

theorem encrypt_paste_decrypt_witness:
  "slot_error (window_step demo_env (window_step demo_env (main_window_init demo_windows demo_fs demo_config)
      (TypeInput ''hi'')) (EncryptInputToOutput ())) = None
   \<and> te_output (window_run demo_env (window_step demo_env (main_window_init demo_windows demo_fs demo_config)
      (TypeInput ''hi'')) [EncryptInputToOutput (), TypeInput (te_output (window_step demo_env
      (window_step demo_env (main_window_init demo_windows demo_fs demo_config) (TypeInput ''hi''))
      (EncryptInputToOutput ()))), DecryptInputToOutput]) = ''hi''"
proof -
  let ?w = "window_step demo_env (main_window_init demo_windows demo_fs demo_config) (TypeInput ''hi'')"
  have i: "te_input ?w = ''hi''"
    by (simp add: window_step_unfold main_window_init_def Let_def slot_ok_def set_input_def
        on_te_input_textChanged_def split: prod.splits)
  have key: "fernet_key_ok (env_cipher demo_env) = fernet_key_valid"
    and kdf: "\<forall>k m. length (env_prf demo_env k m) = 32"
    and tok: "\<forall>k r b. urlsafe_token (fernet_encrypt (env_cipher demo_env) k r b)"
    and inv: "\<forall>k r b. fernet_decrypt (env_cipher demo_env) k (fernet_encrypt (env_cipher demo_env) k r b) = Some b"
    by (simp_all add: demo_env_def demo_fernet_def demo_prf_def urlsafe_hex_encode hex_decode_encode)
  have enc: "str_encode (env_lib demo_env) DEFAULT_CHARSET (te_input ?w) = Inr [104, 105]"
    and dec: "bytes_decode (env_lib demo_env) DEFAULT_CHARSET [104, 105] = Inr (te_input ?w)"
    and zip: "zlib_decompress (env_lib demo_env) (zlib_compress (env_lib demo_env) [104, 105]) = Inr [104, 105]"
    and ne: "[104, 105] \<noteq> ([] :: bytes)" "zlib_compress (env_lib demo_env) [104, 105] \<noteq> []"
    unfolding i by (simp_all add: demo_env_def demo_lib_def ascii_encode_def ascii_decode_def char_of_eq_iff)
  show ?thesis using encrypt_paste_decrypt [OF key kdf tok inv enc dec zip ne] i by simp
qed

text \<open>C28: from every state the window reaches, \<open>File/New\<close> leads to a
  reachable state whose widgets are exactly those of the freshly opened window:
  empty fields, the check box off and the password hidden.\<close>

theorem file_new_restores:
  assumes "reachable E (main_window_init sfs fs config) w"
  shows "reachable E (main_window_init sfs fs config) (window_step E w FileNew)
         \<and> widgets (window_step E w FileNew) = widgets (main_window_init sfs fs config)"
proof
  show "reachable E (main_window_init sfs fs config) (window_step E w FileNew)"
    using assms by (rule reachable.step)
  have "echo_consistent w" using reachable_echo_consistent [OF assms main_window_init_echo] .
  then show "widgets (window_step E w FileNew) = widgets (main_window_init sfs fs config)"
    by (simp add: window_step_unfold reset_gui_widgets main_window_init_widgets)
qed

theorem file_new_restores_witness:
  "widgets (window_step demo_env (window_step demo_env (main_window_init demo_windows demo_fs demo_config)
     (TypePassword ''secret'')) FileNew) = ([], False, False, [], [], [], [])"
proof -
  let ?w0 = "main_window_init demo_windows demo_fs demo_config"
  have r: "reachable demo_env ?w0 (window_step demo_env ?w0 (TypePassword ''secret''))"
    by (intro reachable.step reachable.start)
  show ?thesis using file_new_restores [OF r] main_window_init_widgets by simp
qed

text \<open>C31: a wrong password or a corrupted block never ends the slot with an
  exception: when \<open>decrypt_from_block\<close> raises, \<open>Decrypt/Input -> Output\<close>
  shows the message box \<open>Decryption error\<close>, appends \<open>...\<close> to the status
  message and changes nothing else, the output included.\<close>

theorem decrypt_error_dialog:
  assumes key: "fernet_key_ok (env_cipher E) = fernet_key_valid"
    and kdf: "\<forall>k m. length (env_prf E k m) = 32"
    and ne: "te_input w \<noteq> []"
    and bad: "decrypt_from_block (env_cipher E) \<lparr>bc_key = window_key E w, default_width = 70\<rparr> (te_input w) = Inl e"
    and enc: "str_encode (env_lib E) DEFAULT_CHARSET [] = Inr []"
  shows "window_step E w DecryptInputToOutput =
           w\<lparr>dialogs := dialogs w @ [''Decryption error''], status_msg := status_msg w @ ''...'', slot_error := None\<rparr>"
  using window_cipher [OF key kdf, of w] ne bad from_str_empty [OF enc] text_payload_empty_no_data [of "env_lib E"]
  by (simp add: window_step_unfold on_decrypt_input_to_output_triggered_def window_decrypt_def slot_ok_def)

theorem decrypt_error_dialog_witness:
  "dialogs (window_step demo_env (window_step demo_env (main_window_init demo_windows demo_fs demo_config)
      (TypeInput ''no block here'')) DecryptInputToOutput) = [''Decryption error'']"
proof -
  let ?w = "window_step demo_env (main_window_init demo_windows demo_fs demo_config) (TypeInput ''no block here'')"
  have i: "te_input ?w = ''no block here''" "dialogs ?w = []"
    by (simp_all add: window_step_unfold main_window_init_def Let_def slot_ok_def set_input_def
        on_te_input_textChanged_def split: prod.splits)
  have key: "fernet_key_ok (env_cipher demo_env) = fernet_key_valid"
    and kdf: "\<forall>k m. length (env_prf demo_env k m) = 32"
    and enc: "str_encode (env_lib demo_env) DEFAULT_CHARSET [] = Inr []"
    by (simp_all add: demo_env_def demo_fernet_def demo_prf_def demo_lib_def ascii_encode_def)
  have f: "find_idx start_block ''no block here'' = None" by code_simp
  have bad: "decrypt_from_block (env_cipher demo_env) \<lparr>bc_key = window_key demo_env ?w, default_width = 70\<rparr> (te_input ?w)
      = Inl (InvalidBlockException ''cannot find block markers'')"
    unfolding i using f by (simp add: decrypt_from_block_def parse_block_def py_find_def)
  show ?thesis using decrypt_error_dialog [OF key kdf _ bad enc] i by simp
qed

text \<open>C30: decrypting an empty input field shows the message box \<open>No input\<close>
  and stops there: no key is derived and the cipher is not consulted.
  \<open>Decrypt/Input -> Output\<close> leaves the output as it was and appends \<open>...\<close> to
  the status message; \<open>Decrypt/Input -> File\<close> opens no file dialog, writes no
  file and leaves the status message as it was.\<close>

theorem decrypt_no_input:
  assumes ne: "te_input w = []"
    and enc: "str_encode (env_lib E) DEFAULT_CHARSET [] = Inr []"
  shows "window_step E w DecryptInputToOutput =
           w\<lparr>dialogs := dialogs w @ [''No input''], status_msg := status_msg w @ ''...'', slot_error := None\<rparr>
       \<and> window_step E w (DecryptInputToFile ask) = w\<lparr>dialogs := dialogs w @ [''No input''], slot_error := None\<rparr>"
  using ne from_str_empty [OF enc] text_payload_empty_no_data [of "env_lib E"]
  by (simp add: window_step_unfold on_decrypt_input_to_output_triggered_def on_decrypt_input_to_file_triggered_def
      window_decrypt_def slot_ok_def)

theorem decrypt_no_input_witness:
  "dialogs (window_step demo_env (main_window_init demo_windows demo_fs demo_config) DecryptInputToOutput) = [''No input'']
   \<and> win_fs (window_step demo_env (main_window_init demo_windows demo_fs demo_config) (DecryptInputToFile (\<lambda>p. ''/tmp/out.txt'')))
       = win_fs (main_window_init demo_windows demo_fs demo_config)"
proof -
  let ?w = "main_window_init demo_windows demo_fs demo_config"
  have i: "te_input ?w = []" "dialogs ?w = []"
    by (simp_all add: main_window_init_def Let_def split: prod.splits)
  have enc: "str_encode (env_lib demo_env) DEFAULT_CHARSET [] = Inr []"
    by (simp add: demo_env_def demo_lib_def ascii_encode_def)
  show ?thesis using decrypt_no_input [OF i(1) enc, of "\<lambda>p. ''/tmp/out.txt''"] i(2) by simp
qed

end
