(* ===== verification/UiWiring.thy ===== *)
theory UiWiring
  imports MainWindow
begin

text \<open>
  The wiring of the window, from the code \<open>uic\<close> generated in
  \<open>src/crippy_ui.py\<close>: the actions and buttons \<open>setupUi\<close> creates, the menus it
  adds the actions to, the keyboard shortcuts of \<open>retranslateUi\<close>, and
  \<open>QMetaObject.connectSlotsByName\<close>, which connects the signal \<open>s\<close> of the
  object named \<open>o\<close> to the method \<open>on_o_s\<close> of \<open>MainWindow\<close> when there is one.
  The events of \<open>MainWindow.window_step\<close> are checked against this wiring.
\<close>

section \<open>Objects, menus and connections\<close>

text \<open>The \<open>QAction\<close>s of \<open>setupUi\<close>, in the order they are created.\<close>

definition ui_actions :: "string list" where
  "ui_actions = [''file_exit'', ''help_about'', ''file_open'', ''file_save'', ''file_new'',
     ''encrypt_input_to_output'', ''encrypt_file_to_output'', ''decrypt_input_to_output'', ''decrypt_input_to_file'']"

definition ui_buttons :: "string list" where
  "ui_buttons = [''pb_encrypt_from_file'', ''pb_decrypt_to_file'', ''pb_encrypt'', ''pb_decrypt'']"

text \<open>The menus and the actions added to each (\<open>addSeparator\<close> adds no action).\<close>

definition ui_menus :: "(string \<times> string list) list" where
  "ui_menus = [(''menu_file'', [''file_new'', ''file_exit'']), (''menu_help'', [''help_about'']),
     (''menu_encrypt'', [''encrypt_input_to_output'', ''encrypt_file_to_output'']),
     (''menu_decrypt'', [''decrypt_input_to_output'', ''decrypt_input_to_file''])]"

definition ui_shortcuts :: "(string \<times> string) list" where
  "ui_shortcuts = [(''file_exit'', ''Alt+F4''), (''help_about'', ''Alt+B''), (''file_open'', ''Ctrl+O''),
     (''file_save'', ''Ctrl+S''), (''file_new'', ''Ctrl+N'')]"

text \<open>The signals the window's objects emit on a user action: \<open>triggered\<close> for
  actions, \<open>clicked\<close> for buttons, \<open>stateChanged\<close> of the check box,
  \<open>textChanged\<close> of the two line edits and the input field, and the
  \<open>file_dropped\<close> signal of \<open>MyPlainTextEdit\<close>.\<close>

definition ui_signals :: "(string \<times> string) list" where
  "ui_signals = map (\<lambda>a. (a, ''triggered'')) ui_actions @ map (\<lambda>b. (b, ''clicked'')) ui_buttons
     @ [(''cb_show_password'', ''stateChanged''), (''le_password'', ''textChanged''), (''le_filename'', ''textChanged''),
        (''te_input'', ''textChanged''), (''te_input'', ''file_dropped'')]"

text \<open>The slots of \<open>MainWindow\<close>: its methods named \<open>on_\<close>\<dots>\<close>

definition main_window_slots :: "string list" where
  "main_window_slots = [''on_file_new_triggered'', ''on_file_exit_triggered'', ''on_help_about_triggered'',
     ''on_cb_show_password_stateChanged'', ''on_te_input_textChanged'', ''on_encrypt_input_to_output_triggered'',
     ''on_encrypt_file_to_output_triggered'', ''on_decrypt_input_to_output_triggered'',
     ''on_decrypt_input_to_file_triggered'', ''on_pb_encrypt_from_file_clicked'', ''on_pb_decrypt_to_file_clicked'',
     ''on_pb_encrypt_clicked'', ''on_pb_decrypt_clicked'', ''on_te_input_file_dropped'']"

definition slot_name :: "string \<Rightarrow> string \<Rightarrow> string" where
  "slot_name obj sig = ''on_'' @ obj @ ''_'' @ sig"

text \<open>\<open>connectSlotsByName\<close>: the signals that reach a slot.\<close>

definition ui_connections :: "(string \<times> string) list" where
  "ui_connections = filter (\<lambda>(obj, sig). slot_name obj sig \<in> set main_window_slots) ui_signals"

text \<open>An action the user can trigger: one in a menu (a \<open>QAction\<close> that is added
  to no widget is never triggered, its shortcut included).\<close>

definition in_menu :: "string \<Rightarrow> bool" where
  "in_menu a \<longleftrightarrow> list_ex (\<lambda>(m, as). a \<in> set as) ui_menus"

text \<open>The signal each event of the window model stands for; typing a password or
  a file name, and closing the window from its title bar, reach no slot.\<close>

definition event_signal :: "'r event \<Rightarrow> (string \<times> string) option" where
  "event_signal ev =
     (case ev of
       FileNew \<Rightarrow> Some (''file_new'', ''triggered'')
     | FileExit \<Rightarrow> Some (''file_exit'', ''triggered'')
     | HelpAbout \<Rightarrow> Some (''help_about'', ''triggered'')
     | ToggleShowPassword \<Rightarrow> Some (''cb_show_password'', ''stateChanged'')
     | TypePassword _ \<Rightarrow> None
     | TypeFilename _ \<Rightarrow> None
     | TypeInput _ \<Rightarrow> Some (''te_input'', ''textChanged'')
     | EncryptInputToOutput _ \<Rightarrow> Some (''encrypt_input_to_output'', ''triggered'')
     | EncryptFileToOutput _ _ \<Rightarrow> Some (''encrypt_file_to_output'', ''triggered'')
     | DecryptInputToOutput \<Rightarrow> Some (''decrypt_input_to_output'', ''triggered'')
     | DecryptInputToFile _ \<Rightarrow> Some (''decrypt_input_to_file'', ''triggered'')
     | PbEncrypt _ \<Rightarrow> Some (''pb_encrypt'', ''clicked'')
     | PbDecrypt \<Rightarrow> Some (''pb_decrypt'', ''clicked'')
     | PbEncryptFromFile _ _ \<Rightarrow> Some (''pb_encrypt_from_file'', ''clicked'')
     | PbDecryptToFile _ \<Rightarrow> Some (''pb_decrypt_to_file'', ''clicked'')
     | Drop _ (MimeUrls (_ # _)) \<Rightarrow> Some (''te_input'', ''file_dropped'')
     | Drop _ _ \<Rightarrow> Some (''te_input'', ''textChanged'')
     | CloseWindow \<Rightarrow> None)"

section \<open>Lemmas\<close>

text \<open>The definitions that evaluate the wiring.\<close>

lemmas ui_wiring_defs = ui_connections_def ui_signals_def ui_actions_def ui_buttons_def
  main_window_slots_def slot_name_def

section \<open>The wiring evaluated\<close>

text \<open>The wiring evaluated: \<open>connectSlotsByName\<close> connects every slot of \<open>MainWindow\<close> to a
  signal of the window, and every event of the window model is a connected signal
  (or reaches no slot).  Of the nine actions, exactly \<open>file_open\<close> and
  \<open>file_save\<close> have no slot, and they are also the ones in no menu: their
  shortcuts \<open>Ctrl+O\<close> and \<open>Ctrl+S\<close> are declared but can never fire.\<close>

theorem ui_wiring:
  "list_all (\<lambda>n. n \<in> set (map (\<lambda>(obj, sig). slot_name obj sig) ui_connections)) main_window_slots
   \<and> filter (\<lambda>a. (a, ''triggered'') \<notin> set ui_connections) ui_actions = [''file_open'', ''file_save'']
   \<and> filter (\<lambda>a. \<not> in_menu a) ui_actions = [''file_open'', ''file_save'']
   \<and> map_of ui_shortcuts ''file_open'' = Some ''Ctrl+O'' \<and> map_of ui_shortcuts ''file_save'' = Some ''Ctrl+S''
   \<and> (\<forall>ev :: 'r event. case event_signal ev of None \<Rightarrow> True | Some p \<Rightarrow> p \<in> set ui_connections)"
proof (intro conjI allI)
  show "list_all (\<lambda>n. n \<in> set (map (\<lambda>(obj, sig). slot_name obj sig) ui_connections)) main_window_slots"
    by (simp add: ui_wiring_defs)
  show "filter (\<lambda>a. (a, ''triggered'') \<notin> set ui_connections) ui_actions = [''file_open'', ''file_save'']"
    by (simp add: ui_wiring_defs)
  show "filter (\<lambda>a. \<not> in_menu a) ui_actions = [''file_open'', ''file_save'']"
    by (simp add: ui_actions_def in_menu_def ui_menus_def)
  show "map_of ui_shortcuts ''file_open'' = Some ''Ctrl+O''" "map_of ui_shortcuts ''file_save'' = Some ''Ctrl+S''"
    by (simp_all add: ui_shortcuts_def)
  fix ev :: "'r event"
  show "case event_signal ev of None \<Rightarrow> True | Some p \<Rightarrow> p \<in> set ui_connections"
    by (simp add: event_signal_def ui_wiring_defs split: event.split mime.split list.split)
qed

end
