(* ===== verification/UiSetup.thy ===== *)
theory UiSetup
  imports UiWiring
begin

text \<open>
  \<open>Ui_MainWindow.setupUi\<close> and \<open>retranslateUi\<close> of \<open>src/crippy_ui.py\<close> run as a
  program.  The generated code is a straight-line sequence of Qt calls; each call
  is a statement of the datatype \<open>ui_stmt\<close>, and \<open>ui_run\<close> executes them on an
  explicit object store: every \<open>QObject\<close> has an identity (its creation index),
  a class and a parent, the attributes \<open>self.x\<close> of the window point into the
  store, and the object names, properties, layout items and action lists are
  tables indexed by identity.  Reading an attribute that was never assigned is
  Python's \<open>AttributeError\<close>, the value \<open>None\<close> of \<open>ui_run\<close>.  The layouts
  reparent the widgets added to them as \<open>QLayout::addChildWidget\<close> does, and
  \<open>connectSlotsByName\<close> is run on the resulting object tree, as Qt runs it:
  every descendant of the window is searched for an object name and signal that
  match the slot's name.  \<open>QCoreApplication.translate\<close> is the identity (the
  program installs no translator).
\<close>

section \<open>Object store and statements\<close>

text \<open>The Qt classes \<open>setupUi\<close> instantiates (\<open>QSpacerItem\<close> is a layout item,
  not a \<open>QObject\<close>: it has no parent and no name).\<close>

datatype qclass =
    QMainWindow | QAction | QWidget | QVBoxLayout | QHBoxLayout | QGridLayout | QGroupBox
  | QLabel | QLineEdit | QCheckBox | QSpacerItem | QPlainTextEdit | MyPlainTextEdit
  | QPushButton | QMenuBar | QMenu | QStatusBar

definition is_layout :: "qclass \<Rightarrow> bool" where
  "is_layout c \<longleftrightarrow> c \<in> {QVBoxLayout, QHBoxLayout, QGridLayout}"

text \<open>Property values: integers (sizes, spacings, margins, geometry), flags,
  strings (texts, enum names), fonts (families and point size), and references
  to objects (central widget, menu bar, status bar).\<close>

datatype pval = PInts "int list" | PBool bool | PStr string | PFont string nat | PObj nat

text \<open>A grid cell: row, column, row span, column span.\<close>

type_synonym cell = "nat \<times> nat \<times> nat \<times> nat"

datatype litem = LWidget nat "cell option" | LSpacer nat "cell option" | LLayout nat

datatype aitem = AAction nat | ASeparator

record ui =
  ui_objs :: "(qclass \<times> nat option) list"   \<comment> \<open>object \<open>i\<close>: its class and parent\<close>
  ui_attr :: "string \<rightharpoonup> nat"            \<comment> \<open>\<open>self.x\<close> (and \<open>MainWindow\<close>)\<close>
  ui_name :: "nat \<Rightarrow> string"               \<comment> \<open>\<open>objectName()\<close>, \<open>''''\<close> by default\<close>
  ui_prop :: "nat \<times> string \<rightharpoonup> pval"
  ui_items :: "nat \<Rightarrow> litem list"          \<comment> \<open>the items of a layout, in order\<close>
  ui_acts :: "nat \<Rightarrow> aitem list"           \<comment> \<open>the actions of a widget, in order\<close>

text \<open>The statements of the generated code: \<open>self.x = QClass(parent)\<close>,
  \<open>setObjectName\<close> (and the guarded one of the window), the setters, the three
  kinds of \<open>addWidget\<close>/\<open>addItem\<close>/\<open>addLayout\<close>, \<open>setCentralWidget\<close>,
  \<open>setMenuBar\<close> and \<open>setStatusBar\<close> (\<open>SetWidget\<close>), \<open>addAction\<close> of an
  action or of a menu's \<open>menuAction()\<close>, and \<open>addSeparator\<close>.\<close>

datatype ui_stmt =
    New string qclass "string option"
  | SetObjectName string string
  | SetObjectNameIfUnset string string
  | SetProp string string pval
  | AddWidget string string "cell option"
  | AddItem string string "cell option"
  | AddLayout string string
  | SetWidget string string string
  | AddAction string string
  | AddSeparator string

definition obj_class :: "ui \<Rightarrow> nat \<Rightarrow> qclass option" where
  "obj_class u i = (if i < length (ui_objs u) then Some (fst (ui_objs u ! i)) else None)"

definition obj_parent :: "ui \<Rightarrow> nat \<Rightarrow> nat option" where
  "obj_parent u i = (if i < length (ui_objs u) then snd (ui_objs u ! i) else None)"

definition set_parent :: "ui \<Rightarrow> nat \<Rightarrow> nat \<Rightarrow> ui" where
  "set_parent u i p = u\<lparr>ui_objs := (ui_objs u)[i := (fst (ui_objs u ! i), Some p)]\<rparr>"

text \<open>\<open>QLayout::parentWidget()\<close>: the widget a layout is installed on, through the
  layouts it is nested in.  A parent chain visits each object at most once, so
  as many steps as there are objects suffice.\<close>

fun layout_widget_fuel :: "nat \<Rightarrow> ui \<Rightarrow> nat \<Rightarrow> nat option" where
  "layout_widget_fuel 0 u l = None"
| "layout_widget_fuel (Suc n) u l =
     (case obj_parent u l of
       None \<Rightarrow> None
     | Some p \<Rightarrow> (case obj_class u p of
                   Some c \<Rightarrow> if is_layout c then layout_widget_fuel n u p else Some p
                 | None \<Rightarrow> None))"

definition layout_widget :: "ui \<Rightarrow> nat \<Rightarrow> nat option" where
  "layout_widget u l = layout_widget_fuel (length (ui_objs u)) u l"

text \<open>\<open>QLayout::addChildWidget\<close>: a widget added to a layout that is installed
  on a widget \<open>mw\<close> becomes a child of \<open>mw\<close>.\<close>

definition add_child_widget :: "ui \<Rightarrow> nat \<Rightarrow> nat \<Rightarrow> ui" where
  "add_child_widget u l w =
     (case layout_widget u l of None \<Rightarrow> u | Some mw \<Rightarrow> if obj_parent u w = Some mw then u else set_parent u w mw)"

text \<open>\<open>QLayout::addChildLayout\<close>: the added layout becomes a child of the layout,
  and, when that one is installed on a widget, the widgets of the added layout
  are reparented to it (\<open>reparentChildWidgets\<close>; the added layouts of
  \<open>setupUi\<close> hold widgets and spacers only).\<close>

definition add_child_layout :: "ui \<Rightarrow> nat \<Rightarrow> nat \<Rightarrow> ui" where
  "add_child_layout u l l2 =
     (let u = set_parent u l2 l
      in case layout_widget u l of
           None \<Rightarrow> u
         | Some mw \<Rightarrow> foldl (\<lambda>u it. case it of LWidget w _ \<Rightarrow> set_parent u w mw | _ \<Rightarrow> u) u (ui_items u l2))"

definition ui_new :: "ui \<Rightarrow> string \<Rightarrow> qclass \<Rightarrow> nat option \<Rightarrow> ui" where
  "ui_new u a c p = u\<lparr>ui_objs := ui_objs u @ [(c, p)], ui_attr := (ui_attr u)(a \<mapsto> length (ui_objs u))\<rparr>"

definition add_item :: "ui \<Rightarrow> nat \<Rightarrow> litem \<Rightarrow> ui" where
  "add_item u l it = u\<lparr>ui_items := (ui_items u)(l := ui_items u l @ [it])\<rparr>"

definition add_act :: "ui \<Rightarrow> nat \<Rightarrow> aitem \<Rightarrow> ui" where
  "add_act u w it = u\<lparr>ui_acts := (ui_acts u)(w := ui_acts u w @ [it])\<rparr>"

text \<open>One statement; \<open>None\<close> is the \<open>AttributeError\<close> of an attribute that was
  never assigned.\<close>

fun ui_stmt_exec :: "ui \<Rightarrow> ui_stmt \<Rightarrow> ui option" where
  "ui_stmt_exec u (New a c None) = Some (ui_new u a c None)"
| "ui_stmt_exec u (New a c (Some p)) = map_option (\<lambda>i. ui_new u a c (Some i)) (ui_attr u p)"
| "ui_stmt_exec u (SetObjectName a n) = map_option (\<lambda>i. u\<lparr>ui_name := (ui_name u)(i := n)\<rparr>) (ui_attr u a)"
| "ui_stmt_exec u (SetObjectNameIfUnset a n) =
     map_option (\<lambda>i. if ui_name u i = [] then u\<lparr>ui_name := (ui_name u)(i := n)\<rparr> else u) (ui_attr u a)"
| "ui_stmt_exec u (SetProp a k v) = map_option (\<lambda>i. u\<lparr>ui_prop := (ui_prop u)((i, k) \<mapsto> v)\<rparr>) (ui_attr u a)"
| "ui_stmt_exec u (AddWidget l w c) =
     (case (ui_attr u l, ui_attr u w) of
       (Some i, Some j) \<Rightarrow> Some (add_child_widget (add_item u i (LWidget j c)) i j)
     | _ \<Rightarrow> None)"
| "ui_stmt_exec u (AddItem l s c) =
     (case (ui_attr u l, ui_attr u s) of (Some i, Some j) \<Rightarrow> Some (add_item u i (LSpacer j c)) | _ \<Rightarrow> None)"
| "ui_stmt_exec u (AddLayout l l2) =
     (case (ui_attr u l, ui_attr u l2) of
       (Some i, Some j) \<Rightarrow> Some (add_child_layout (add_item u i (LLayout j)) i j)
     | _ \<Rightarrow> None)"
| "ui_stmt_exec u (SetWidget w k x) =
     (case (ui_attr u w, ui_attr u x) of
       (Some i, Some j) \<Rightarrow> Some ((set_parent u j i)\<lparr>ui_prop := (ui_prop u)((i, k) \<mapsto> PObj j)\<rparr>)
     | _ \<Rightarrow> None)"
| "ui_stmt_exec u (AddAction w a) =
     (case (ui_attr u w, ui_attr u a) of (Some i, Some j) \<Rightarrow> Some (add_act u i (AAction j)) | _ \<Rightarrow> None)"
| "ui_stmt_exec u (AddSeparator w) = map_option (\<lambda>i. add_act u i ASeparator) (ui_attr u w)"

fun ui_run :: "ui \<Rightarrow> ui_stmt list \<Rightarrow> ui option" where
  "ui_run u [] = Some u"
| "ui_run u (s # ss) = (case ui_stmt_exec u s of None \<Rightarrow> None | Some u' \<Rightarrow> ui_run u' ss)"

text \<open>The window before \<open>setupUi(self)\<close>: the \<open>QMainWindow\<close> alone, unnamed.\<close>

definition ui_main_window :: ui where
  "ui_main_window = \<lparr>ui_objs = [(QMainWindow, None)], ui_attr = [''MainWindow'' \<mapsto> 0],
     ui_name = (\<lambda>_. []), ui_prop = Map.empty, ui_items = (\<lambda>_. []), ui_acts = (\<lambda>_. [])\<rparr>"

section \<open>The generated code\<close>

text \<open>The window, its icon and the nine \<open>QAction\<close>s (lines 30--53).\<close>

definition setup_ui_actions :: "ui_stmt list" where
  "setup_ui_actions =
    [SetObjectNameIfUnset ''MainWindow'' ''MainWindow'',
     SetProp ''MainWindow'' ''size'' (PInts [639, 594]),
     SetProp ''MainWindow'' ''windowIcon'' (PStr '':/images/python-icon.svg''),
     New ''file_exit'' QAction (Some ''MainWindow''),
     SetObjectName ''file_exit'' ''file_exit'',
     New ''help_about'' QAction (Some ''MainWindow''),
     SetObjectName ''help_about'' ''help_about'',
     New ''file_open'' QAction (Some ''MainWindow''),
     SetObjectName ''file_open'' ''file_open'',
     New ''file_save'' QAction (Some ''MainWindow''),
     SetObjectName ''file_save'' ''file_save'',
     New ''file_new'' QAction (Some ''MainWindow''),
     SetObjectName ''file_new'' ''file_new'',
     New ''encrypt_input_to_output'' QAction (Some ''MainWindow''),
     SetObjectName ''encrypt_input_to_output'' ''encrypt_input_to_output'',
     New ''encrypt_file_to_output'' QAction (Some ''MainWindow''),
     SetObjectName ''encrypt_file_to_output'' ''encrypt_file_to_output'',
     New ''decrypt_input_to_output'' QAction (Some ''MainWindow''),
     SetObjectName ''decrypt_input_to_output'' ''decrypt_input_to_output'',
     New ''decrypt_input_to_file'' QAction (Some ''MainWindow''),
     SetObjectName ''decrypt_input_to_file'' ''decrypt_input_to_file'']"

text \<open>The central widget, its vertical layout and the group box \<open>Settings\<close> with its grid (lines 54--97).\<close>

definition setup_ui_settings :: "ui_stmt list" where
  "setup_ui_settings =
    [New ''main_widget'' QWidget (Some ''MainWindow''),
     SetObjectName ''main_widget'' ''main_widget'',
     New ''verticalLayout'' QVBoxLayout (Some ''main_widget''),
     SetProp ''verticalLayout'' ''spacing'' (PInts [6]),
     SetProp ''verticalLayout'' ''contentsMargins'' (PInts [11, 11, 11, 11]),
     SetObjectName ''verticalLayout'' ''verticalLayout'',
     New ''gb_settings'' QGroupBox (Some ''main_widget''),
     SetObjectName ''gb_settings'' ''gb_settings'',
     New ''gridLayout'' QGridLayout (Some ''gb_settings''),
     SetProp ''gridLayout'' ''spacing'' (PInts [6]),
     SetProp ''gridLayout'' ''contentsMargins'' (PInts [11, 11, 11, 11]),
     SetObjectName ''gridLayout'' ''gridLayout'',
     New ''lb_password'' QLabel (Some ''gb_settings''),
     SetObjectName ''lb_password'' ''lb_password'',
     AddWidget ''gridLayout'' ''lb_password'' (Some (0, 0, 1, 1)),
     New ''le_password'' QLineEdit (Some ''gb_settings''),
     SetObjectName ''le_password'' ''le_password'',
     SetProp ''le_password'' ''echoMode'' (PStr ''Password''),
     AddWidget ''gridLayout'' ''le_password'' (Some (0, 1, 1, 1)),
     New ''cb_show_password'' QCheckBox (Some ''gb_settings''),
     SetObjectName ''cb_show_password'' ''cb_show_password'',
     AddWidget ''gridLayout'' ''cb_show_password'' (Some (0, 2, 1, 1)),
     New ''hs_1'' QSpacerItem None,
     SetProp ''hs_1'' ''sizeHint'' (PInts [273, 20]),
     SetProp ''hs_1'' ''sizePolicy'' (PStr ''Expanding,Minimum''),
     AddItem ''gridLayout'' ''hs_1'' (Some (0, 3, 1, 1)),
     New ''lb_filename'' QLabel (Some ''gb_settings''),
     SetObjectName ''lb_filename'' ''lb_filename'',
     AddWidget ''gridLayout'' ''lb_filename'' (Some (1, 0, 1, 1)),
     New ''le_filename'' QLineEdit (Some ''gb_settings''),
     SetObjectName ''le_filename'' ''le_filename'',
     AddWidget ''gridLayout'' ''le_filename'' (Some (1, 1, 1, 3)),
     AddWidget ''verticalLayout'' ''gb_settings'' None]"

text \<open>The group box \<open>Input\<close> with the drop target \<open>te_input\<close> (lines 99--116).\<close>

definition setup_ui_input :: "ui_stmt list" where
  "setup_ui_input =
    [New ''gb_input'' QGroupBox (Some ''main_widget''),
     SetObjectName ''gb_input'' ''gb_input'',
     New ''horizontalLayout_4'' QHBoxLayout (Some ''gb_input''),
     SetProp ''horizontalLayout_4'' ''spacing'' (PInts [4]),
     SetProp ''horizontalLayout_4'' ''contentsMargins'' (PInts [11, 11, 11, 11]),
     SetObjectName ''horizontalLayout_4'' ''horizontalLayout_4'',
     SetProp ''horizontalLayout_4'' ''contentsMargins'' (PInts [6, 6, 6, 6]),
     New ''te_input'' MyPlainTextEdit (Some ''gb_input''),
     SetObjectName ''te_input'' ''te_input'',
     SetProp ''te_input'' ''font'' (PFont ''Courier New'' 10),
     AddWidget ''horizontalLayout_4'' ''te_input'' None,
     AddWidget ''verticalLayout'' ''gb_input'' None]"

text \<open>The row of push buttons, a layout without a widget until it is added to the vertical layout (lines 118--147).\<close>

definition setup_ui_buttons :: "ui_stmt list" where
  "setup_ui_buttons =
    [New ''hl_buttons'' QHBoxLayout None,
     SetProp ''hl_buttons'' ''spacing'' (PInts [6]),
     SetObjectName ''hl_buttons'' ''hl_buttons'',
     SetProp ''hl_buttons'' ''contentsMargins'' (PInts [6, -1, 6, -1]),
     New ''pb_encrypt_from_file'' QPushButton (Some ''main_widget''),
     SetObjectName ''pb_encrypt_from_file'' ''pb_encrypt_from_file'',
     AddWidget ''hl_buttons'' ''pb_encrypt_from_file'' None,
     New ''pb_decrypt_to_file'' QPushButton (Some ''main_widget''),
     SetObjectName ''pb_decrypt_to_file'' ''pb_decrypt_to_file'',
     AddWidget ''hl_buttons'' ''pb_decrypt_to_file'' None,
     New ''hs_2'' QSpacerItem None,
     SetProp ''hs_2'' ''sizeHint'' (PInts [40, 20]),
     SetProp ''hs_2'' ''sizePolicy'' (PStr ''Expanding,Minimum''),
     AddItem ''hl_buttons'' ''hs_2'' None,
     New ''pb_encrypt'' QPushButton (Some ''main_widget''),
     SetObjectName ''pb_encrypt'' ''pb_encrypt'',
     AddWidget ''hl_buttons'' ''pb_encrypt'' None,
     New ''pb_decrypt'' QPushButton (Some ''main_widget''),
     SetObjectName ''pb_decrypt'' ''pb_decrypt'',
     AddWidget ''hl_buttons'' ''pb_decrypt'' None,
     AddLayout ''verticalLayout'' ''hl_buttons'']"

text \<open>The group box \<open>Output\<close> with the read-only \<open>te_output\<close> (lines 149--165).\<close>

definition setup_ui_output :: "ui_stmt list" where
  "setup_ui_output =
    [New ''gb_output'' QGroupBox (Some ''main_widget''),
     SetObjectName ''gb_output'' ''gb_output'',
     New ''horizontalLayout_5'' QHBoxLayout (Some ''gb_output''),
     SetProp ''horizontalLayout_5'' ''spacing'' (PInts [4]),
     SetProp ''horizontalLayout_5'' ''contentsMargins'' (PInts [11, 11, 11, 11]),
     SetObjectName ''horizontalLayout_5'' ''horizontalLayout_5'',
     SetProp ''horizontalLayout_5'' ''contentsMargins'' (PInts [6, 6, 6, 6]),
     New ''te_output'' QPlainTextEdit (Some ''gb_output''),
     SetObjectName ''te_output'' ''te_output'',
     SetProp ''te_output'' ''font'' (PFont ''Courier New'' 10),
     SetProp ''te_output'' ''acceptDrops'' (PBool False),
     SetProp ''te_output'' ''readOnly'' (PBool True),
     AddWidget ''horizontalLayout_5'' ''te_output'' None,
     AddWidget ''verticalLayout'' ''gb_output'' None]"

text \<open>The central widget installed, the menu bar with its four menus and the status bar (lines 167--182).\<close>

definition setup_ui_bars :: "ui_stmt list" where
  "setup_ui_bars =
    [SetWidget ''MainWindow'' ''centralWidget'' ''main_widget'',
     New ''menu_bar'' QMenuBar (Some ''MainWindow''),
     SetObjectName ''menu_bar'' ''menu_bar'',
     SetProp ''menu_bar'' ''geometry'' (PInts [0, 0, 639, 33]),
     New ''menu_file'' QMenu (Some ''menu_bar''),
     SetObjectName ''menu_file'' ''menu_file'',
     New ''menu_help'' QMenu (Some ''menu_bar''),
     SetObjectName ''menu_help'' ''menu_help'',
     New ''menu_encrypt'' QMenu (Some ''menu_bar''),
     SetObjectName ''menu_encrypt'' ''menu_encrypt'',
     New ''menu_decrypt'' QMenu (Some ''menu_bar''),
     SetObjectName ''menu_decrypt'' ''menu_decrypt'',
     SetWidget ''MainWindow'' ''menuBar'' ''menu_bar'',
     New ''status_bar'' QStatusBar (Some ''MainWindow''),
     SetObjectName ''status_bar'' ''status_bar'',
     SetWidget ''MainWindow'' ''statusBar'' ''status_bar'']"

text \<open>The menus filled: \<open>menu_bar.addAction(menu.menuAction())\<close> adds a menu (its action is the menu object here), then the actions of each menu (lines 184--195).\<close>

definition setup_ui_menus :: "ui_stmt list" where
  "setup_ui_menus =
    [AddAction ''menu_bar'' ''menu_file'',
     AddAction ''menu_bar'' ''menu_encrypt'',
     AddAction ''menu_bar'' ''menu_decrypt'',
     AddAction ''menu_bar'' ''menu_help'',
     AddAction ''menu_file'' ''file_new'',
     AddSeparator ''menu_file'',
     AddAction ''menu_file'' ''file_exit'',
     AddAction ''menu_help'' ''help_about'',
     AddAction ''menu_encrypt'' ''encrypt_input_to_output'',
     AddAction ''menu_encrypt'' ''encrypt_file_to_output'',
     AddAction ''menu_decrypt'' ''decrypt_input_to_output'',
     AddAction ''menu_decrypt'' ''decrypt_input_to_file'']"

text \<open>\<open>retranslateUi\<close>: the window title, the texts and shortcuts of the actions, the titles, labels and placeholder texts (lines 202--244).\<close>

definition retranslate_ui :: "ui_stmt list" where
  "retranslate_ui =
    [SetProp ''MainWindow'' ''windowTitle'' (PStr ''crippy''),
     SetProp ''file_exit'' ''text'' (PStr ''E&xit''),
     SetProp ''file_exit'' ''shortcut'' (PStr ''Alt+F4''),
     SetProp ''help_about'' ''text'' (PStr ''A&bout''),
     SetProp ''help_about'' ''shortcut'' (PStr ''Alt+B''),
     SetProp ''file_open'' ''text'' (PStr ''Open (to Input)''),
     SetProp ''file_open'' ''shortcut'' (PStr ''Ctrl+O''),
     SetProp ''file_save'' ''text'' (PStr ''Save (from Output)''),
     SetProp ''file_save'' ''shortcut'' (PStr ''Ctrl+S''),
     SetProp ''file_new'' ''text'' (PStr ''&New''),
     SetProp ''file_new'' ''shortcut'' (PStr ''Ctrl+N''),
     SetProp ''encrypt_input_to_output'' ''text'' (PStr ''Input -> Output''),
     SetProp ''encrypt_file_to_output'' ''text'' (PStr ''File -> Output''),
     SetProp ''decrypt_input_to_output'' ''text'' (PStr ''Input -> Output''),
     SetProp ''decrypt_input_to_file'' ''text'' (PStr ''Input -> File''),
     SetProp ''gb_settings'' ''title'' (PStr ''Settings''),
     SetProp ''lb_password'' ''text'' (PStr ''Password:''),
     SetProp ''le_password'' ''placeholderText'' (PStr ''enter password...''),
     SetProp ''cb_show_password'' ''text'' (PStr ''Show password''),
     SetProp ''lb_filename'' ''text'' (PStr ''Filename:''),
     SetProp ''gb_input'' ''title'' (PStr ''Input''),
     SetProp ''te_input'' ''placeholderText'' (PStr ''Nothing to show here...''),
     SetProp ''pb_encrypt_from_file'' ''text'' (PStr ''Encrypt from File''),
     SetProp ''pb_decrypt_to_file'' ''text'' (PStr ''Decrypt to File''),
     SetProp ''pb_encrypt'' ''text'' (PStr ''Encrypt''),
     SetProp ''pb_decrypt'' ''text'' (PStr ''Decrypt''),
     SetProp ''gb_output'' ''title'' (PStr ''Output''),
     SetProp ''te_output'' ''placeholderText'' (PStr ''Nothing to show here...''),
     SetProp ''menu_file'' ''title'' (PStr ''&File''),
     SetProp ''menu_help'' ''title'' (PStr ''&Help''),
     SetProp ''menu_encrypt'' ''title'' (PStr ''Encrypt''),
     SetProp ''menu_decrypt'' ''title'' (PStr ''Decrypt'')]"

text \<open>\<open>setupUi(self)\<close>: the statements in order, \<open>retranslateUi\<close> called at
  their end (line 197); \<open>connectSlotsByName\<close> (line 199) follows below.\<close>

definition setup_ui :: "ui option" where
  "setup_ui = ui_run ui_main_window (setup_ui_actions @ setup_ui_settings @ setup_ui_input @ setup_ui_buttons
     @ setup_ui_output @ setup_ui_bars @ setup_ui_menus @ retranslate_ui)"

section \<open>Reading the built window\<close>

text \<open>The parent chain of an object, nearest first; as for
  \<open>layout_widget_fuel\<close>, the number of objects bounds its length.\<close>

fun ancestors_fuel :: "nat \<Rightarrow> ui \<Rightarrow> nat \<Rightarrow> nat list" where
  "ancestors_fuel 0 u i = []"
| "ancestors_fuel (Suc n) u i = (case obj_parent u i of None \<Rightarrow> [] | Some p \<Rightarrow> p # ancestors_fuel n u p)"

definition ancestors :: "ui \<Rightarrow> nat \<Rightarrow> nat list" where
  "ancestors u i = ancestors_fuel (length (ui_objs u)) u i"

text \<open>\<open>findChildren()\<close>: the descendants of an object (in creation order; the
  order matters to \<open>connectSlotsByName\<close> only between equal object names).\<close>

definition find_children :: "ui \<Rightarrow> nat \<Rightarrow> nat list" where
  "find_children u r = filter (\<lambda>i. r \<in> set (ancestors u i)) [0..<length (ui_objs u)]"

text \<open>The signals of each class that a slot name can match: those of Qt's
  \<open>QAction\<close>, \<open>QAbstractButton\<close>, \<open>QCheckBox\<close>, \<open>QLineEdit\<close> and
  \<open>QPlainTextEdit\<close> a user action emits, and the \<open>file_dropped\<close> signal that
  \<open>MyPlainTextEdit\<close> adds (\<open>src/myplaintextedit.py\<close>, line 18).\<close>

definition class_signals :: "qclass \<Rightarrow> string list" where
  "class_signals c =
     (case c of
       QAction \<Rightarrow> [''changed'', ''hovered'', ''toggled'', ''triggered'']
     | QPushButton \<Rightarrow> [''clicked'', ''pressed'', ''released'', ''toggled'']
     | QCheckBox \<Rightarrow> [''clicked'', ''pressed'', ''released'', ''toggled'', ''stateChanged'']
     | QLineEdit \<Rightarrow> [''editingFinished'', ''returnPressed'', ''textChanged'', ''textEdited'']
     | QPlainTextEdit \<Rightarrow> [''cursorPositionChanged'', ''selectionChanged'', ''textChanged'']
     | MyPlainTextEdit \<Rightarrow> [''cursorPositionChanged'', ''selectionChanged'', ''textChanged'', ''file_dropped'']
     | _ \<Rightarrow> [])"

definition obj_signals :: "ui \<Rightarrow> nat \<Rightarrow> (nat \<times> string) list" where
  "obj_signals u i = map (Pair i) (case obj_class u i of None \<Rightarrow> [] | Some c \<Rightarrow> class_signals c)"

text \<open>\<open>QMetaObject.connectSlotsByName(MainWindow)\<close> (line 199): for each slot
  \<open>on_<name>_<signal>\<close> of the window, the first object among the window and its
  descendants whose object name and signal give that slot name is connected;
  a slot that matches nothing is only warned about.  The result lists each
  connected slot with the object and signal.\<close>

definition connect_slots_by_name :: "ui \<Rightarrow> nat \<Rightarrow> string list \<Rightarrow> (string \<times> nat \<times> string) list" where
  "connect_slots_by_name u r slots =
     List.map_filter (\<lambda>s. map_option (Pair s)
         (find (\<lambda>(i, sig). slot_name (ui_name u i) sig = s) (concat (map (obj_signals u) (r # find_children u r)))))
       slots"

definition attr_prop :: "ui \<Rightarrow> string \<Rightarrow> string \<Rightarrow> pval option" where
  "attr_prop u a k = (case ui_attr u a of None \<Rightarrow> None | Some i \<Rightarrow> ui_prop u (i, k))"

definition prop_str :: "pval option \<Rightarrow> string \<Rightarrow> string" where
  "prop_str v d = (case v of Some (PStr s) \<Rightarrow> s | _ \<Rightarrow> d)"

definition prop_bool :: "pval option \<Rightarrow> bool \<Rightarrow> bool" where
  "prop_bool v d = (case v of Some (PBool b) \<Rightarrow> b | _ \<Rightarrow> d)"

text \<open>The widget state of the window model read off the built widgets, with Qt's
  defaults for what \<open>setupUi\<close> does not set (empty texts, check box off, echo
  mode \<open>Normal\<close>, no status message).\<close>

definition ui_widgets :: "ui \<Rightarrow> string \<times> bool \<times> bool \<times> string \<times> string \<times> string \<times> string" where
  "ui_widgets u =
     (prop_str (attr_prop u ''le_password'' ''text'') [],
      prop_bool (attr_prop u ''cb_show_password'' ''checked'') False,
      prop_str (attr_prop u ''le_password'' ''echoMode'') ''Normal'' = ''Normal'',
      prop_str (attr_prop u ''le_filename'' ''text'') [],
      prop_str (attr_prop u ''te_input'' ''plainText'') [],
      prop_str (attr_prop u ''te_output'' ''plainText'') [],
      prop_str (attr_prop u ''status_bar'' ''currentMessage'') [])"

text \<open>The menus of the menu bar, in order, each with the names of its actions.\<close>

definition acts_of :: "ui \<Rightarrow> nat \<Rightarrow> nat list" where
  "acts_of u w = List.map_filter (\<lambda>it. case it of AAction a \<Rightarrow> Some a | ASeparator \<Rightarrow> None) (ui_acts u w)"

definition menu_bar_menus :: "ui \<Rightarrow> (string \<times> string list) list" where
  "menu_bar_menus u =
     (case ui_attr u ''menu_bar'' of
       None \<Rightarrow> []
     | Some b \<Rightarrow> map (\<lambda>m. (ui_name u m, map (ui_name u) (acts_of u m))) (acts_of u b))"

text \<open>The shortcuts set on the objects, in creation order.\<close>

definition built_shortcuts :: "ui \<Rightarrow> (string \<times> string) list" where
  "built_shortcuts u =
     List.map_filter (\<lambda>i. case ui_prop u (i, ''shortcut'') of Some (PStr k) \<Rightarrow> Some (ui_name u i, k) | _ \<Rightarrow> None)
       [0..<length (ui_objs u)]"

text \<open>The cells a grid item covers, and those of all items of a grid layout.\<close>

fun cell_list :: "cell \<Rightarrow> (nat \<times> nat) list" where
  "cell_list (r, c, rs, cs) = concat (map (\<lambda>i. map (Pair i) [c..<c + cs]) [r..<r + rs])"

definition grid_cells :: "ui \<Rightarrow> nat \<Rightarrow> (nat \<times> nat) list" where
  "grid_cells u l =
     concat (map (\<lambda>it. case it of LWidget _ (Some c) \<Rightarrow> cell_list c | LSpacer _ (Some c) \<Rightarrow> cell_list c | _ \<Rightarrow> [])
       (ui_items u l))"

text \<open>Qt's mnemonics: \<open>&\<close> marks the next character as the key that, with
  \<open>Alt\<close>, opens a menu of the menu bar or triggers an item of an open menu;
  \<open>&&\<close> is a literal ampersand.  The key is the character in upper case.\<close>

fun mnemonic :: "string \<Rightarrow> char option" where
  "mnemonic (c # d # s) = (if c = CHR ''&'' then (if d = CHR ''&'' then mnemonic s else Some d) else mnemonic (d # s))"
| "mnemonic _ = None"

definition key_upper :: "char \<Rightarrow> char" where
  "key_upper c = (if (97::nat) \<le> of_char c \<and> of_char c \<le> (122::nat) then char_of (of_char c - (32::nat)) else c)"

definition mnemonic_key :: "string \<Rightarrow> string option" where
  "mnemonic_key s = map_option (\<lambda>c. ''Alt+'' @ [key_upper c]) (mnemonic s)"

text \<open>The \<open>Alt\<close> keys of the menu bar's menus, and those of the items of a menu.\<close>

definition menu_bar_keys :: "ui \<Rightarrow> string list" where
  "menu_bar_keys u =
     (case ui_attr u ''menu_bar'' of
       None \<Rightarrow> []
     | Some b \<Rightarrow> List.map_filter (\<lambda>m. mnemonic_key (prop_str (ui_prop u (m, ''title'')) [])) (acts_of u b))"

definition menu_keys :: "ui \<Rightarrow> nat \<Rightarrow> string list" where
  "menu_keys u m = List.map_filter (\<lambda>a. mnemonic_key (prop_str (ui_prop u (a, ''text'')) [])) (acts_of u m)"

text \<open>The attributes point to objects of the store.\<close>

definition ui_attrs_ok :: "ui \<Rightarrow> bool" where
  "ui_attrs_ok u \<longleftrightarrow> (\<forall>i \<in> ran (ui_attr u). i < length (ui_objs u))"

section \<open>Lemmas: the store\<close>

lemma length_set_parent [simp]: "length (ui_objs (set_parent u i p)) = length (ui_objs u)"
  by (simp add: set_parent_def)

lemma ui_attr_set_parent [simp]: "ui_attr (set_parent u i p) = ui_attr u"
  by (simp add: set_parent_def)

lemma foldl_set_parent:
  "length (ui_objs (foldl (\<lambda>u it. case it of LWidget w _ \<Rightarrow> set_parent u w mw | _ \<Rightarrow> u) u its)) = length (ui_objs u)
   \<and> ui_attr (foldl (\<lambda>u it. case it of LWidget w _ \<Rightarrow> set_parent u w mw | _ \<Rightarrow> u) u its) = ui_attr u"
  by (induction its arbitrary: u) (simp_all split: litem.split)

lemma add_child_store [simp]:
  "length (ui_objs (add_child_widget u l w)) = length (ui_objs u)" "ui_attr (add_child_widget u l w) = ui_attr u"
  "length (ui_objs (add_child_layout u l l2)) = length (ui_objs u)" "ui_attr (add_child_layout u l l2) = ui_attr u"
  by (simp_all add: add_child_widget_def add_child_layout_def Let_def foldl_set_parent split: option.split)

lemma ui_attrs_ok_new:
  assumes "ui_attrs_ok u"
  shows "ui_attrs_ok (ui_new u a c p)"
proof -
  have "ran ((ui_attr u)(a \<mapsto> length (ui_objs u))) \<subseteq> ran (ui_attr u) \<union> {length (ui_objs u)}"
    using ran_map_upd_Some [of "ui_attr u" a] by (auto simp: ran_def)
  then show ?thesis
    using assms by (fastforce simp: ui_attrs_ok_def ui_new_def)
qed

lemma ui_attrs_ok_cong:
  "ui_attrs_ok u \<Longrightarrow> ui_attr u' = ui_attr u \<Longrightarrow> length (ui_objs u') = length (ui_objs u) \<Longrightarrow> ui_attrs_ok u'"
  by (simp add: ui_attrs_ok_def)

text \<open>Every statement keeps the attributes pointing into the store, and so does
  every program.\<close>

lemma ui_stmt_exec_attrs_ok:
  assumes "ui_stmt_exec u s = Some u'" and "ui_attrs_ok u"
  shows "ui_attrs_ok u'"
  using assms
  by (cases "(u, s)" rule: ui_stmt_exec.cases)
     (auto simp: ui_attrs_ok_new add_item_def add_act_def split: option.splits if_splits
       intro: ui_attrs_ok_cong)

lemma ui_run_attrs_ok:
  "ui_run u ss = Some u' \<Longrightarrow> ui_attrs_ok u \<Longrightarrow> ui_attrs_ok u'"
  by (induction u ss rule: ui_run.induct) (auto split: option.splits dest: ui_stmt_exec_attrs_ok)

lemma ui_run_append:
  "ui_run u (xs @ ys) = (case ui_run u xs of None \<Rightarrow> None | Some u' \<Rightarrow> ui_run u' ys)"
  by (induction u xs rule: ui_run.induct) (simp_all split: option.split)

lemma ui_main_window_attrs_ok: "ui_attrs_ok ui_main_window"
  by (simp add: ui_attrs_ok_def ui_main_window_def)

lemma setup_ui_attrs_ok: "setup_ui = Some u \<Longrightarrow> ui_attrs_ok u"
  unfolding setup_ui_def using ui_run_attrs_ok ui_main_window_attrs_ok by blast

text \<open>A fact computed on the built window gives the built window.\<close>

lemma option_case_SomeI: "(case x of None \<Rightarrow> False | Some u \<Rightarrow> P u) \<Longrightarrow> \<exists>u. x = Some u \<and> P u"
  by (cases x) simp_all

section \<open>The built window evaluated\<close>

text \<open>\<open>setupUi\<close> runs to its end without an \<open>AttributeError\<close>, and the
  widgets it builds are the initial state of the window model
  (\<open>main_window_init\<close>): empty texts, \<open>Show password\<close> off and the password
  echo mode \<open>Password\<close>; the input field is the drop target
  \<open>MyPlainTextEdit\<close>, and the output field is read-only and refuses drops.\<close>

theorem setup_ui_window_init:
  "\<exists>u. setup_ui = Some u \<and> ui_widgets u = widgets (main_window_init sfs fs config)
     \<and> map_option (obj_class u) (ui_attr u ''te_input'') = Some (Some MyPlainTextEdit)
     \<and> prop_bool (attr_prop u ''te_output'' ''readOnly'') False
     \<and> \<not> prop_bool (attr_prop u ''te_output'' ''acceptDrops'') True"
proof -
  have "case setup_ui of None \<Rightarrow> False | Some u \<Rightarrow> ui_widgets u = ([], False, False, [], [], [], [])
     \<and> map_option (obj_class u) (ui_attr u ''te_input'') = Some (Some MyPlainTextEdit)
     \<and> prop_bool (attr_prop u ''te_output'' ''readOnly'') False
     \<and> \<not> prop_bool (attr_prop u ''te_output'' ''acceptDrops'') True"
    by code_simp
  then show ?thesis
    unfolding main_window_init_widgets by (rule option_case_SomeI)
qed

text \<open>in the object tree \<open>setupUi\<close> builds, the window and its descendants
  have pairwise different object names, \<open>connectSlotsByName\<close> finds a signal for
  every slot of \<open>MainWindow\<close>, and the connections it makes are exactly the
  pairs \<open>ui_connections\<close> of the wiring.\<close>

theorem setup_ui_connect_slots:
  "\<exists>u. setup_ui = Some u \<and> distinct (map (ui_name u) (0 # find_children u 0))
     \<and> map fst (connect_slots_by_name u 0 main_window_slots) = main_window_slots
     \<and> set (map (\<lambda>(s, i, sig). (ui_name u i, sig)) (connect_slots_by_name u 0 main_window_slots)) = set ui_connections"
  by (rule option_case_SomeI) code_simp

text \<open>the menu bar \<open>setupUi\<close> builds holds \<open>File\<close>, \<open>Encrypt\<close>,
  \<open>Decrypt\<close> and \<open>Help\<close> in that order, its menus hold exactly the actions of
  \<open>ui_menus\<close>, and the shortcuts \<open>retranslateUi\<close> sets are exactly
  \<open>ui_shortcuts\<close>.\<close>

theorem setup_ui_menus_shortcuts:
  "\<exists>u. setup_ui = Some u
     \<and> map fst (menu_bar_menus u) = [''menu_file'', ''menu_encrypt'', ''menu_decrypt'', ''menu_help'']
     \<and> set (menu_bar_menus u) = set ui_menus \<and> built_shortcuts u = ui_shortcuts"
  by (rule option_case_SomeI) code_simp

text \<open>no two items of the settings grid share a cell, and all lie in its
  two rows and four columns; the \<open>Alt\<close> keys of the menu bar's mnemonics are
  distinct, so are those of the items of each menu, the shortcuts are distinct,
  and no shortcut takes the \<open>Alt\<close> key of a menu of the menu bar.\<close>

theorem setup_ui_layout_keys:
  "\<exists>u g b. setup_ui = Some u \<and> ui_attr u ''gridLayout'' = Some g \<and> ui_attr u ''menu_bar'' = Some b
     \<and> distinct (grid_cells u g) \<and> list_all (\<lambda>(r, c). r < 2 \<and> c < 4) (grid_cells u g)
     \<and> distinct (menu_bar_keys u) \<and> list_all (\<lambda>m. distinct (menu_keys u m)) (acts_of u b)
     \<and> distinct (map snd (built_shortcuts u)) \<and> list_all (\<lambda>k. k \<notin> set (menu_bar_keys u)) (map snd (built_shortcuts u))"
proof -
  have "case setup_ui of None \<Rightarrow> False | Some u \<Rightarrow>
     (case (ui_attr u ''gridLayout'', ui_attr u ''menu_bar'') of
       (Some g, Some b) \<Rightarrow> distinct (grid_cells u g) \<and> list_all (\<lambda>(r, c). r < 2 \<and> c < 4) (grid_cells u g)
         \<and> distinct (menu_bar_keys u) \<and> list_all (\<lambda>m. distinct (menu_keys u m)) (acts_of u b)
         \<and> distinct (map snd (built_shortcuts u)) \<and> list_all (\<lambda>k. k \<notin> set (menu_bar_keys u)) (map snd (built_shortcuts u))
     | _ \<Rightarrow> False)"
    by code_simp
  then show ?thesis
    by (auto split: option.splits)
qed

end
