(* ===== verification/EventLoop.thy ===== *)
theory EventLoop
  imports MainWindow
begin

text \<open>
  The event loop of \<open>src/crippy.py\<close> (lines 283--287): \<open>MainWindow()\<close> is shown
  and \<open>app.exec()\<close> dispatches the user's actions to \<open>window_step\<close> one at a
  time until the window is closed; the program then exits.  The user's actions
  are an infinite stream, and \<open>app_exec\<close> is a \<open>partial_function (option)\<close>:
  \<open>None\<close> is an event loop that never returns.  Its termination is a theorem:
  it returns exactly when the user eventually closes the window, by
  \<open>File/Exit\<close> or from the title bar, and it returns the window as the
  actions up to the first such close leave it.
\<close>

section \<open>The event loop\<close>

text \<open>\<open>app.exec()\<close> from the \<open>i\<close>-th action on.\<close>

partial_function (option) app_exec :: "'r env \<Rightarrow> (nat \<Rightarrow> 'r event) \<Rightarrow> nat \<Rightarrow> window \<Rightarrow> window option" where
  "app_exec E evs i w = (if closed w then Some w else app_exec E evs (Suc i) (window_step E w (evs i)))"

text \<open>\<open>if __name__ == "__main__"\<close>: the window opened on the settings
  store \<open>sfs\<close>, the files \<open>fs\<close> and the configuration directory \<open>config\<close>.\<close>

text \<open>The actions that close the window.\<close>

abbreviation closes_window :: "'r event \<Rightarrow> bool" where
  "closes_window ev \<equiv> ev = FileExit \<or> ev = CloseWindow"

definition crippy_main :: "'r env \<Rightarrow> settings_fs \<Rightarrow> fsys \<Rightarrow> string \<Rightarrow> (nat \<Rightarrow> 'r event) \<Rightarrow> window option" where
  "crippy_main E sfs fs config evs = app_exec E evs 0 (main_window_init sfs fs config)"

section \<open>Lemmas\<close>

text \<open>Only \<open>File/Exit\<close> and the close event close the window.\<close>

lemma closed_step: "closed (window_step E w ev) \<longleftrightarrow> closed w \<or> closes_window ev"
proof (cases ev)
  case FileNew
  then show ?thesis by (simp add: window_step_unfold reset_gui_def Let_def set_show_password_def
      on_cb_show_password_stateChanged_def)
qed (simp_all add: window_step_unfold set_show_password_def on_cb_show_password_stateChanged_def
      close_event_def handlers_frame [unfolded keeps_controls_def])

text \<open>From an open window, the loop runs the actions up to the first close and
  returns the window they leave.\<close>

lemma app_exec_run:
  assumes "\<not> closed w" and "\<forall>j<k. \<not> closes_window (evs (i + j))" and "closes_window (evs (i + k))"
  shows "app_exec E evs i w = Some (window_run E w (map evs [i..<Suc (i + k)]))"
  using assms
proof (induction k arbitrary: i w)
  case 0
  then have "closed (window_step E w (evs i))" by (simp add: closed_step)
  then show ?case using 0
    by (simp add: app_exec.simps [of E evs i] app_exec.simps [of E evs "Suc i"])
next
  case (Suc k)
  have open': "\<not> closed (window_step E w (evs i))" using Suc.prems(1,2) closed_step by fastforce
  have p2: "\<forall>j<k. \<not> closes_window (evs (Suc i + j))" using Suc.prems(2) by fastforce
  have p3: "closes_window (evs (Suc i + k))" using Suc.prems(3) by simp
  have "app_exec E evs (Suc i) (window_step E w (evs i))
          = Some (window_run E (window_step E w (evs i)) (map evs [Suc i..<Suc (Suc i + k)]))"
    by (rule Suc.IH [OF open' p2 p3])
  moreover have "[i..<Suc (i + Suc k)] = i # [Suc i..<Suc (Suc i + k)]"
    by (simp del: upt_Suc add: upt_conv_Cons)
  ultimately show ?case using Suc.prems(1) by (simp del: upt_Suc add: app_exec.simps [of E evs i])
qed

lemma app_exec_Some:
  assumes "app_exec E evs i w = Some w'"
  shows "closed w' \<and> (closed w \<or> (\<exists>k\<ge>i. closes_window (evs k)))"
proof (rule app_exec.raw_induct [where P = "\<lambda>E evs i w w'. closed w' \<and> (closed w \<or> (\<exists>k\<ge>i. closes_window (evs k)))", OF _ assms])
  fix f :: "'a env \<Rightarrow> (nat \<Rightarrow> 'a event) \<Rightarrow> nat \<Rightarrow> window \<Rightarrow> window option" and E evs i w w'
  assume IH: "\<And>E evs i w w'. f E evs i w = Some w' \<Longrightarrow> closed w' \<and> (closed w \<or> (\<exists>k\<ge>i. closes_window (evs k)))"
    and eq: "(if closed w then Some w else f E evs (Suc i) (window_step E w (evs i))) = Some w'"
  show "closed w' \<and> (closed w \<or> (\<exists>k\<ge>i. closes_window (evs k)))"
  proof (cases "closed w")
    case False
    then have "closed w' \<and> (closed (window_step E w (evs i)) \<or> (\<exists>k\<ge>Suc i. closes_window (evs k)))"
      using IH eq by simp
    then show ?thesis using False closed_step [of E w "evs i"] Suc_leD by blast
  qed (use eq in simp)
qed

text \<open>The first close of a stream that has one.\<close>

lemma first_close:
  fixes evs :: "nat \<Rightarrow> 'r event"
  assumes "closes_window (evs k)"
  obtains m where "closes_window (evs m)" and "\<forall>j<m. \<not> closes_window (evs j)"
proof -
  let ?m = "LEAST m. closes_window (evs m)"
  have "closes_window (evs ?m)" by (rule LeastI [where P = "\<lambda>m. closes_window (evs m)", OF assms])
  moreover have "\<forall>j<?m. \<not> closes_window (evs j)" using not_less_Least by blast
  ultimately show ?thesis using that by blast
qed

lemma main_window_init_open: "\<not> closed (main_window_init sfs fs config)"
  by (simp add: main_window_init_def Let_def split: prod.splits)

lemma crippy_main_run:
  assumes "closes_window (evs k)" and "\<forall>j<k. \<not> closes_window (evs j)"
  shows "crippy_main E sfs fs config evs = Some (window_run E (main_window_init sfs fs config) (map evs [0..<Suc k]))"
  using app_exec_run [of "main_window_init sfs fs config" k evs 0 E] assms main_window_init_open
  by (simp add: crippy_main_def)

section \<open>Properties\<close>

text \<open>C32: \<open>sys.exit(app.exec())\<close> is reached, that is the program terminates,
  exactly when the user eventually closes the window (\<open>File/Exit\<close>, or the close
  button of the title bar); no other action, error or exception of a slot ends
  the event loop.  It then returns the window as the actions up to and including
  the first close leave it: the actions after it are never run.\<close>

theorem crippy_main_terminates:
  "crippy_main E sfs fs config evs = Some w \<longleftrightarrow>
     (\<exists>k. closes_window (evs k) \<and> (\<forall>j<k. \<not> closes_window (evs j))
          \<and> w = window_run E (main_window_init sfs fs config) (map evs [0..<Suc k]))"
proof
  assume r: "crippy_main E sfs fs config evs = Some w"
  then obtain k where "closes_window (evs k)"
    using app_exec_Some [of E evs 0 "main_window_init sfs fs config" w] main_window_init_open
    by (auto simp: crippy_main_def)
  then obtain m where m: "closes_window (evs m)" "\<forall>j<m. \<not> closes_window (evs j)" by (rule first_close)
  then show "\<exists>k. closes_window (evs k) \<and> (\<forall>j<k. \<not> closes_window (evs j))
          \<and> w = window_run E (main_window_init sfs fs config) (map evs [0..<Suc k])"
    using crippy_main_run [OF m, of E sfs fs config] r by auto
next
  assume "\<exists>k. closes_window (evs k) \<and> (\<forall>j<k. \<not> closes_window (evs j))
          \<and> w = window_run E (main_window_init sfs fs config) (map evs [0..<Suc k])"
  then show "crippy_main E sfs fs config evs = Some w" using crippy_main_run by blast
qed

theorem crippy_main_terminates_witness:
  "crippy_main demo_env demo_windows demo_fs demo_config (\<lambda>n :: nat. if n < 2 then HelpAbout else CloseWindow)
     = Some (window_run demo_env (main_window_init demo_windows demo_fs demo_config) [HelpAbout, HelpAbout, CloseWindow])"
proof -
  let ?evs = "\<lambda>n :: nat. if n < 2 then HelpAbout else (CloseWindow :: unit event)"
  have "closes_window (?evs 2) \<and> (\<forall>j<2. \<not> closes_window (?evs j))
     \<and> window_run demo_env (main_window_init demo_windows demo_fs demo_config) [HelpAbout, HelpAbout, CloseWindow]
       = window_run demo_env (main_window_init demo_windows demo_fs demo_config) (map ?evs [0..<Suc 2])"
    by (simp add: upt_rec)
  then show ?thesis using crippy_main_terminates by blast
qed

end
