(* ===== verification/WindowFiles.thy ===== *)
theory WindowFiles
  imports MainWindow
begin

text \<open>
  The main window together with the settings store and the files, on a platform
  that has the \<open>ansi\<close> codec (Windows).  A settings file that holds a dictionary
  whose two path settings are strings (\<open>settings_ok\<close>) stays so in every state
  the window reaches, so the file dialog of \<open>select_file_dialog\<close> never raises;
  and a file encrypted with \<open>Encrypt/File -> Output\<close>, pasted back and decrypted
  with \<open>Decrypt/Input -> File\<close> is written back byte for byte.  Every other slot
  leaves the files alone, and a cancelled dialog changes nothing that lasts.
\<close>

section \<open>Well-typed settings\<close>

text \<open>\<open>pathlib.Path(settings.get(k, cwd))\<close> needs a string; a missing key takes
  the default.\<close>

definition path_setting_ok :: "json option \<Rightarrow> bool" where
  "path_setting_ok v \<longleftrightarrow> (case v of None \<Rightarrow> True | Some (JStr _) \<Rightarrow> True | Some _ \<Rightarrow> False)"

definition settings_ok :: "settings_fs \<Rightarrow> user_settings \<Rightarrow> bool" where
  "settings_ok sfs us \<longleftrightarrow> ansi_ok sfs \<and>
     (case settings_get sfs us of
       Inr (JObj kvs) \<Rightarrow> path_setting_ok (map_of kvs LAST_LOAD_PATH) \<and> path_setting_ok (map_of kvs LAST_SAVE_PATH)
     | _ \<Rightarrow> False)"

text \<open>A step that keeps the settings well-typed (and the store object).\<close>

definition keeps_settings_ok :: "window \<Rightarrow> window \<Rightarrow> bool" where
  "keeps_settings_ok w w' \<longleftrightarrow>
     win_settings w' = win_settings w
     \<and> (settings_ok (win_sfs w) (win_settings w) \<longrightarrow> settings_ok (win_sfs w') (win_settings w'))"

text \<open>The payload \<open>DataObject.from_file(f)\<close> of a file with bytes \<open>b\<close>.\<close>

abbreviation file_payload :: "pylib \<Rightarrow> string \<Rightarrow> bytes \<Rightarrow> data_object" where
  "file_payload L f b \<equiv> store_data L (new_data_object\<lparr>content_type := Some ''application/octet-stream'',
      filename := Some (path_name f), charset := None\<rparr>) (Some b) None"

section \<open>Lemmas: the settings along a run\<close>

named_theorems settings_frame "handlers that keep the settings well-typed"

lemma keeps_settings_ok_refl [simp]: "keeps_settings_ok w w"
  by (simp add: keeps_settings_ok_def)

lemma slot_settings_simps [simp]:
  "win_sfs (slot_raise w e) = win_sfs w" "win_settings (slot_raise w e) = win_settings w"
  "win_sfs (slot_ok w) = win_sfs w" "win_settings (slot_ok w) = win_settings w"
  "win_sfs (set_input w s) = win_sfs w" "win_settings (set_input w s) = win_settings w"
  by (simp_all add: slot_raise_def slot_ok_def set_input_def on_te_input_textChanged_def)

lemma settings_ok_setitem:
  assumes "setitem sfs us k (JStr s) = (r, sfs')" and "settings_ok sfs us"
  shows "r = Inr () \<and> settings_ok sfs' us"
proof -
  obtain kvs where g: "settings_get sfs us = Inr (JObj kvs)" and a: "ansi_ok sfs"
    and p: "path_setting_ok (map_of kvs LAST_LOAD_PATH)" "path_setting_ok (map_of kvs LAST_SAVE_PATH)"
    using assms(2) by (auto simp: settings_ok_def split: sum.splits json.splits)
  show ?thesis
    using assms(1) g a p by (auto simp: setitem_def settings_set_def settings_ok_def settings_get_def update_conv'
        path_setting_ok_def)
qed

lemma settings_ok_get:
  assumes "settings_ok sfs us" and "k = LAST_LOAD_PATH \<or> k = LAST_SAVE_PATH"
  shows "\<exists>p. settings_get_default sfs us k (JStr c) = Inr (JStr p)"
proof -
  obtain kvs where g: "settings_get sfs us = Inr (JObj kvs)"
    and p: "path_setting_ok (map_of kvs k)"
    using assms by (auto simp: settings_ok_def split: sum.splits json.splits)
  then show ?thesis
    by (auto simp: settings_get_default_def getitem_def path_setting_ok_def split: option.splits json.splits)
qed

lemma select_file_dialog_ok:
  assumes "settings_ok (win_sfs w) (win_settings w)"
  shows "\<exists>p w'. select_file_dialog E w save ov ask = (Inr (ask p), w') \<and> keeps_settings_ok w w'"
proof -
  let ?k = "if save then LAST_SAVE_PATH else LAST_LOAD_PATH"
  obtain p where g: "settings_get_default (win_sfs w) (win_settings w) ?k (JStr (env_cwd E)) = Inr (JStr p)"
    using settings_ok_get [OF assms, of ?k "env_cwd E"] by (cases save) auto
  define given where "given = (case ov of None \<Rightarrow> le_filename w | Some f \<Rightarrow> f)"
  define sp where "sp = (if given \<noteq> [] then path_join p (path_name given) else path_str p)"
  have "\<exists>w'. select_file_dialog E w save ov ask = (Inr (ask sp), w') \<and> keeps_settings_ok w w'"
    using g assms
    by (auto simp: select_file_dialog_def path_of_json_def Let_def keeps_settings_ok_def sp_def given_def
        split: prod.splits sum.splits dest: settings_ok_setitem)
  then show ?thesis by blast
qed

lemma keeps_settings_ok_trans [trans]:
  "keeps_settings_ok w1 w2 \<Longrightarrow> keeps_settings_ok w2 w3 \<Longrightarrow> keeps_settings_ok w1 w3"
  by (auto simp: keeps_settings_ok_def)

lemma window_encrypt_settings [settings_frame]: "window_encrypt E r w d = (x, w') \<Longrightarrow> keeps_settings_ok w w'"
  by (auto simp: window_encrypt_def Let_def keeps_settings_ok_def split: sum.splits)

lemma encrypt_file_settings [settings_frame]: "encrypt_file E r w f = (x, w') \<Longrightarrow> keeps_settings_ok w w'"
  by (auto simp: encrypt_file_def Let_def keeps_settings_ok_def split: if_splits sum.splits prod.splits
           dest!: window_encrypt_settings)

lemma select_file_dialog_settings [settings_frame]:
  "select_file_dialog E w s ov ask = (x, w') \<Longrightarrow> keeps_settings_ok w w'"
  by (auto simp: select_file_dialog_def Let_def keeps_settings_ok_def split: if_splits sum.splits prod.splits
      dest: settings_ok_setitem)

lemma window_decrypt_settings [settings_frame]: "window_decrypt E w = (x, w') \<Longrightarrow> keeps_settings_ok w w'"
  by (auto simp: window_decrypt_def Let_def keeps_settings_ok_def split: if_splits sum.splits option.splits)

lemma handlers_settings:
  "keeps_settings_ok w (on_encrypt_input_to_output_triggered E r w)"
  "keeps_settings_ok w (on_encrypt_file_to_output_triggered E r ask w)"
  "keeps_settings_ok w (on_decrypt_input_to_output_triggered E w)"
  "keeps_settings_ok w (on_decrypt_input_to_file_triggered E ask w)"
  "keeps_settings_ok w (on_te_input_file_dropped E r w f)"
  "keeps_settings_ok w (drop_event E r w m)"
  unfolding on_encrypt_input_to_output_triggered_def on_encrypt_file_to_output_triggered_def
    on_decrypt_input_to_output_triggered_def on_decrypt_input_to_file_triggered_def
    on_te_input_file_dropped_def drop_event_def
  by (auto simp: Let_def map_sum_eq_Inr split: sum.splits prod.splits if_splits mime.splits list.splits
           dest!: settings_frame dest: settings_ok_setitem simp add: keeps_settings_ok_def)

lemma step_keeps_settings_ok: "keeps_settings_ok w (window_step E w ev)"
proof (cases ev)
  case FileNew
  then show ?thesis by (simp add: window_step_unfold reset_gui_def Let_def set_show_password_def
      on_cb_show_password_stateChanged_def keeps_settings_ok_def)
next
  case ToggleShowPassword
  then show ?thesis by (simp add: window_step_unfold set_show_password_def
      on_cb_show_password_stateChanged_def keeps_settings_ok_def)
qed (simp_all add: window_step_unfold handlers_settings, simp_all add: keeps_settings_ok_def)

lemma settings_ok_step:
  "settings_ok (win_sfs w) (win_settings w) \<Longrightarrow> settings_ok (win_sfs (window_step E w ev)) (win_settings (window_step E w ev))"
  using step_keeps_settings_ok [of w E ev] by (auto simp: keeps_settings_ok_def)

lemma reachable_settings_ok:
  "reachable E w0 w \<Longrightarrow> settings_ok (win_sfs w0) (win_settings w0) \<Longrightarrow> settings_ok (win_sfs w) (win_settings w)"
  by (induction rule: reachable.induct) (auto intro: settings_ok_step)

section \<open>Lemmas: a file through the window\<close>

lemma file_payload_facts:
  "content_type (file_payload L f b) = Some ''application/octet-stream''"
  "filename (file_payload L f b) = Some (path_name f)" "charset (file_payload L f b) = None"
  "block_view (file_payload L f b) = file_payload L f b"
  "binary_data (file_payload L f b) = Some (if length (zlib_compress L b) < length b then zlib_compress L b else b)"
  by (simp_all add: new_data_object_def block_view_def py_lower_def pystr_simps store_data_def Let_def)

lemma from_file_payload: "fs_files fs (path_str f) = Some b \<Longrightarrow> from_file L fs f None = Inr (file_payload L f b)"
  by (simp add: from_file_def Let_def new_data_object_def)

lemma to_file_payload:
  assumes "write_target f None \<notin> fs_dirs fs" and "zlib_decompress L (zlib_compress L b) = Inr b"
  shows "\<exists>r. to_file L fs (store_data L d (Some b) None) (Some f) None
           = (Inr r, fs\<lparr>fs_files := (fs_files fs)(write_target f None \<mapsto> b)\<rparr>)"
  using assms by (simp add: to_file_def store_data_def Let_def)

lemma select_file_dialog_answer:
  assumes "settings_ok (win_sfs w) (win_settings w)" and "f \<noteq> []"
  shows "select_file_dialog E w save None (\<lambda>p. f)
           = (Inr f, w\<lparr>win_sfs := snd (setitem (win_sfs w) (win_settings w)
                (if save then LAST_SAVE_PATH else LAST_LOAD_PATH) (JStr (path_parent f))), le_filename := path_name f\<rparr>)
         \<and> settings_ok (snd (setitem (win_sfs w) (win_settings w)
                (if save then LAST_SAVE_PATH else LAST_LOAD_PATH) (JStr (path_parent f)))) (win_settings w)"
proof -
  let ?k = "if save then LAST_SAVE_PATH else LAST_LOAD_PATH"
  obtain p where g: "settings_get_default (win_sfs w) (win_settings w) ?k (JStr (env_cwd E)) = Inr (JStr p)"
    using settings_ok_get [OF assms(1), of ?k "env_cwd E"] by (cases save) auto
  obtain r sfs' where st: "setitem (win_sfs w) (win_settings w) ?k (JStr (path_parent f)) = (r, sfs')" by fastforce
  have "r = Inr () \<and> settings_ok sfs' (win_settings w)" using settings_ok_setitem [OF st assms(1)] .
  then show ?thesis using g st assms(2) by (auto simp: select_file_dialog_def path_of_json_def Let_def)
qed

text \<open>\<open>_encrypt_file\<close> does not read or write the file name field, and reads
  \<open>Path(f)\<close> as it reads \<open>f\<close>.\<close>

lemma encrypt_file_le_filename:
  "encrypt_file E r (w\<lparr>le_filename := x\<rparr>) f = map_prod id (\<lambda>w'. w'\<lparr>le_filename := x\<rparr>) (encrypt_file E r w f)"
  by (simp add: encrypt_file_def window_encrypt_def Let_def window_key_def set_input_def
      on_te_input_textChanged_def split: sum.split prod.split)

lemma encrypt_file_path_str: "f \<noteq> [] \<Longrightarrow> encrypt_file E r w (path_str f) = encrypt_file E r w f"
  by (simp add: encrypt_file_def from_file_def path_str_idem path_str_nonempty)

section \<open>Lemmas: the files along a run\<close>

named_theorems files_frame "handlers that leave the files alone"

lemma slot_files_simps:
  "win_fs (slot_raise w e) = win_fs w" "win_fs (slot_ok w) = win_fs w" "win_fs (set_input w s) = win_fs w"
  by (simp_all add: slot_raise_def slot_ok_def set_input_def on_te_input_textChanged_def)

lemma window_encrypt_files [files_frame]: "window_encrypt E r w d = (x, w') \<Longrightarrow> win_fs w' = win_fs w"
  by (auto simp: window_encrypt_def Let_def split: sum.splits)

lemma encrypt_file_files [files_frame]: "encrypt_file E r w f = (x, w') \<Longrightarrow> win_fs w' = win_fs w"
  by (auto simp: encrypt_file_def Let_def slot_files_simps split: if_splits sum.splits prod.splits
      dest!: window_encrypt_files)

lemma select_file_dialog_files [files_frame]: "select_file_dialog E w s ov ask = (x, w') \<Longrightarrow> win_fs w' = win_fs w"
  by (auto simp: select_file_dialog_def Let_def split: if_splits sum.splits prod.splits)

lemma window_decrypt_files [files_frame]: "window_decrypt E w = (x, w') \<Longrightarrow> win_fs w' = win_fs w"
  by (auto simp: window_decrypt_def Let_def split: if_splits sum.splits option.splits)

lemma window_decrypt_output: "window_decrypt E w = (x, w') \<Longrightarrow> te_output w' = te_output w"
  by (auto simp: window_decrypt_def Let_def split: if_splits sum.splits option.splits)

text \<open>Every slot but the two that decrypt to a file leaves the files alone: the
  encryptions read a file, and the drop writes only the settings.\<close>

lemma handlers_files:
  "win_fs (on_encrypt_input_to_output_triggered E r w) = win_fs w"
  "win_fs (on_encrypt_file_to_output_triggered E r ask w) = win_fs w"
  "win_fs (on_decrypt_input_to_output_triggered E w) = win_fs w"
  "win_fs (on_te_input_file_dropped E r w f) = win_fs w"
  "win_fs (drop_event E r w m) = win_fs w"
  unfolding on_encrypt_input_to_output_triggered_def on_encrypt_file_to_output_triggered_def
    on_decrypt_input_to_output_triggered_def on_te_input_file_dropped_def drop_event_def
  by (auto simp: Let_def map_sum_eq_Inr slot_files_simps split: sum.splits prod.splits if_splits mime.splits
      list.splits dest!: files_frame)

lemma step_files:
  "win_fs (window_step E w ev) = win_fs w \<or> (\<exists>ask. ev = DecryptInputToFile ask \<or> ev = PbDecryptToFile ask)"
proof (cases ev)
  case FileNew
  then show ?thesis by (simp add: window_step_unfold reset_gui_def Let_def set_show_password_def
      on_cb_show_password_stateChanged_def slot_files_simps)
next
  case ToggleShowPassword
  then show ?thesis by (simp add: window_step_unfold set_show_password_def on_cb_show_password_stateChanged_def
      slot_files_simps)
qed (simp_all add: window_step_unfold handlers_files slot_files_simps)

section \<open>Properties\<close>

text \<open>C33: on Windows, starting from a settings file that is absent or a
  dictionary whose \<open>LAST_LOAD_PATH\<close> and \<open>LAST_SAVE_PATH\<close> are strings, every
  reachable state keeps the settings so, and in every such state the file
  dialog returns, without raising, the user's answer to the path it proposes.\<close>

theorem window_settings_invariant:
  assumes "reachable E w0 w" and "settings_ok (win_sfs w0) (win_settings w0)"
  shows "settings_ok (win_sfs w) (win_settings w) \<and> (\<exists>p w'. select_file_dialog E w save ov ask = (Inr (ask p), w'))"
  using reachable_settings_ok [OF assms] select_file_dialog_ok by blast

theorem window_settings_invariant_witness:
  "\<exists>w'. select_file_dialog demo_env (window_step demo_env (main_window_init demo_windows demo_fs demo_config)
     (EncryptFileToOutput () (\<lambda>p. ''notes.txt''))) True None (\<lambda>p. ''/tmp/out.txt'') = (Inr ''/tmp/out.txt'', w')"
proof -
  let ?w0 = "main_window_init demo_windows demo_fs demo_config"
  have r: "reachable demo_env ?w0 (window_step demo_env ?w0 (EncryptFileToOutput () (\<lambda>p. ''notes.txt'')))"
    by (intro reachable.step reachable.start)
  have "settings_ok (win_sfs ?w0) (win_settings ?w0)"
    by (simp add: main_window_init_def user_settings_init_def demo_windows_def Let_def settings_ok_def
        settings_get_def path_setting_ok_def split: prod.splits)
  then show ?thesis using window_settings_invariant [OF r] by blast
qed

text \<open>C34: the file round trip through the window.  Choosing a readable file
  with \<open>Encrypt/File -> Output\<close>, pasting the block into the input and choosing a
  target with \<open>Decrypt/Input -> File\<close> writes the file's bytes to the target,
  with no exception in the slots; on Windows with well-typed settings, for every
  password and randomness, every Fernet whose tokens are URL-safe and decrypt to
  their plaintext, when zlib inverts itself on the bytes, the file name can be
  read back from the header, and the target is not a directory.\<close>

theorem encrypt_file_decrypt_to_file:
  assumes key: "fernet_key_ok (env_cipher E) = fernet_key_valid"
    and kdf: "\<forall>k m. length (env_prf E k m) = 32"
    and tok: "\<forall>k r b. urlsafe_token (fernet_encrypt (env_cipher E) k r b)"
    and inv: "\<forall>k r b. fernet_decrypt (env_cipher E) k (fernet_encrypt (env_cipher E) k r b) = Some b"
    and st: "settings_ok (win_sfs w) (win_settings w)"
    and rd: "fs_files (win_fs w) (path_str src) = Some b"
    and fn: "filename_value_ok (path_name src)"
    and zip: "zlib_decompress (env_lib E) (zlib_compress (env_lib E) b) = Inr b"
    and ne: "b \<noteq> []" "zlib_compress (env_lib E) b \<noteq> []"
    and f: "src \<noteq> []" "dst \<noteq> []"
    and dir: "path_str dst \<notin> fs_dirs (win_fs w)"
  shows "slot_error (window_step E w (EncryptFileToOutput r (\<lambda>p. src))) = None
         \<and> slot_error (window_run E w [EncryptFileToOutput r (\<lambda>p. src),
              TypeInput (te_output (window_step E w (EncryptFileToOutput r (\<lambda>p. src)))),
              DecryptInputToFile (\<lambda>p. dst)]) = None
         \<and> fs_files (win_fs (window_run E w [EncryptFileToOutput r (\<lambda>p. src),
              TypeInput (te_output (window_step E w (EncryptFileToOutput r (\<lambda>p. src)))),
              DecryptInputToFile (\<lambda>p. dst)])) (path_str dst) = Some b"
proof -
  let ?L = "env_lib E" and ?F = "env_cipher E"
  let ?d = "file_payload ?L src b" and ?bc = "\<lparr>bc_key = window_key E w, default_width = 70\<rparr>"
  obtain sfs1 where sel1: "select_file_dialog E w False None (\<lambda>p. src)
      = (Inr src, w\<lparr>win_sfs := sfs1, le_filename := path_name src\<rparr>)" and st1: "settings_ok sfs1 (win_settings w)"
    using select_file_dialog_answer [OF st f(1)] by blast
  define wb where "wb = set_input (w\<lparr>win_sfs := sfs1, le_filename := path_name src\<rparr>) []"
  have wb: "win_fs wb = win_fs w" "window_key E wb = window_key E w" "te_input wb = []"
    "win_sfs wb = sfs1" "win_settings wb = win_settings w"
    by (simp_all add: wb_def set_input_def on_te_input_textChanged_def window_key_def)
  have fs: "from_file ?L (win_fs wb) src None = Inr ?d" using rd wb(1) by (simp add: from_file_payload)
  obtain bin where bin: "binary_data ?d = Some bin" using file_payload_facts(5) by blast
  obtain blk where blk: "encrypt_to_block ?F ?bc r ?d None = Inr blk"
    using encrypt_to_block_binary_Inr [OF bin file_payload_facts(1), where F = ?F and bc = ?bc and r = r and width = None] tok
    by blast
  obtain m1 where we: "window_encrypt E r wb ?d = (Inr blk, wb\<lparr>status_msg := m1\<rparr>)"
    using window_encrypt_Inr [OF _ blk, of wb] window_cipher [OF key kdf, of wb] wb(2) by auto
  define w1 where "w1 = window_step E w (EncryptFileToOutput r (\<lambda>p. src))"
  have w1: "w1 = slot_ok (wb\<lparr>status_msg := m1, te_output := blk\<rparr>)"
    using f(1) by (simp add: w1_def window_step_unfold on_encrypt_file_to_output_triggered_def sel1
        encrypt_file_def wb_def [symmetric] fs we)
  have blk_ne: "blk \<noteq> []"
    by (rule encrypt_to_block_Inr [OF blk]) (simp add: start_block_def)
  define w2 where "w2 = window_step E w1 (TypeInput blk)"
  have w2: "te_input w2 = blk" "window_key E w2 = window_key E w" "win_fs w2 = win_fs w"
    "win_sfs w2 = sfs1" "win_settings w2 = win_settings w"
    using blk_ne wb by (simp_all add: w2_def w1 window_step_unfold slot_ok_def set_input_def
        on_te_input_textChanged_def window_key_def)
  have rt: "decrypt_from_block ?F ?bc blk = Inr ?d"
    using block_roundtrip [OF blk] tok inv fn file_payload_facts(2,3,4) by simp
  obtain m2 where wd: "window_decrypt E w2 = (Inr ?d, w2\<lparr>le_filename := path_name (path_name src), status_msg := m2\<rparr>)"
    using window_decrypt_Inr [where E = E and w = w2 and bc = ?bc and d = ?d] w2 blk_ne rt
      window_cipher [OF key kdf, of w] file_payload_facts(2) by auto
  let ?wd = "w2\<lparr>le_filename := path_name (path_name src), status_msg := m2\<rparr>"
  obtain sfs2 where sel2: "select_file_dialog E ?wd True None (\<lambda>p. dst)
      = (Inr dst, ?wd\<lparr>win_sfs := sfs2, le_filename := path_name dst\<rparr>)"
    using select_file_dialog_answer [of ?wd dst E True] st1 w2(4,5) f(2) by auto
  have hd: "has_data ?d" using ne by (simp add: has_data_def file_payload_facts(5))
  obtain res where tf: "to_file ?L (win_fs w) ?d (Some dst) None
      = (Inr res, (win_fs w)\<lparr>fs_files := (fs_files (win_fs w))(path_str dst \<mapsto> b)\<rparr>)"
    using to_file_payload [of dst "win_fs w" ?L b] dir zip by (auto simp: write_target_def)
  have "slot_error (window_step E w2 (DecryptInputToFile (\<lambda>p. dst))) = None
      \<and> fs_files (win_fs (window_step E w2 (DecryptInputToFile (\<lambda>p. dst)))) (path_str dst) = Some b"
    using wd hd sel2 tf f(2) w2(3)
    by (simp add: window_step_unfold on_decrypt_input_to_file_triggered_def slot_ok_def Let_def)
  moreover have "slot_error w1 = None" "te_output w1 = blk" by (simp_all add: w1 slot_ok_def)
  moreover have "window_run E w [EncryptFileToOutput r (\<lambda>p. src), TypeInput (te_output w1), DecryptInputToFile (\<lambda>p. dst)]
      = window_step E w2 (DecryptInputToFile (\<lambda>p. dst))"
    by (simp add: w1_def [symmetric] w2_def calculation(3))
  ultimately show ?thesis unfolding w1_def by simp
qed

theorem encrypt_file_decrypt_to_file_witness:
  "fs_files (win_fs (window_run demo_env (main_window_init demo_windows demo_fs demo_config)
     [EncryptFileToOutput () (\<lambda>p. ''notes.txt''),
      TypeInput (te_output (window_step demo_env (main_window_init demo_windows demo_fs demo_config)
        (EncryptFileToOutput () (\<lambda>p. ''notes.txt'')))),
      DecryptInputToFile (\<lambda>p. ''/tmp/out.txt'')])) (path_str ''/tmp/out.txt'') = Some [104, 105]"
proof -
  let ?w = "main_window_init demo_windows demo_fs demo_config"
  have key: "fernet_key_ok (env_cipher demo_env) = fernet_key_valid"
    and kdf: "\<forall>k m. length (env_prf demo_env k m) = 32"
    and tok: "\<forall>k r b. urlsafe_token (fernet_encrypt (env_cipher demo_env) k r b)"
    and inv: "\<forall>k r b. fernet_decrypt (env_cipher demo_env) k (fernet_encrypt (env_cipher demo_env) k r b) = Some b"
    by (simp_all add: demo_env_def demo_fernet_def demo_prf_def urlsafe_hex_encode hex_decode_encode)
  have st: "settings_ok (win_sfs ?w) (win_settings ?w)"
    by (simp add: main_window_init_def user_settings_init_def demo_windows_def Let_def settings_ok_def
        settings_get_def path_setting_ok_def split: prod.splits)
  have fsw: "win_fs ?w = demo_fs" by (simp add: main_window_init_def Let_def split: prod.splits)
  have rd: "fs_files (win_fs ?w) (path_str ''notes.txt'') = Some [104, 105]"
    and dir: "path_str ''/tmp/out.txt'' \<notin> fs_dirs (win_fs ?w)"
    unfolding fsw by (simp_all add: demo_fs_def path_str_def path_root_def path_comps_def mk_path_def)
  have fn: "filename_value_ok (path_name ''notes.txt'')" by code_simp
  have zip: "zlib_decompress (env_lib demo_env) (zlib_compress (env_lib demo_env) [104, 105]) = Inr [104, 105]"
    and ne: "[104, 105] \<noteq> ([] :: bytes)" "zlib_compress (env_lib demo_env) [104, 105] \<noteq> []"
    by (simp_all add: demo_env_def demo_lib_def)
  show ?thesis using encrypt_file_decrypt_to_file [where dst = "''/tmp/out.txt''" and r = "()", OF key kdf tok inv st rd fn zip ne]
      dir by simp
qed

text \<open>C36: dropping a file on the input field has exactly the effect of
  choosing the same file in \<open>Encrypt/File -> Output\<close> (the same directory is
  remembered, the same bytes are encrypted to the output, the same exceptions
  end the slot), except that the file name field is left as it was; on Windows
  with well-typed settings.\<close>

theorem drop_is_encrypt_file:
  assumes "settings_ok (win_sfs w) (win_settings w)" and "f \<noteq> []"
  shows "window_step E w (EncryptFileToOutput r (\<lambda>p. f))
           = (window_step E w (Drop r (MimeUrls (f # us))))\<lparr>le_filename := path_name f\<rparr>"
proof -
  obtain x sfs where st: "setitem (win_sfs w) (win_settings w) LAST_LOAD_PATH (JStr (path_parent f)) = (x, sfs)"
    by fastforce
  then have x: "x = Inr ()" using settings_ok_setitem assms(1) by blast
  have sel: "select_file_dialog E w False None (\<lambda>p. f) = (Inr f, w\<lparr>win_sfs := sfs, le_filename := path_name f\<rparr>)"
    using select_file_dialog_answer [OF assms, of E False] st by simp
  obtain y w' where ef: "encrypt_file E r (w\<lparr>win_sfs := sfs\<rparr>) f = (y, w')" by fastforce
  have e: "encrypt_file E r (w\<lparr>win_sfs := sfs, le_filename := path_name f\<rparr>) f = (y, w'\<lparr>le_filename := path_name f\<rparr>)"
    unfolding encrypt_file_le_filename [where w = "w\<lparr>win_sfs := sfs\<rparr>" and x = "path_name f"] ef by simp
  show ?thesis
    using sel st x e ef encrypt_file_path_str [where E = E and r = r and w = "w\<lparr>win_sfs := sfs\<rparr>", OF assms(2)]
    by (cases y) (simp_all add: window_step_unfold on_encrypt_file_to_output_triggered_def drop_event_def
        on_te_input_file_dropped_def slot_ok_def slot_raise_def)
qed

theorem drop_is_encrypt_file_witness:
  "window_step demo_env (main_window_init demo_windows demo_fs demo_config) (EncryptFileToOutput () (\<lambda>p. ''notes.txt''))
   = (window_step demo_env (main_window_init demo_windows demo_fs demo_config)
       (Drop () (MimeUrls [''notes.txt''])))\<lparr>le_filename := path_name ''notes.txt''\<rparr>"
proof -
  let ?w = "main_window_init demo_windows demo_fs demo_config"
  have "settings_ok (win_sfs ?w) (win_settings ?w)"
    by (simp add: main_window_init_def user_settings_init_def demo_windows_def Let_def settings_ok_def
        settings_get_def path_setting_ok_def split: prod.splits)
  moreover have "''notes.txt'' \<noteq> []" by simp
  ultimately show ?thesis by (rule drop_is_encrypt_file)
qed

text \<open>C35: cancelling a file dialog (it answers the empty string) changes nothing
  that lasts.  On Windows with well-typed settings, \<open>Encrypt/File -> Output\<close>
  leaves the whole window as it was: no directory is remembered, the file name
  field, the input and the output are kept.  \<open>Decrypt/Input -> File\<close> writes
  no file and leaves the output as it was, whatever the input and the settings.\<close>

theorem cancel_file_dialog:
  assumes st: "settings_ok (win_sfs w) (win_settings w)"
  shows "window_step E w (EncryptFileToOutput r (\<lambda>p. [])) = w\<lparr>slot_error := None\<rparr>
     \<and> win_fs (window_step E w (DecryptInputToFile (\<lambda>p. []))) = win_fs w
     \<and> te_output (window_step E w (DecryptInputToFile (\<lambda>p. []))) = te_output w"
proof (intro conjI)
  obtain p where g: "settings_get_default (win_sfs w) (win_settings w) LAST_LOAD_PATH (JStr (env_cwd E)) = Inr (JStr p)"
    using settings_ok_get [OF st, of LAST_LOAD_PATH "env_cwd E"] by auto
  then show "window_step E w (EncryptFileToOutput r (\<lambda>p. [])) = w\<lparr>slot_error := None\<rparr>"
    by (simp add: window_step_unfold on_encrypt_file_to_output_triggered_def select_file_dialog_def
        path_of_json_def encrypt_file_def slot_ok_def Let_def)
  have dec: "win_fs (window_step E w (DecryptInputToFile (\<lambda>p. []))) = win_fs w
     \<and> te_output (window_step E w (DecryptInputToFile (\<lambda>p. []))) = te_output w"
    by (auto simp: window_step_unfold on_decrypt_input_to_file_triggered_def select_file_dialog_def Let_def
        slot_files_simps slot_raise_def slot_ok_def split: prod.splits sum.splits if_splits
        dest: window_decrypt_files window_decrypt_output)
  then show "win_fs (window_step E w (DecryptInputToFile (\<lambda>p. []))) = win_fs w" by simp
  from dec show "te_output (window_step E w (DecryptInputToFile (\<lambda>p. []))) = te_output w" by simp
qed

theorem cancel_file_dialog_witness:
  "window_step demo_env (main_window_init demo_windows demo_fs demo_config) (EncryptFileToOutput () (\<lambda>p. []))
     = main_window_init demo_windows demo_fs demo_config
   \<and> win_fs (window_step demo_env (main_window_init demo_windows demo_fs demo_config) (DecryptInputToFile (\<lambda>p. [])))
     = win_fs (main_window_init demo_windows demo_fs demo_config)"
proof -
  let ?w0 = "main_window_init demo_windows demo_fs demo_config"
  have st: "settings_ok (win_sfs ?w0) (win_settings ?w0)"
    by (simp add: main_window_init_def user_settings_init_def demo_windows_def Let_def settings_ok_def
        settings_get_def path_setting_ok_def split: prod.splits)
  have e: "?w0\<lparr>slot_error := None\<rparr> = ?w0" by (simp add: main_window_init_def Let_def split: prod.splits)
  show ?thesis using cancel_file_dialog [OF st, of demo_env "()"] e by simp
qed

end
