(* ===== verification/Spec2Isabelle.thy ===== *)
theory Spec2Isabelle
  imports UiSetup EventLoop WindowFiles
begin

text \<open>
  \<^bold>\<open>A verification model of crippy.\<close>
  crippy encrypts a text or a file into a password-protected, BASE64 text block
  and back.  Its core is \<open>src/crippy_app.py\<close>: the payload class \<open>DataObject\<close>
  (content type, charset, file name, compression flag and bytes), and the class
  \<open>BlockCrypter\<close>, a Fernet cipher that renders a payload as a block

    \<open>===== START BLOCK =====\<close> / \<open>Content-Type: ...\<close> / \<open>Content-Disposition: ...\<close> /
    [\<open>Content-Encoding: gzip\<close>] / empty line / BASE64 lines / \<open>===== END BLOCK =====\<close>

  and parses such a block back, plus the key derivation
  \<open>derive_key_from_password\<close> (PBKDF2-HMAC-SHA256 of the password, BASE64).
  \<open>src/crippy.py\<close> is the Qt main window that calls them, \<open>src/usersettings.py\<close>
  a JSON settings file, \<open>src/myplaintextedit.py\<close> a drop target and
  \<open>src/crippy_ui.py\<close> generated Qt layout code.

  \<^bold>\<open>Theories.\<close>
  \<^item> \<open>Prelude\<close>: bytes as \<open>8 word list\<close>, Python \<open>str\<close> as HOL strings (code
    points U+0000--U+00FF), the exceptions (\<open>py_error\<close>: the four exception
    classes of \<open>crippy_app.py\<close> and the library exceptions that reach the caller),
    results as \<open>py_error + 'a\<close>, the theorem collections.
  \<^item> \<open>PyStr\<close>: the Python built-ins the code calls (\<open>str.isspace\<close>, \<open>lower\<close>,
    \<open>strip\<close>, \<open>find\<close>, \<open>in\<close>, slicing, \<open>splitlines(keepends=True)\<close>,
    \<open>replace\<close>, the ASCII codec, POSIX \<open>pathlib\<close>), with the search and
    line-splitting lemmas the block proofs need.
  \<^item> \<open>Regex\<close>: the part of Python's \<open>re\<close> the code uses, as a backtracking
    matcher listing the matches in the engine's order (greedy repetition first);
    \<open>re.match\<close> is its first match, \<open>re.search\<close> the first at the least position.
  \<^item> \<open>DataObject\<close>: the record \<open>data_object\<close> (the dataclass), \<open>store_data\<close>
    (\<open>_store_data\<close>), \<open>from_str\<close>, \<open>as_str\<close>, \<open>from_file\<close>, \<open>to_file\<close>.  The
    libraries it calls (zlib, codecs) are the fields of the record \<open>pylib\<close>; files
    are the record \<open>fsys\<close>, passed and returned.  Lemmas: what is stored in each
    compression mode and that it restores the input, the size bound of auto mode.
  \<^item> \<open>BlockCrypter\<close>: the record \<open>block_crypter\<close> (key, default width),
    \<open>block_crypter_init\<close>, \<open>format_block\<close> (the template \<open>_block\<close>),
    \<open>wrap_slices\<close>, \<open>content_headers\<close> and \<open>encrypt_to_block\<close>; the header
    patterns of lines 426--430, \<open>scan_headers\<close> (the header loop),
    \<open>parse_block\<close> (marker search, loop, body), the parameter patterns of lines
    371 and 376, \<open>create_dataobject\<close> and \<open>decrypt_from_block\<close>.  Fernet is the
    record \<open>fernet\<close> of its three entry points, with the randomness of an
    encryption as an explicit argument.  Lemmas: what each header line and
    parameter pattern matches, and how the header loop advances over them.
  \<^item> \<open>KeyDerivation\<close>: \<open>derive_key_from_password\<close> and \<open>SALT\<close>, with the libraries
    it calls written out: URL-safe BASE64 on 8-bit words (\<open>b64_encode\<close>,
    \<open>b64_decode\<close>, round trip by bit-level lemmas), PBKDF2 over an abstract
    pseudo-random function (\<open>pbkdf2_loop\<close> shown equal to the RFC 8018 block
    \<open>pbkdf2_T\<close>), UTF-8 on U+0000--U+00FF, and Fernet's key check
    \<open>fernet_key_valid\<close>; \<open>generate_salt\<close> with \<open>secrets.token_bytes\<close> as a
    parameter.
  \<^item> \<open>BlockRoundtrip\<close>: the render/parse round trip.  \<open>chunks\<close> is the reference
    for the wrapping, \<open>body_ok\<close> the shape of a parsable body, \<open>block_view\<close> what
    a block restores of a payload.  Lemmas: a block made of header lines, an
    empty line and body lines (no whitespace, no colon: token characters, or a
    corruption of them) parses to its headers and the joined body
    (\<open>parse_block_lines\<close>); the rendered block has that shape
    (\<open>encrypt_to_block_Inr\<close>); the rendered headers avoid the end marker and
    line boundaries.  A stand-in cipher (\<open>demo_fernet\<close>, hexadecimal letters)
    and payloads serve the witnesses and the concrete scenarios.
  \<^item> \<open>Plural\<close>: \<open>msg_with_correct_plural\<close> (\<open>src/crippy.py\<close> lines 24--42):
    the digits of a number (\<open>nat_digits\<close>, a \<open>function\<close> with a measure), the
    thousands grouping of \<open>f"{n:,}"\<close>, \<open>str.replace\<close>, and \<open>str.format\<close> for
    templates with auto-numbered fields (\<open>fmt_fields\<close>, errors as values).
  \<^item> \<open>Settings\<close>: \<open>UserSettings\<close> of \<open>src/usersettings.py\<close>.  The settings file
    is a JSON value per path in the record \<open>settings_fs\<close>, which also holds
    whether the platform has the \<open>ansi\<close> codec the file is opened with;
    \<open>settings_get\<close>/\<open>settings_set\<close> are the property \<open>settings\<close>, \<open>getitem\<close>,
    \<open>settings_get_default\<close> (\<open>get\<close>) and \<open>setitem\<close> the accessors.
    \<open>run_settings\<close> runs a client's sequence of calls and \<open>run_dict\<close> runs it on an
    in-memory dictionary, the abstract specification.
  \<^item> \<open>MainWindow\<close>: the class \<open>MainWindow\<close> of \<open>src/crippy.py\<close> and the drop
    handler of \<open>src/myplaintextedit.py\<close>.  The record \<open>window\<close> holds the widgets'
    contents, the check box and the echo mode of the password field, the status
    message, the titles of the message boxes shown, the settings store and the
    files; the environment \<open>env\<close> holds the libraries (codecs, zlib, Fernet, the
    PRF, the working directory).  Each slot is a function of the window with the
    slot's own name, calling the model of the component it calls
    (\<open>window_encrypt\<close> is \<open>encrypt\<close>, \<open>window_decrypt\<close> is \<open>decrypt\<close>,
    \<open>select_file_dialog\<close>, \<open>encrypt_file\<close> is \<open>_encrypt_file\<close>); a write to the
    input field runs \<open>on_te_input_textChanged\<close> (\<open>set_input\<close>), \<open>setChecked\<close>
    runs \<open>on_cb_show_password_stateChanged\<close> only on a change
    (\<open>set_show_password\<close>), and an exception escaping a slot is recorded in
    \<open>slot_error\<close> with the changes made before it.  File dialogs are functions
    from the proposed path to the user's answer (the empty string for Cancel).
    A user action is an \<open>event\<close>, \<open>window_step\<close> runs its slot,
    \<open>window_run\<close> a sequence of them (the event loop \<open>app.exec()\<close>), and
    \<open>reachable\<close> is the inductive set of states reachable from
    \<open>main_window_init\<close>.  Lemmas: the slots that keep the password echo (the
    \<open>named_theorems\<close> collection \<open>window_frame\<close>), the successful paths of
    \<open>encrypt\<close> and \<open>decrypt\<close>, the settings on a platform without \<open>ansi\<close>.
  \<^item> \<open>UiWiring\<close>: the generated \<open>src/crippy_ui.py\<close> as data (actions, buttons,
    menus, shortcuts) and \<open>connectSlotsByName\<close> as name matching against the slots
    of \<open>MainWindow\<close>; \<open>event_signal\<close> ties each event of the window model to
    the signal it stands for.  The lemma \<open>ui_wiring\<close> evaluates the wiring: the
    actions \<open>file_open\<close> and \<open>file_save\<close> have neither a slot nor a menu.
  \<^item> \<open>UiSetup\<close>: \<open>setupUi\<close> and \<open>retranslateUi\<close> of \<open>src/crippy_ui.py\<close>
    as a program: each generated Qt call is a statement of \<open>ui_stmt\<close>, the
    definitions \<open>setup_ui_actions\<close> \<dots> \<open>retranslate_ui\<close> follow the code's
    blocks in order, and \<open>ui_run\<close> executes them on an explicit store of Qt
    objects (class, parent, object name, properties, layout items, actions), with
    \<open>AttributeError\<close> as \<open>None\<close> and the layouts reparenting their widgets as
    Qt does.  \<open>connect_slots_by_name\<close> runs Qt's matching on the built tree.
    Lemmas: every statement keeps the attributes pointing into the store; and,
    evaluated on the built window, checks that it agrees with the window model
    and with \<open>UiWiring\<close> (initial widgets, connections, menus, shortcuts,
    non-overlapping grid, distinct mnemonics).  These are computations on the
    one input-free program, not claims.
  \<^item> \<open>EventLoop\<close>: the \<open>__main__\<close> block of \<open>src/crippy.py\<close>: Qt's event loop as
    \<open>app_exec\<close>, a \<open>partial_function (option)\<close> that feeds an infinite stream of
    events to \<open>window_step\<close> until the window is closed (\<open>None\<close> when it never
    is), and \<open>crippy_main\<close>, which opens the window on the settings first.
    The window closes by \<open>File/Exit\<close> or by the event \<open>CloseWindow\<close> of the
    title bar's close button (Qt's default \<open>closeEvent\<close>, which \<open>MainWindow\<close>
    does not override).
  \<^item> \<open>WindowFiles\<close>: the file paths of the window: \<open>settings_ok\<close>, the
    invariant that the settings hold a dictionary whose two path keys are absent
    or strings, preserved by every event; the file dialog's answer in such a
    state; encrypting a file and decrypting it to another; the drop slot
    against \<open>Encrypt/File\<close>; cancelled dialogs; which slots leave the files
    alone (the collection \<open>files_frame\<close>).
  \<^item> \<open>Spec2Isabelle\<close> (this theory): the header and the property that spans
    the components writing files.

  \<^bold>\<open>Properties.\<close>  C1--C9 (DataObject): compression modes and what they
  restore, the auto-mode size bound, the invariants of the two factories, the
  \<open>as_str\<close>/\<open>from_str\<close> round trip, the target and the errors of \<open>to_file\<close>.
  C10--C15, C18--C20 (BlockRoundtrip): the encrypt/decrypt round trip, the
  wrapping as lossless bounded chunking, the marker and header errors, the
  input checks of \<open>encrypt_to_block\<close> in the code's order, the unsupported
  encoding, the body width of rendered blocks, and two departures from the
  spec, each for every cipher: a non-ASCII character in the body gives
  \<open>UnicodeEncodeError\<close> instead of the authentication error, and a file name
  \<open>a;b\<close> comes back as \<open>a\<close>.  C16 (KeyDerivation): every derived key is
  canonical BASE64 of the 32-byte PBKDF2 block and passes Fernet's key check.
  C17 (here): along any sequence of actions, only \<open>Decrypt/Input -> File\<close>
  writes files.  C21--C22 (Plural): the dotted digit groups and the filled
  template.  C23, C24, C29 (Settings): a write is read back and leaves the other
  keys; off Windows the store never works; on Windows it refines a dictionary
  for every sequence of calls.  C25--C28, C30, C31 (MainWindow): the password
  echo agrees with the check box in every reachable state (rule induction over
  \<open>reachable\<close>); off Windows \<open>Encrypt/File\<close> always ends in \<open>LookupError\<close>;
  encrypting, pasting the block and decrypting gives the text back through the
  window; \<open>File/New\<close> always returns to the initial widgets; an empty input
  only shows \<open>No input\<close>; a failed decryption only shows a message box.  C32
  (EventLoop): the program returns exactly when the user closes the window, with
  the state the actions up to the first close leave.  C33--C36 (WindowFiles):
  the settings invariant holds in every reachable state and there the dialog
  returns the user's answer; encrypting a file to the output and decrypting it
  to another file writes the same bytes there; a cancelled dialog changes
  nothing that lasts; dropping a file is \<open>Encrypt/File\<close> on that file but for
  the name shown.  The lemmas of \<open>PyStr\<close> on paths show that \<open>pathlib\<close>'s
  normal form is idempotent and never empty.

  \<^bold>\<open>Bounds and assumptions.\<close>  Every loop of the code is structural
  recursion or a \<open>function\<close> with a measure (\<open>chunks\<close>, \<open>nat_digits\<close>).
  Fuel appears only in the walks up Qt's parent chains (\<open>layout_widget_fuel\<close>,
  \<open>ancestors_fuel\<close>): the number of objects in the store, which a chain
  without repetition cannot exceed.  The event loop may run forever, so \<open>app_exec\<close> is a
  \<open>partial_function (option)\<close> and C32 proves when it returns, both ways, and
  what it returns.  Strings are
  restricted to U+0000--U+00FF; the theorems about foreign code assume only what
  their hypotheses state (zlib's decompress inverts its compress on the data at
  hand and compresses to non-empty data, the PRF has 32-byte outputs, Fernet
  decrypts its own URL-safe tokens, the UTF-8 codec inverts itself on the text).

  \<^bold>\<open>Not modelled.\<close>  The cryptographic primitives (AES, HMAC-SHA256, zlib's
  DEFLATE, the text codecs other than ASCII and UTF-8) are parameters: every
  theorem holds for any implementation with the stated property, and secrecy or
  unforgeability are not claims of this model; so is \<open>secrets.token_bytes\<close>,
  and \<open>generate_salt\<close> is modelled but has no property of its own.  The file
  system of \<open>DataObject\<close> fails \<open>open(..., "wb")\<close> only on a directory: a
  missing parent directory or a permission error is not modelled.
  Of \<open>src/crippy_ui.py\<close> every statement is modelled; what Qt makes of the
  property values (rendering, geometry, icons from \<open>crippy_rc\<close>) is not.
  \<open>MyPlainTextEdit.dragEnterEvent\<close> accepts URL drags and then defers to
  \<open>QPlainTextEdit.dragEnterEvent\<close>, whose verdict is Qt's; the model starts
  from the drop.  Message boxes
  and the about text are reduced to their titles.  \<open>src/test_crippy_app.py\<close>
  is the test suite; its scenarios reappear as witnesses.\<close>



end
